theory Spec2Isabelle
  imports Complex_Main "HOL-Library.Log_Nat"
begin

section \<open>JavaScript values\<close>

text \<open>
  The handlers of the device session read untyped payloads (parsed JSON on the 950-type
  path, attribute bags on the non-950 path) and coerce their fields with the built-in
  operations of JavaScript. The values are modelled as a datatype. A number is a
  rational or one of the three special values; every arithmetic operation rounds its exact
  result to the nearest IEEE double (\<open>double_of\<close> below), so a computed number is the
  double the program holds. The sign of zero is not modelled. An object is an association
  list in the order of its keys, searched from the front.
\<close>

datatype jsnum = Fin rat | NaN | PosInf | NegInf

datatype json =
    JUndefined
  | JNull
  | JBool bool
  | JNum jsnum
  | JStr string
  | JArr "json list"
  | JObj "(string \<times> json) list"

datatype error = TypeError

subsection \<open>The state of a 950-type session\<close>

text \<open>
  The fields of \<open>VacBot_950type\<close> (and of its base class) that the handlers of this
  development read or write. A field holds any JavaScript value, as in the source; the
  tables indexed by a property key are maps from the key's string. A key that names a
  member the table inherits (\<open>length\<close> or \<open>push\<close> of the array behind \<open>cleanLog\<close>, say)
  is not modelled: the keys are map and log identifiers.
\<close>

record vacbot =
  currentSpotAreas :: json
  currentCustomAreaValues :: json
  cleanReport :: json
  chargeStatus :: json
  batteryLevel :: json
  batteryIsLow :: json
  components :: "string \<rightharpoonup> json"
  chargePosition :: json
  deebotPosition :: json
  mapSpotAreaInfos :: "string \<rightharpoonup> json"
  currentMapMID :: json
  mapVirtualBoundaries :: "string \<rightharpoonup> json"
  mapVirtualBoundariesResponses :: "string \<rightharpoonup> bool \<times> bool"
  cleanLog :: "string \<rightharpoonup> json"
  cleanLog_lastImageUrl :: json
  cleanLog_lastTimestamp :: json
  cleanLog_lastSquareMeters :: json
  cleanLog_lastTotalTime :: json
  cleanLog_lastTotalTimeString :: json
  errorCode :: json
  errorDescription :: json
  createMapDataObject :: json
  createMapImage :: json
  createMapImageOnly :: json
  emitFullLifeSpanEvent :: json
  lastComponentValues :: "string \<rightharpoonup> json"
  deviceClass :: json

text \<open>
  What \<open>run\<close> does to the outside: a request handed to \<open>sendCommand\<close>, written as the
  name of the command class and the arguments of its constructor, or the call of the
  clean log REST interface.
\<close>

datatype command = Cmd string "json list"

datatype effect = Send command | CallCleanResultsLogsApi

subsection \<open>What the handlers take from outside\<close>

text \<open>
  The lookup tables (\<open>dictionary\<close>, \<open>errorCodes\<close>), \<open>mapTools\<close>, \<open>tools\<close> and the base
  class are not part of the sources; a handler takes them as the fields of an
  environment, and every theorem holds for every environment. Two corners of the
  language are taken the same way, because they depend on the binary representation of a
  number: the printed form of a number that is not an integer below \<open>10^21\<close>, and the
  numeric value of a string that is not a plain decimal integer.

  The classes of \<open>mapTemplate\<close> are taken as their constructors and their \<open>push\<close>
  methods: \<open>newMapVirtualBoundaries mapID\<close> is a fresh container,
  \<open>pushVirtualBoundary c b\<close> the container \<open>c\<close> after \<open>c.push(b)\<close>. The method \<open>run\<close> of
  the base class is \<open>super_run\<close>; the capability queries of the base class read the
  session.
\<close>

record env =
  FractionToString :: "jsnum \<Rightarrow> string"
  StringToNumber_other :: "string \<Rightarrow> jsnum"
  CLEAN_MODE_FROM_ECOVACS :: "string \<rightharpoonup> string"
  COMPONENT_FROM_ECOVACS :: "string \<rightharpoonup> string"
  errorCodes :: "string \<rightharpoonup> string"
  isPositionInSpotArea :: "jsnum \<Rightarrow> jsnum \<Rightarrow> json \<Rightarrow> json"
  getDistanceToChargingStation :: "string \<Rightarrow> string \<Rightarrow> json"
  getSpotAreaName :: "vacbot \<Rightarrow> json \<Rightarrow> json"
  getTimeStringFormatted :: "jsnum \<Rightarrow> json"
  newMapSpotAreas :: "json \<Rightarrow> json \<Rightarrow> json"
  newMapSpotArea :: "json \<Rightarrow> json"
  pushSpotArea :: "json \<Rightarrow> json \<Rightarrow> json"
  newMapVirtualBoundaries :: "json \<Rightarrow> json"
  newMapVirtualBoundary :: "json \<Rightarrow> json \<Rightarrow> json"
  pushVirtualBoundary :: "json \<Rightarrow> json \<Rightarrow> json"
  COMPONENT_TO_ECOVACS :: "string \<rightharpoonup> string"
  super_run :: "json \<Rightarrow> json list \<Rightarrow> vacbot \<Rightarrow> vacbot \<times> (error + effect list)"
  hasMainBrush :: "vacbot \<Rightarrow> json"
  hasUnitCareInfo :: "vacbot \<Rightarrow> json"
  hasRoundMopInfo :: "vacbot \<Rightarrow> json"
  isMapImageSupported :: "vacbot \<Rightarrow> json"
  getModelType :: "vacbot \<Rightarrow> json"
  isValidVirtualWallType :: "json \<Rightarrow> json"
  isAirPurifier :: "json \<Rightarrow> json"

subsection \<open>Doubles\<close>

text \<open>
  \<open>double_of q\<close> is the double nearest to the rational \<open>q\<close>: the binade of \<open>q\<close> (never
  below the smallest normal one) fixes the spacing of the doubles around \<open>q\<close>, as 52
  binary places below its leading bit; \<open>q\<close> is rounded to the nearest multiple of the
  spacing, to the even one of two that are equally near; a result past the largest double
  is infinite.
\<close>

definition num_sign_neg :: "jsnum \<Rightarrow> bool" where
  "num_sign_neg a = (case a of Fin q \<Rightarrow> q < 0 | NegInf \<Rightarrow> True | _ \<Rightarrow> False)"

definition num_inf :: "bool \<Rightarrow> jsnum" where
  "num_inf neg = (if neg then NegInf else PosInf)"

definition pow2 :: "int \<Rightarrow> rat" where
  "pow2 k = (if 0 \<le> k then 2 ^ nat k else 1 / 2 ^ nat (- k))"

text \<open>The binade of \<open>q \<noteq> 0\<close>: the \<open>d\<close> with \<open>2^d \<le> |q| < 2^(d+1)\<close>, from the bit lengths
  of numerator and denominator.\<close>

definition binade :: "rat \<Rightarrow> int" where
  "binade q =
     (let (a, b) = quotient_of \<bar>q\<bar>;
          d = bitlen a - bitlen b
      in if pow2 d \<le> \<bar>q\<bar> then d else d - 1)"

definition round_even :: "rat \<Rightarrow> int" where
  "round_even x =
     (let n = \<lfloor>x\<rfloor>; r = x - of_int n
      in if r < 1 / 2 \<or> (r = 1 / 2 \<and> even n) then n else n + 1)"

definition double_of :: "rat \<Rightarrow> jsnum" where
  "double_of q =
     (if q = 0 then Fin 0
      else
        let e = max (binade q) (- 1022);
            ulp = pow2 (e - 52);
            m = round_even (\<bar>q\<bar> / ulp)
        in if 1023 < e then num_inf (q < 0)
           else if e = 1023 \<and> m = 9007199254740992 then num_inf (q < 0)
           else Fin ((if q < 0 then - 1 else 1) * of_int m * ulp))"

subsection \<open>Strings and numbers\<close>

definition is_space :: "char \<Rightarrow> bool" where
  "is_space c = (of_char c \<in> {9, 10, 11, 12, 13, 32, 160 :: nat})"

definition digit_val :: "char \<Rightarrow> nat option" where
  "digit_val c =
     (let n = (of_char c :: nat) in
      if 48 \<le> n \<and> n \<le> 57 then Some (n - 48)
      else if 97 \<le> n \<and> n \<le> 122 then Some (n - 87)
      else if 65 \<le> n \<and> n \<le> 90 then Some (n - 55)
      else None)"

definition is_digit :: "nat \<Rightarrow> char \<Rightarrow> bool" where
  "is_digit radix c = (case digit_val c of None \<Rightarrow> False | Some d \<Rightarrow> d < radix)"

fun digits_value :: "nat \<Rightarrow> nat \<Rightarrow> string \<Rightarrow> nat" where
  "digits_value radix acc [] = acc"
| "digits_value radix acc (c # cs) =
     digits_value radix (acc * radix + (case digit_val c of None \<Rightarrow> 0 | Some d \<Rightarrow> d)) cs"

text \<open>
  \<open>parseInt(string)\<close> with no radix: leading white space is skipped, a sign is read, a
  prefix \<open>0x\<close> selects radix 16, and the longest run of digits is the value, as the
  double nearest to it; no digit gives \<open>NaN\<close>.
\<close>

definition parseInt_str :: "string \<Rightarrow> jsnum" where
  "parseInt_str s =
     (let t = dropWhile is_space s;
          neg = (t \<noteq> [] \<and> hd t = CHR ''-'');
          u = (if t \<noteq> [] \<and> (hd t = CHR ''-'' \<or> hd t = CHR ''+'') then tl t else t);
          hex = (take 2 u = ''0x'' \<or> take 2 u = ''0X'');
          radix = (if hex then 16 else 10);
          v = (if hex then drop 2 u else u);
          ds = takeWhile (is_digit radix) v
      in if ds = [] then NaN
         else double_of (of_int ((if neg then - 1 else 1) * int (digits_value radix 0 ds))))"

fun dec_nat :: "nat \<Rightarrow> string" where
  "dec_nat n = (if n < 10 then [''0123456789'' ! n] else dec_nat (n div 10) @ [''0123456789'' ! (n mod 10)])"

definition dec_int :: "int \<Rightarrow> string" where
  "dec_int i = (if i < 0 then CHR ''-'' # dec_nat (nat (- i)) else dec_nat (nat i))"

definition is_plain_int :: "rat \<Rightarrow> bool" where
  "is_plain_int q = (of_int \<lfloor>q\<rfloor> = q \<and> \<bar>q\<bar> < 10 ^ 21)"

text \<open>\<open>Number::toString\<close>: an integer below \<open>10^21\<close> prints as its decimal digits.\<close>

definition NumberToString :: "env \<Rightarrow> jsnum \<Rightarrow> string" where
  "NumberToString e n =
     (case n of
        NaN \<Rightarrow> ''NaN''
      | PosInf \<Rightarrow> ''Infinity''
      | NegInf \<Rightarrow> ''-Infinity''
      | Fin q \<Rightarrow> if is_plain_int q then dec_int \<lfloor>q\<rfloor> else FractionToString e n)"

fun join_comma :: "string list \<Rightarrow> string" where
  "join_comma [] = []"
| "join_comma [s] = s"
| "join_comma (s # t # ss) = s @ '','' @ join_comma (t # ss)"

text \<open>\<open>ToString\<close>; an array prints its elements joined by commas, \<open>undefined\<close> and \<open>null\<close>
  among them as the empty string.\<close>

fun ToString :: "env \<Rightarrow> json \<Rightarrow> string" where
  "ToString e JUndefined = ''undefined''"
| "ToString e JNull = ''null''"
| "ToString e (JBool b) = (if b then ''true'' else ''false'')"
| "ToString e (JNum n) = NumberToString e n"
| "ToString e (JStr s) = s"
| "ToString e (JArr xs) =
     join_comma (map (\<lambda>x. if x = JUndefined \<or> x = JNull then [] else ToString e x) xs)"
| "ToString e (JObj kvs) = ''[object Object]''"

definition trim :: "string \<Rightarrow> string" where
  "trim s = rev (dropWhile is_space (rev (dropWhile is_space s)))"

definition is_dec_int :: "string \<Rightarrow> bool" where
  "is_dec_int t =
     (let u = (if t \<noteq> [] \<and> (hd t = CHR ''-'' \<or> hd t = CHR ''+'') then tl t else t)
      in u \<noteq> [] \<and> list_all (is_digit 10) u)"

text \<open>\<open>StringToNumber\<close>: white space is trimmed, the empty string is 0, a signed run of
  decimal digits is the double nearest to its value.\<close>

definition StringToNumber :: "env \<Rightarrow> string \<Rightarrow> jsnum" where
  "StringToNumber e s =
     (let t = trim s in
      if t = [] then Fin 0
      else if is_dec_int t then parseInt_str t
      else StringToNumber_other e t)"

text \<open>\<open>Number(v)\<close>.\<close>

definition ToNumber :: "env \<Rightarrow> json \<Rightarrow> jsnum" where
  "ToNumber e v =
     (case v of
        JUndefined \<Rightarrow> NaN
      | JNull \<Rightarrow> Fin 0
      | JBool b \<Rightarrow> (if b then Fin 1 else Fin 0)
      | JNum n \<Rightarrow> n
      | JStr s \<Rightarrow> StringToNumber e s
      | JArr xs \<Rightarrow> StringToNumber e (ToString e v)
      | JObj kvs \<Rightarrow> NaN)"

text \<open>\<open>parseInt(v)\<close> reads the printed form of \<open>v\<close>.\<close>

definition parseInt :: "env \<Rightarrow> json \<Rightarrow> jsnum" where
  "parseInt e v = parseInt_str (ToString e v)"

text \<open>Truthiness, as \<open>if (v)\<close> and \<open>!v\<close> read it.\<close>

definition truthy :: "json \<Rightarrow> bool" where
  "truthy v =
     (case v of
        JUndefined \<Rightarrow> False
      | JNull \<Rightarrow> False
      | JBool b \<Rightarrow> b
      | JNum n \<Rightarrow> n \<noteq> NaN \<and> n \<noteq> Fin 0
      | JStr s \<Rightarrow> s \<noteq> []
      | JArr xs \<Rightarrow> True
      | JObj kvs \<Rightarrow> True)"

text \<open>
  \<open>a === b\<close>. Two objects are equal only when they are the same object; an object of a
  freshly parsed payload is never the object held in the session, so the model answers
  \<open>False\<close> for arrays and objects.
\<close>

definition strict_eq :: "json \<Rightarrow> json \<Rightarrow> bool" where
  "strict_eq a b =
     (case (a, b) of
        (JUndefined, JUndefined) \<Rightarrow> True
      | (JNull, JNull) \<Rightarrow> True
      | (JBool x, JBool y) \<Rightarrow> x = y
      | (JNum x, JNum y) \<Rightarrow> x \<noteq> NaN \<and> x = y
      | (JStr x, JStr y) \<Rightarrow> x = y
      | _ \<Rightarrow> False)"

text \<open>The order of numbers; every comparison with \<open>NaN\<close> is false.\<close>

definition num_less :: "jsnum \<Rightarrow> jsnum \<Rightarrow> bool" where
  "num_less a b =
     (case (a, b) of
        (NaN, _) \<Rightarrow> False
      | (_, NaN) \<Rightarrow> False
      | (Fin x, Fin y) \<Rightarrow> x < y
      | (NegInf, NegInf) \<Rightarrow> False
      | (NegInf, _) \<Rightarrow> True
      | (_, PosInf) \<Rightarrow> (a \<noteq> PosInf)
      | _ \<Rightarrow> False)"

definition num_ge :: "jsnum \<Rightarrow> jsnum \<Rightarrow> bool" where
  "num_ge a b = (a \<noteq> NaN \<and> b \<noteq> NaN \<and> \<not> num_less a b)"

text \<open>\<open>typeof v === 'object'\<close>.\<close>

definition is_object :: "json \<Rightarrow> bool" where
  "is_object v = (case v of JNull \<Rightarrow> True | JArr xs \<Rightarrow> True | JObj kvs \<Rightarrow> True | _ \<Rightarrow> False)"

text \<open>
  \<open>v[k]\<close> for a key the handlers name. Reading a property of \<open>undefined\<close> or \<open>null\<close>
  throws; an object answers with the value of the key or \<open>undefined\<close>. None of the keys
  the handlers read is an index or a member of a prototype, so every other value answers
  \<open>undefined\<close>; an index is read with \<open>get_index\<close>.
\<close>

definition get :: "json \<Rightarrow> string \<Rightarrow> error + json" where
  "get v k =
     (case v of
        JUndefined \<Rightarrow> Inl TypeError
      | JNull \<Rightarrow> Inl TypeError
      | JObj kvs \<Rightarrow> Inr (case map_of kvs k of None \<Rightarrow> JUndefined | Some x \<Rightarrow> x)
      | _ \<Rightarrow> Inr JUndefined)"

definition get_index :: "json \<Rightarrow> nat \<Rightarrow> error + json" where
  "get_index v i =
     (case v of
        JUndefined \<Rightarrow> Inl TypeError
      | JNull \<Rightarrow> Inl TypeError
      | JArr xs \<Rightarrow> Inr (if i < length xs then xs ! i else JUndefined)
      | JObj kvs \<Rightarrow> Inr (case map_of kvs (dec_nat i) of None \<Rightarrow> JUndefined | Some x \<Rightarrow> x)
      | JStr s \<Rightarrow> Inr (if i < length s then JStr [s ! i] else JUndefined)
      | _ \<Rightarrow> Inr JUndefined)"

definition hasOwnProperty :: "json \<Rightarrow> string \<Rightarrow> error + bool" where
  "hasOwnProperty v k =
     (case v of
        JUndefined \<Rightarrow> Inl TypeError
      | JNull \<Rightarrow> Inl TypeError
      | JObj kvs \<Rightarrow> Inr (k \<in> fst ` set kvs)
      | _ \<Rightarrow> Inr False)"

text \<open>\<open>v[k]\<close> where \<open>v\<close> is known not to be \<open>undefined\<close> or \<open>null\<close>.\<close>

definition field_of :: "json \<Rightarrow> string \<Rightarrow> json" where
  "field_of v k = (case get v k of Inl err \<Rightarrow> JUndefined | Inr x \<Rightarrow> x)"

text \<open>A dictionary read \<open>table[v]\<close>: the key is the printed form of \<open>v\<close>.\<close>

definition lookup :: "env \<Rightarrow> (string \<rightharpoonup> string) \<Rightarrow> json \<Rightarrow> json" where
  "lookup e table v = (case table (ToString e v) of None \<Rightarrow> JUndefined | Some s \<Rightarrow> JStr s)"

subsection \<open>Arithmetic on numbers\<close>

text \<open>\<open>a / b\<close>: the quotient as a double; a finite number over zero is infinite, zero over
  zero is \<open>NaN\<close>.\<close>

definition num_div :: "jsnum \<Rightarrow> jsnum \<Rightarrow> jsnum" where
  "num_div a b =
     (case (a, b) of
        (NaN, _) \<Rightarrow> NaN
      | (_, NaN) \<Rightarrow> NaN
      | (Fin x, Fin y) \<Rightarrow>
          (if y \<noteq> 0 then double_of (x / y) else if x = 0 then NaN else num_inf (x < 0))
      | (Fin x, _) \<Rightarrow> Fin 0
      | (_, Fin y) \<Rightarrow> num_inf (num_sign_neg a \<noteq> (y < 0))
      | _ \<Rightarrow> NaN)"

text \<open>\<open>a * b\<close>: the product as a double; zero times an infinite number is \<open>NaN\<close>.\<close>

definition num_mul :: "jsnum \<Rightarrow> jsnum \<Rightarrow> jsnum" where
  "num_mul a b =
     (case (a, b) of
        (NaN, _) \<Rightarrow> NaN
      | (_, NaN) \<Rightarrow> NaN
      | (Fin x, Fin y) \<Rightarrow> double_of (x * y)
      | (Fin x, _) \<Rightarrow> (if x = 0 then NaN else num_inf (num_sign_neg a \<noteq> num_sign_neg b))
      | (_, Fin y) \<Rightarrow> (if y = 0 then NaN else num_inf (num_sign_neg a \<noteq> num_sign_neg b))
      | _ \<Rightarrow> num_inf (num_sign_neg a \<noteq> num_sign_neg b))"

text \<open>
  \<open>Number(x.toFixed(2))\<close>: \<open>toFixed\<close> prints the multiple of one hundredth nearest to
  the double \<open>x\<close>, the larger in magnitude of two that are equally near, and \<open>Number\<close>
  reads the digits back as the nearest double; a number of magnitude \<open>10^21\<close> or more,
  \<open>NaN\<close> and the infinite numbers are printed and read back unchanged.
\<close>

definition round_hundredths :: "rat \<Rightarrow> rat" where
  "round_hundredths q = (if q < 0 then - 1 else 1) * of_int \<lfloor>\<bar>q\<bar> * 100 + 1 / 2\<rfloor> / 100"

definition toFixed2 :: "jsnum \<Rightarrow> jsnum" where
  "toFixed2 a =
     (case a of
        Fin q \<Rightarrow> (if 10 ^ 21 \<le> \<bar>q\<bar> then Fin q else double_of (round_hundredths q))
      | _ \<Rightarrow> a)"

subsection \<open>Sequencing with exceptions\<close>

text \<open>
  A handler returns the session as it leaves it and either the exception it threw or its
  result: what it wrote before a throw stays written. \<open>attempt s r f\<close> continues with the
  value of \<open>r\<close>, or stops with the session \<open>s\<close> when \<open>r\<close> throws.
\<close>

definition attempt :: "'s \<Rightarrow> error + 'a \<Rightarrow> ('a \<Rightarrow> 's \<times> (error + 'b)) \<Rightarrow> 's \<times> (error + 'b)" where
  "attempt s r f = (case r of Inl err \<Rightarrow> (s, Inl err) | Inr v \<Rightarrow> f v)"

text \<open>The values \<open>for (k in v)\<close> visits, as \<open>v[k]\<close>: the elements of an array, the values of
  an object's keys, the characters of a string; nothing for any other value.\<close>

definition for_in_values :: "json \<Rightarrow> json list" where
  "for_in_values v =
     (case v of
        JArr xs \<Rightarrow> xs
      | JObj kvs \<Rightarrow> map (\<lambda>k. case map_of kvs k of None \<Rightarrow> JUndefined | Some x \<Rightarrow> x) (remdups (map fst kvs))
      | JStr s \<Rightarrow> map (\<lambda>c. JStr [c]) s
      | _ \<Rightarrow> [])"

text \<open>The length of \<open>v.split(',')\<close>; a value that is not a string has no \<open>split\<close>.\<close>

definition split_comma_length :: "json \<Rightarrow> error + nat" where
  "split_comma_length v =
     (case v of JStr s \<Rightarrow> Inr (Suc (length (filter (\<lambda>c. c = CHR '','') s))) | _ \<Rightarrow> Inl TypeError)"

section \<open>The 950-type handlers\<close>

text \<open>
  Each handler follows its method of \<open>VacBot_950type\<close> statement by statement. Calls that
  only write to the log are left out. A call of \<open>this.run\<close> is returned as the name of
  the command it asks for.
\<close>

subsection \<open>Clean state\<close>

text \<open>The body of \<open>handleCleanInfo\<close> after its first two assignments; \<open>s0\<close> is the session
  they leave.\<close>

definition handleCleanInfo_body :: "env \<Rightarrow> json \<Rightarrow> vacbot \<Rightarrow> vacbot \<times> (error + string list)" where
  "handleCleanInfo_body e payload s0 =
     (attempt s0 (get payload ''state'') (\<lambda>state.
      if strict_eq state (JStr ''clean'') then
        attempt s0 (get payload ''cleanState'') (\<lambda>cleanState.
        attempt s0 (get cleanState ''type'') (\<lambda>type0.
        attempt s0 (get cleanState ''content'') (\<lambda>content.
        attempt s0 (if is_object content then get content ''type'' else Inr type0) (\<lambda>type.
        attempt s0 (get cleanState ''motionState'') (\<lambda>motionState.
        let s1 = s0\<lparr>cleanReport :=
                   (if strict_eq motionState (JStr ''working'')
                    then lookup e (CLEAN_MODE_FROM_ECOVACS e) type
                    else lookup e (CLEAN_MODE_FROM_ECOVACS e) motionState)\<rparr> in
        if strict_eq type (JStr ''spotArea'') \<or> strict_eq type (JStr ''customArea'') then
          attempt s1 (if is_object content then get content ''value'' else Inr content) (\<lambda>areaValues.
          if strict_eq type (JStr ''customArea'') then
            (if is_object content then
               attempt s1 (get content ''donotClean'') (\<lambda>doNotClean.
               if strict_eq doNotClean (JNum (Fin 1)) then
                 (s1\<lparr>cleanReport := JStr ''setLocation'', currentCustomAreaValues := areaValues\<rparr>, Inr [])
               else
                 attempt s1 (split_comma_length areaValues) (\<lambda>n.
                 if n = 2 then
                   (s1\<lparr>cleanReport := JStr ''setLocation'', currentCustomAreaValues := areaValues\<rparr>, Inr [])
                 else (s1\<lparr>currentCustomAreaValues := areaValues\<rparr>, Inr [])))
             else (s1\<lparr>currentCustomAreaValues := areaValues\<rparr>, Inr []))
          else if strict_eq type (JStr ''spotArea'') then
            (s1\<lparr>currentSpotAreas := areaValues\<rparr>, Inr [])
          else (s1, Inr []))
        else (s1, Inr []))))))
      else
        attempt s0 (get payload ''trigger'') (\<lambda>trigger.
        if strict_eq trigger (JStr ''alert'') then (s0\<lparr>cleanReport := JStr ''alert''\<rparr>, Inr [])
        else
          let mode = lookup e (CLEAN_MODE_FROM_ECOVACS e) state;
              s1 = s0\<lparr>cleanReport := mode\<rparr> in
          if strict_eq mode (JStr ''returning'') then
            (if truthy mode then (s1\<lparr>chargeStatus := mode\<rparr>, Inr []) else (s1, Inr []))
          else if strict_eq mode (JStr ''idle'') then (s1, Inr [''GetChargeState''])
          else (s1, Inr []))))"

definition handleCleanInfo :: "env \<Rightarrow> json \<Rightarrow> vacbot \<Rightarrow> vacbot \<times> (error + string list)" where
  "handleCleanInfo e payload s =
     handleCleanInfo_body e payload
       (s\<lparr>currentSpotAreas := JStr [], currentCustomAreaValues := JStr []\<rparr>)"

subsection \<open>Battery\<close>

definition handleBattery :: "env \<Rightarrow> json \<Rightarrow> vacbot \<Rightarrow> vacbot \<times> (error + unit)" where
  "handleBattery e payload s =
     attempt s (get payload ''value'') (\<lambda>v.
     let s1 = s\<lparr>batteryLevel := v\<rparr> in
     attempt s1 (hasOwnProperty payload ''isLow'') (\<lambda>has.
     if has then
       attempt s1 (get payload ''isLow'') (\<lambda>isLow.
       (s1\<lparr>batteryIsLow := JBool (truthy (JNum (ToNumber e isLow)))\<rparr>, Inr ()))
     else
       (s1\<lparr>batteryIsLow := JBool (num_ge (ToNumber e (batteryLevel s1)) (Fin 15))\<rparr>, Inr ())))"

subsection \<open>Life span\<close>

text \<open>One turn of the loop of \<open>handleLifespan\<close>, for the element \<open>p\<close> of the payload.\<close>

definition handleLifespan_step :: "env \<Rightarrow> json \<Rightarrow> vacbot \<Rightarrow> vacbot \<times> (error + unit)" where
  "handleLifespan_step e p s =
     (if truthy p then
        attempt s (get p ''type'') (\<lambda>type.
        let known = lookup e (COMPONENT_FROM_ECOVACS e) type;
            component = (if truthy known then known else type) in
        attempt s (get p ''left'') (\<lambda>left.
        attempt s (get p ''total'') (\<lambda>total.
        let lifespan = num_mul (num_div (parseInt e left) (parseInt e total)) (Fin 100) in
        (s\<lparr>components := (components s)(ToString e component \<mapsto> JNum (toFixed2 lifespan))\<rparr>, Inr ()))))
      else (s, Inr ()))"

fun handleLifespan_loop :: "env \<Rightarrow> json list \<Rightarrow> vacbot \<Rightarrow> vacbot \<times> (error + unit)" where
  "handleLifespan_loop e [] s = (s, Inr ())"
| "handleLifespan_loop e (p # ps) s =
     (case handleLifespan_step e p s of
        (s1, Inl err) \<Rightarrow> (s1, Inl err)
      | (s1, Inr u) \<Rightarrow> handleLifespan_loop e ps s1)"

definition handleLifespan :: "env \<Rightarrow> json \<Rightarrow> vacbot \<Rightarrow> vacbot \<times> (error + unit)" where
  "handleLifespan e payload s = handleLifespan_loop e (for_in_values payload) s"

text \<open>
  What one element \<open>p\<close> of the payload makes the handler store: the key \<open>component\<close> (the
  dictionary's name for the type, or the type itself when the dictionary has none) and
  the value \<open>Number(lifespan.toFixed(2))\<close> with \<open>lifespan = parseInt(left) / parseInt(total)
  * 100\<close>.
\<close>

definition component_of :: "env \<Rightarrow> json \<Rightarrow> string" where
  "component_of e p =
     (let type = field_of p ''type'';
          known = lookup e (COMPONENT_FROM_ECOVACS e) type
      in ToString e (if truthy known then known else type))"

definition lifespan_of :: "env \<Rightarrow> json \<Rightarrow> jsnum" where
  "lifespan_of e p =
     toFixed2 (num_mul (num_div (parseInt e (field_of p ''left'')) (parseInt e (field_of p ''total'')))
                 (Fin 100))"

subsection \<open>Position\<close>

text \<open>
  \<open>handlePos\<close> has two parts, for the charging station and for the robot. In a chain of
  \<open>||\<close> only the first comparison can throw, so the model reads all the operands first.
\<close>

definition handlePos_chargePos :: "env \<Rightarrow> json \<Rightarrow> vacbot \<Rightarrow> vacbot \<times> (error + unit)" where
  "handlePos_chargePos e chargePos s =
     (if truthy chargePos then
        attempt s (get_index chargePos 0) (\<lambda>c0.
        attempt s (get c0 ''x'') (\<lambda>cx.
        attempt s (get (chargePosition s) ''x'') (\<lambda>px.
        attempt s (get c0 ''y'') (\<lambda>cy.
        attempt s (get (chargePosition s) ''y'') (\<lambda>py.
        attempt s (get c0 ''a'') (\<lambda>ca.
        attempt s (get (chargePosition s) ''a'') (\<lambda>pa.
        let changed = (\<not> strict_eq cx px \<or> \<not> strict_eq cy py \<or> \<not> strict_eq ca pa) in
        if changed then
          (s\<lparr>chargePosition :=
               JObj [(''x'', cx), (''y'', cy), (''a'', ca), (''changeFlag'', JBool True)]\<rparr>, Inr ())
        else (s, Inr ()))))))))
      else (s, Inr ()))"

definition handlePos_deebotPos :: "env \<Rightarrow> json \<Rightarrow> vacbot \<Rightarrow> vacbot \<times> (error + unit)" where
  "handlePos_deebotPos e deebotPos s =
     (if is_object deebotPos then
        attempt s (get deebotPos ''x'') (\<lambda>dx.
        attempt s (get (deebotPosition s) ''x'') (\<lambda>px.
        attempt s (get deebotPos ''y'') (\<lambda>dy.
        attempt s (get (deebotPosition s) ''y'') (\<lambda>py.
        attempt s (get deebotPos ''a'') (\<lambda>da.
        attempt s (get (deebotPosition s) ''a'') (\<lambda>pa.
        attempt s (get deebotPos ''invalid'') (\<lambda>dinvalid.
        attempt s (get (deebotPosition s) ''isInvalid'') (\<lambda>pinvalid.
        attempt s (get (deebotPosition s) ''currentSpotAreaID'') (\<lambda>pid.
        let changed = (\<not> strict_eq dx px \<or> \<not> strict_eq dy py \<or> \<not> strict_eq da pa \<or>
                       \<not> strict_eq dinvalid pinvalid \<or> strict_eq pid (JStr ''unknown'')) in
        if changed then
          let posX = ToNumber e dx;
              posY = ToNumber e dy;
              currentSpotAreaID = isPositionInSpotArea e posX posY
                (case mapSpotAreaInfos s (ToString e (currentMapMID s)) of
                   None \<Rightarrow> JUndefined | Some infos \<Rightarrow> infos);
              isInvalid = strict_eq (JNum (ToNumber e dinvalid)) (JNum (Fin 1)) in
          attempt s
            (if truthy (chargePosition s) then
               (case get (chargePosition s) ''x'' of
                  Inl err \<Rightarrow> Inl err
                | Inr cpx \<Rightarrow>
                    (case get (chargePosition s) ''y'' of
                       Inl err \<Rightarrow> Inl err
                     | Inr cpy \<Rightarrow>
                         Inr (getDistanceToChargingStation e
                                (ToString e dx @ '','' @ ToString e dy)
                                (ToString e cpx @ '','' @ ToString e cpy))))
             else Inr JNull) (\<lambda>distanceToChargingStation.
          (s\<lparr>deebotPosition :=
               JObj [(''x'', dx), (''y'', dy), (''a'', da),
                     (''isInvalid'', JBool isInvalid),
                     (''currentSpotAreaID'', currentSpotAreaID),
                     (''currentSpotAreaName'', getSpotAreaName e s currentSpotAreaID),
                     (''changeFlag'', JBool True),
                     (''distanceToChargingStation'', distanceToChargingStation)]\<rparr>, Inr ()))
        else (s, Inr ()))))))))))
      else (s, Inr ()))"

definition handlePos :: "env \<Rightarrow> json \<Rightarrow> vacbot \<Rightarrow> vacbot \<times> (error + unit)" where
  "handlePos e payload s =
     attempt s (get payload ''chargePos'') (\<lambda>chargePos.
     case handlePos_chargePos e chargePos s of
       (s1, Inl err) \<Rightarrow> (s1, Inl err)
     | (s1, Inr u) \<Rightarrow>
         attempt s1 (get payload ''deebotPos'') (\<lambda>deebotPos. handlePos_deebotPos e deebotPos s1))"

subsection \<open>Clean logs\<close>

text \<open>The time value of \<open>new Date(t)\<close>, which stands for the date object.\<close>

definition Date_of :: "jsnum \<Rightarrow> jsnum" where
  "Date_of t =
     (case t of
        Fin q \<Rightarrow> (if \<bar>q\<bar> \<le> 8640000000000000
                  then Fin ((if q < 0 then - 1 else 1) * of_int \<lfloor>\<bar>q\<bar>\<rfloor>) else NaN)
      | _ \<Rightarrow> NaN)"

text \<open>One turn of the loop of \<open>handleCleanLogs\<close>, for the entry \<open>logEntry\<close>.\<close>

definition handleCleanLogs_step :: "env \<Rightarrow> json \<Rightarrow> vacbot \<Rightarrow> vacbot \<times> (error + unit)" where
  "handleCleanLogs_step e logEntry s =
     attempt s (get logEntry ''id'') (\<lambda>id.
     let key = ToString e id in
     if (case cleanLog s key of None \<Rightarrow> True | Some x \<Rightarrow> \<not> truthy x) then
       attempt s (get logEntry ''area'') (\<lambda>area.
       attempt s (get logEntry ''ts'') (\<lambda>ts.
       attempt s (get logEntry ''last'') (\<lambda>last.
       attempt s (get logEntry ''imageUrl'') (\<lambda>imageUrl.
       attempt s (get logEntry ''type'') (\<lambda>type.
       attempt s (get logEntry ''stopReason'') (\<lambda>stopReason.
       let squareMeters = parseInt e area;
           timestamp = ToNumber e ts;
           date = Date_of (num_mul timestamp (Fin 1000));
           len = parseInt e last;
           totalTimeString = getTimeStringFormatted e len;
           s1 = (if num_less (ToNumber e (cleanLog_lastTimestamp s)) timestamp \<or>
                    \<not> truthy (cleanLog_lastTimestamp s)
                 then s\<lparr>cleanLog_lastImageUrl := imageUrl,
                        cleanLog_lastTimestamp := JNum timestamp,
                        cleanLog_lastSquareMeters := JNum squareMeters,
                        cleanLog_lastTotalTime := JNum len,
                        cleanLog_lastTotalTimeString := totalTimeString\<rparr>
                 else s) in
       (s1\<lparr>cleanLog := (cleanLog s1)(key \<mapsto>
             JObj [(''squareMeters'', JNum squareMeters),
                   (''timestamp'', JNum timestamp),
                   (''date'', JNum date),
                   (''lastTime'', JNum len),
                   (''totalTime'', JNum len),
                   (''totalTimeFormatted'', totalTimeString),
                   (''imageUrl'', imageUrl),
                   (''type'', type),
                   (''stopReason'', stopReason)])\<rparr>, Inr ())))))))
     else (s, Inr ()))"

fun handleCleanLogs_loop :: "env \<Rightarrow> json list \<Rightarrow> vacbot \<Rightarrow> vacbot \<times> (error + unit)" where
  "handleCleanLogs_loop e [] s = (s, Inr ())"
| "handleCleanLogs_loop e (logEntry # logs) s =
     (case handleCleanLogs_step e logEntry s of
        (s1, Inl err) \<Rightarrow> (s1, Inl err)
      | (s1, Inr u) \<Rightarrow> handleCleanLogs_loop e logs s1)"

text \<open>The list the loop runs over: \<open>payload.logs\<close>, else \<open>payload.log\<close>, else
  \<open>payload.data\<close>, else the empty list.\<close>

definition cleanLogs_of :: "json \<Rightarrow> error + json" where
  "cleanLogs_of payload =
     (case hasOwnProperty payload ''logs'' of
        Inl err \<Rightarrow> Inl err
      | Inr has_logs \<Rightarrow>
          if has_logs then get payload ''logs''
          else if hasOwnProperty payload ''log'' = Inr True then get payload ''log''
          else if hasOwnProperty payload ''data'' = Inr True then get payload ''data''
          else Inr (JArr []))"

definition handleCleanLogs :: "env \<Rightarrow> json \<Rightarrow> vacbot \<Rightarrow> vacbot \<times> (error + unit)" where
  "handleCleanLogs e payload s =
     (let s0 = s\<lparr>cleanLog := Map.empty\<rparr> in
      attempt s0 (cleanLogs_of payload) (\<lambda>logs.
      handleCleanLogs_loop e (for_in_values logs) s0))"

text \<open>The keys of the store that the entries \<open>logs\<close> name: \<open>logEntry['id']\<close> of each, as a
  property key.\<close>

definition log_ids :: "env \<Rightarrow> json list \<Rightarrow> string set" where
  "log_ids e logs = set (map (\<lambda>x. ToString e (field_of x ''id'')) logs)"

subsection \<open>Map sets\<close>
















subsection \<open>Errors\<close>

text \<open>
  \<open>handleResponseError\<close> returns the lines it writes with \<open>tools.envLogWarn\<close>: the code
  \<open>'0'\<close> differs from every other code in this alone.
\<close>

definition method_toString :: "env \<Rightarrow> json \<Rightarrow> error + string" where
  "method_toString e v =
     (case v of JUndefined \<Rightarrow> Inl TypeError | JNull \<Rightarrow> Inl TypeError | _ \<Rightarrow> Inr (ToString e v))"

definition handleResponseError :: "env \<Rightarrow> json \<Rightarrow> vacbot \<Rightarrow> vacbot \<times> (error + string list)" where
  "handleResponseError e payload s =
     attempt s (get payload ''code'') (\<lambda>code.
     attempt s (method_toString e code) (\<lambda>code_string.
     let s1 = s\<lparr>errorCode := JStr code_string\<rparr>;
         known = lookup e (errorCodes e) (JStr code_string) in
     attempt s1 (get payload ''error'') (\<lambda>payload_error.
     let description =
           (if truthy known then
              (if code_string = ''1'' then ToString e known @ '': '' @ ToString e payload_error
               else ToString e known)
            else ''unknown errorCode: '' @ code_string);
         s2 = s1\<lparr>errorDescription := JStr description\<rparr> in
     if code_string \<noteq> ''0'' then
       (s2, Inr [''errorCode: '' @ code_string, ''errorDescription: '' @ description])
     else (s2, Inr []))))"

subsection \<open>Commands\<close>

definition lower_char :: "char \<Rightarrow> char" where
  "lower_char c =
     (case map_of (zip ''ABCDEFGHIJKLMNOPQRSTUVWXYZ'' ''abcdefghijklmnopqrstuvwxyz'') c of
        None \<Rightarrow> c | Some l \<Rightarrow> l)"

text \<open>\<open>v.toLowerCase()\<close>: only a string has the method.\<close>

definition toLowerCase :: "json \<Rightarrow> error + string" where
  "toLowerCase v = (case v of JStr s \<Rightarrow> Inr (map lower_char s) | _ \<Rightarrow> Inl TypeError)"

text \<open>\<open>args[i]\<close> of the rest parameter, \<open>a || b\<close>, and \<open>!!v\<close>.\<close>

definition arg :: "json list \<Rightarrow> nat \<Rightarrow> json" where
  "arg args i = (if i < length args then args ! i else JUndefined)"

definition or_else :: "json \<Rightarrow> json \<Rightarrow> json" where
  "or_else a b = (if truthy a then a else b)"

definition positive :: "env \<Rightarrow> json \<Rightarrow> bool" where
  "positive e v = num_less (Fin 0) (ToNumber e v)"

text \<open>The cases of \<open>run\<close> that send one fixed request whatever the arguments are.\<close>

definition run_always :: "(string \<times> command) list" where
  "run_always =
     [(''getwaterlevel'', Cmd ''GetWaterInfo'' []),
      (''getwaterboxinfo'', Cmd ''GetWaterInfo'' []),
      (''getwaterinfo'', Cmd ''GetWaterInfo'' []),
      (''geterror'', Cmd ''GetError'' []),
      (''relocate'', Cmd ''Relocate'' []),
      (''getvolume'', Cmd ''GetVolume'' []),
      (''enableadvancedmode'', Cmd ''SetAdvancedMode'' [JNum (Fin 1)]),
      (''disableadvancedmode'', Cmd ''SetAdvancedMode'' [JNum (Fin 0)]),
      (''getadvancedmode'', Cmd ''GetAdvancedMode'' []),
      (''gettruedetect'', Cmd ''GetTrueDetect'' []),
      (''enabletruedetect'', Cmd ''SetTrueDetect'' [JNum (Fin 1)]),
      (''disabletruedetect'', Cmd ''SetTrueDetect'' [JNum (Fin 0)]),
      (''emptydustbin'', Cmd ''EmptyDustBin'' []),
      (''emptysuctionstation'', Cmd ''EmptyDustBin'' []),
      (''getautoempty'', Cmd ''GetAutoEmpty'' []),
      (''enableautoempty'', Cmd ''SetAutoEmpty'' [JNum (Fin 1)]),
      (''disableautoempty'', Cmd ''SetAutoEmpty'' [JNum (Fin 0)]),
      (''getdusterremind'', Cmd ''GetDusterRemind'' []),
      (''getcarpetpressure'', Cmd ''GetCarpetPressure'' []),
      (''enablecarpetpressure'', Cmd ''SetCarpetPressure'' [JNum (Fin 1)]),
      (''disablecarpetpressure'', Cmd ''SetCarpetPressure'' [JNum (Fin 0)]),
      (''getcleanstate_v2'', Cmd ''GetCleanState_V2'' []),
      (''getcleancount'', Cmd ''GetCleanCount'' []),
      (''getcleanpreference'', Cmd ''GetCleanPreference'' []),
      (''getairdrying'', Cmd ''GetAirDrying'' []),
      (''airdryingstart'', Cmd ''SetAirDrying'' [JStr ''start'']),
      (''airdryingstop'', Cmd ''SetAirDrying'' [JStr ''stop'']),
      (''enablecleanpreference'', Cmd ''SetCleanPreference'' [JNum (Fin 1)]),
      (''disablecleanpreference'', Cmd ''SetCleanPreference'' [JNum (Fin 0)]),
      (''getrecognization'', Cmd ''GetRecognization'' []),
      (''getmapstate'', Cmd ''GetMapState'' []),
      (''getaimap'', Cmd ''GetAIMap'' []),
      (''getsweepmode'', Cmd ''GetSweepMode'' []),
      (''enablesweepmode'', Cmd ''SetSweepMode'' [JNum (Fin 1)]),
      (''disablesweepmode'', Cmd ''SetSweepMode'' [JNum (Fin 0)]),
      (''getborderspin'', Cmd ''GetBorderSpin'' []),
      (''enableborderspin'', Cmd ''SetBorderSpin'' [JNum (Fin 1)]),
      (''disableborderspin'', Cmd ''SetBorderSpin'' [JNum (Fin 0)]),
      (''getairquality'', Cmd ''GetAirQuality'' []),
      (''area_v2'', Cmd ''Area_V2'' []),
      (''getmapset_v2'', Cmd ''GetMapSet_V2'' []),
      (''getlivelaunchpwdstate'', Cmd ''GetLiveLaunchPwdState'' []),
      (''gethumanoidfollow'', Cmd ''GetHumanoidFollow'' []),
      (''getmonitorairstate'', Cmd ''GetMonitorAirState'' []),
      (''getvoicesimple'', Cmd ''GetVoiceSimple'' []),
      (''getdrivingwheel'', Cmd ''GetDrivingWheel'' []),
      (''getchildlock'', Cmd ''GetChildLock'' []),
      (''getblock'', Cmd ''GetBlock'' []),
      (''gettimezone'', Cmd ''GetTimeZone'' []),
      (''gettotalstats'', Cmd ''GetTotalStats'' []),
      (''getwifilist'', Cmd ''GetWifiList'' []),
      (''getota'', Cmd ''GetOta'' []),
      (''getthreemodulestatus'', Cmd ''GetThreeModuleStatus'' []),
      (''getscene'', Cmd ''GetScene'' []),
      (''getlistenmusic'', Cmd ''GetListenMusic'' []),
      (''videoopened'', Cmd ''VideoOpened'' []),
      (''getaudiocallstate'', Cmd ''GetAudioCallState'' []),
      (''getvoiceliferemindstate'', Cmd ''GetVoiceLifeRemindState'' []),
      (''getbreakpoint'', Cmd ''GetBreakPoint'' []),
      (''getrelocationstate'', Cmd ''GetRelocationState'' []),
      (''getantidrop'', Cmd ''GetAntiDrop'' [])]"

text \<open>
  The cases of the form \<open>if (args.length >= k) sendCommand(new C(args[0], ...))\<close>: the
  lower-case name, \<open>k\<close>, the class, and the number of arguments handed to the constructor.
\<close>

definition run_guarded :: "(string \<times> nat \<times> string \<times> nat) list" where
  "run_guarded =
     [(''setvolume'', 1, ''SetVolume'', 1),
      (''setautoempty'', 1, ''SetAutoEmpty'', 1),
      (''setdusterremind'', 1, ''SetDusterRemind'', 2),
      (''setcarpetpressure'', 1, ''SetCarpetPressure'', 1),
      (''setcleancount'', 1, ''SetCleanCount'', 1),
      (''setairdrying'', 1, ''SetAirDrying'', 1),
      (''setcleanpreference'', 1, ''SetCleanPreference'', 1),
      (''setsweepmode'', 1, ''SetSweepMode'', 1),
      (''setborderspin'', 1, ''SetBorderSpin'', 1),
      (''singlepoint_v2'', 1, ''SinglePoint_V2'', 1),
      (''setmapset_v2'', 1, ''SetMapSet_V2'', 1),
      (''setthreemodule'', 3, ''SetThreeModule'', 3),
      (''setfreshenerlevel'', 2, ''SetFreshenerLevel'', 2),
      (''sethumidifierlevel'', 2, ''SetHumidifierLevel'', 2),
      (''setuvcleaner'', 1, ''SetUVCleaner'', 1),
      (''setatmolight'', 1, ''SetAtmoLight'', 1),
      (''setbluespeaker'', 1, ''SetBlueSpeaker'', 1),
      (''setvoicesimple'', 1, ''SetVoiceSimple'', 1),
      (''setblock'', 3, ''SetBlock'', 3),
      (''setmonitorairstate'', 1, ''SetMonitorAirState'', 1),
      (''setanglefollow'', 1, ''SetAngleFollow'', 1),
      (''setmic'', 1, ''SetMic'', 1),
      (''setvoice'', 6, ''SetVoice'', 6),
      (''setvoiceassistantstate'', 1, ''SetVoiceAssistantState'', 1),
      (''getmaptrace_v2'', 1, ''GetMapTrace_V2'', 1)]"

text \<open>The \<open>switch\<close> of \<open>run\<close>, after the call of the base class and on the lower-case name.\<close>

definition run_switch :: "env \<Rightarrow> string \<Rightarrow> json list \<Rightarrow> vacbot \<Rightarrow> vacbot \<times> (error + effect list)" where
  "run_switch e c args s =
     (if c = ''getmapimage'' then
        attempt s (method_toString e (arg args 0)) (\<lambda>mapID.
        let mapType = or_else (arg args 1) (JStr ''outline'');
            s1 = s\<lparr>createMapDataObject := JBool True,
                   createMapImage := JBool True,
                   createMapImageOnly :=
                     (if \<not> strict_eq (arg args 2) JUndefined then arg args 2 else JBool True)\<rparr> in
        if positive e (JStr mapID)
        then (s1, Inr [Send (Cmd ''GetMapImage'' [JStr mapID, mapType])])
        else (s1, Inr []))
      else if c = ''getmaps'' then
        let dataObject = JBool (truthy (arg args 0));
            image = (if truthy dataObject then isMapImageSupported e
                       (s\<lparr>createMapImageOnly := JBool False, createMapDataObject := dataObject\<rparr>)
                     else dataObject);
            s1 = s\<lparr>createMapImageOnly := JBool False,
                   createMapDataObject := dataObject,
                   createMapImage := (if 2 \<le> length args then JBool (truthy (arg args 1)) else image)\<rparr> in
        if strict_eq (deviceClass s1) (JStr ''p5nx9u'') \<or> strict_eq (deviceClass s1) (JStr ''vthpeg'')
        then (s1, Inr [Send (Cmd ''GetMapInfo_V2'' [])])
        else (s1, Inr [Send (Cmd ''GetMaps'' [])])
      else if c = ''getspotareas'' then
        (if positive e (arg args 0)
         then (s, Inr [Send (Cmd ''GetMapSpotAreas'' [arg args 0])])
         else (s, Inr []))
      else if c = ''getspotareainfo'' then
        (if positive e (arg args 0) \<and> \<not> strict_eq (arg args 1) (JStr [])
         then (s, Inr [Send (Cmd ''GetMapSpotAreaInfo'' [arg args 0, arg args 1])])
         else (s, Inr []))
      else if c = ''getvirtualboundaries'' then
        (if positive e (arg args 0) then
           (s\<lparr>mapVirtualBoundariesResponses :=
                (mapVirtualBoundariesResponses s)(ToString e (arg args 0) \<mapsto> (False, False))\<rparr>,
            Inr [Send (Cmd ''GetMapVirtualBoundaries'' [arg args 0, JStr ''vw'']),
                 Send (Cmd ''GetMapVirtualBoundaries'' [arg args 0, JStr ''mw''])])
         else (s, Inr []))
      else if c = ''getvirtualboundaryinfo'' then
        (let type = (if truthy (isValidVirtualWallType e (arg args 2)) then arg args 2 else JStr ''vw'') in
         if positive e (arg args 0) \<and> \<not> strict_eq (arg args 1) (JStr [])
         then (s, Inr [Send (Cmd ''GetMapVirtualBoundaryInfo'' [arg args 0, arg args 1, type])])
         else (s, Inr []))
      else if c = ''addvirtualboundary'' then
        (let type = (if truthy (isValidVirtualWallType e (arg args 2)) then arg args 2 else JStr ''vw'') in
         if positive e (arg args 0) \<and> \<not> strict_eq (arg args 1) (JStr [])
         then (s, Inr [Send (Cmd ''AddMapVirtualBoundary'' [arg args 0, arg args 1, type])])
         else (s, Inr []))
      else if c = ''deletevirtualboundary'' then
        (if positive e (arg args 0) \<and> num_ge (ToNumber e (arg args 1)) (Fin 0) \<and>
            truthy (isValidVirtualWallType e (arg args 2))
         then (s, Inr [Send (Cmd ''DeleteMapVirtualBoundary'' [arg args 0, arg args 1, arg args 2])])
         else (s, Inr []))
      else if c = ''getlifespan'' then
        (if args = [] then
           let s1 = s\<lparr>emitFullLifeSpanEvent := JBool True,
                      components := Map.empty,
                      lastComponentValues := Map.empty\<rparr>;
               componentsArray =
                 [lookup e (COMPONENT_TO_ECOVACS e) (JStr ''filter''),
                  lookup e (COMPONENT_TO_ECOVACS e) (JStr ''side_brush'')]
                 @ (if truthy (hasMainBrush e s1)
                    then [lookup e (COMPONENT_TO_ECOVACS e) (JStr ''main_brush'')] else [])
                 @ (if truthy (hasUnitCareInfo e s1)
                    then [lookup e (COMPONENT_TO_ECOVACS e) (JStr ''unit_care'')] else [])
                 @ (if truthy (hasRoundMopInfo e s1)
                    then [lookup e (COMPONENT_TO_ECOVACS e) (JStr ''round_mop'')] else []) in
           (s1, Inr [Send (Cmd ''GetLifeSpan'' [JArr componentsArray])])
         else
           (s\<lparr>emitFullLifeSpanEvent := JBool False\<rparr>,
            Inr [Send (Cmd ''GetLifeSpan'' [JArr [lookup e (COMPONENT_TO_ECOVACS e) (arg args 0)]])]))
      else if c = ''enabledonotdisturb'' then
        (if \<not> strict_eq (arg args 0) (JStr []) \<and> \<not> strict_eq (arg args 1) (JStr [])
         then (s, Inr [Send (Cmd ''EnableDoNotDisturb'' [arg args 0, arg args 1])])
         else (s, Inr [Send (Cmd ''EnableDoNotDisturb'' [])]))
      else if c = ''setdonotdisturb'' then
        (let enable = JNum (if truthy (arg args 0) then Fin 1 else Fin 0) in
         if \<not> strict_eq (arg args 1) (JStr []) \<and> \<not> strict_eq (arg args 2) (JStr [])
         then (s, Inr [Send (Cmd ''SetDoNotDisturb'' [enable, arg args 1, arg args 2])])
         else if 1 \<le> length args then (s, Inr [Send (Cmd ''SetDoNotDisturb'' [enable])])
         else (s, Inr []))
      else if c = ''getcleanlogs'' then
        (if strict_eq (getModelType e s) (JStr ''T9'')
         then (s, Inr [CallCleanResultsLogsApi])
         else (s, Inr [Send (Cmd ''GetCleanLogs'' [])]))
      else if c = ''clean_v2'' then
        (if truthy (isAirPurifier e (deviceClass s))
         then (s, Inr [Send (Cmd ''Clean_V2'' [JStr ''move''])])
         else (s, Inr [Send (Cmd ''Clean_V2'' [])]))
      else if c = ''spotarea_v2'' then
        attempt s (method_toString e (arg args 0)) (\<lambda>area.
        let cleanings = or_else (arg args 1) (JNum (Fin 0)) in
        if area \<noteq> [] then (s, Inr [Send (Cmd ''SpotArea_V2'' [JStr area, cleanings])])
        else (s, Inr []))
      else if c = ''customarea_v2'' then
        attempt s (method_toString e (arg args 0)) (\<lambda>area.
        let cleanings = or_else (arg args 1) (JNum (Fin 1));
            donotClean = or_else (arg args 2) (JNum (Fin 0)) in
        if area \<noteq> [] then (s, Inr [Send (Cmd ''CustomArea_V2'' [JStr area, cleanings, donotClean])])
        else (s, Inr []))
      else if c = ''mappoint_v2'' then
        attempt s (method_toString e (arg args 0)) (\<lambda>area.
        if area \<noteq> [] then (s, Inr [Send (Cmd ''MapPoint_V2'' [JStr area])])
        else (s, Inr []))
      else
        (case map_of run_always c of
           Some cmd \<Rightarrow> (s, Inr [Send cmd])
         | None \<Rightarrow>
             (case map_of run_guarded c of
                Some (k, name, n) \<Rightarrow>
                  (if k \<le> length args then (s, Inr [Send (Cmd name (map (arg args) [0..<n]))])
                   else (s, Inr []))
              | None \<Rightarrow> (s, Inr []))))"

text \<open>\<open>run(command, ...args)\<close>: the base class first, then the \<open>switch\<close>.\<close>

definition run :: "env \<Rightarrow> json \<Rightarrow> json list \<Rightarrow> vacbot \<Rightarrow> vacbot \<times> (error + effect list)" where
  "run e command args s =
     (case super_run e command args s of
        (s1, Inl err) \<Rightarrow> (s1, Inl err)
      | (s1, Inr sent) \<Rightarrow>
          attempt s1 (toLowerCase command) (\<lambda>c.
          case run_switch e c args s1 of
            (s2, Inl err) \<Rightarrow> (s2, Inl err)
          | (s2, Inr sent2) \<Rightarrow> (s2, Inr (sent @ sent2))))"

section \<open>The non-950 handlers\<close>

text \<open>
  The session of \<open>VacBot_non950type\<close>: the fields its constructor sets and its handlers
  write. An event is an attribute bag, a \<open>json\<close> object here.
\<close>

record vacbot_non950 =
  vacuum_status :: json
  clean_status :: json
  deebot_position :: json
  charge_position :: json
  fan_speed :: json
  charge_status :: json
  battery_status :: json
  water_level :: json
  waterbox_info :: json
  components_non950 :: "string \<rightharpoonup> json"
  error_event :: json

subsection \<open>Life span\<close>

text \<open>The value \<open>lifespan\<close> that \<open>_handle_life_span\<close> computes from the shape of the event.\<close>

definition life_span_value :: "env \<Rightarrow> json \<Rightarrow> error + json" where
  "life_span_value e event =
     (case hasOwnProperty event ''val'' of
        Inl err \<Rightarrow> Inl err
      | Inr has_val \<Rightarrow>
          let has_total = (hasOwnProperty event ''total'' = Inr True);
              has_left = (hasOwnProperty event ''left'' = Inr True);
              v_val = field_of event ''val'';
              v_total = field_of event ''total'';
              v_left = field_of event ''left''
          in Inr (if has_val \<and> has_total
                  then JNum (num_mul (num_div (parseInt e v_val) (parseInt e v_total)) (Fin 100))
                  else if has_val then JNum (num_div (parseInt e v_val) (Fin 100))
                  else if has_left \<and> has_total
                  then JNum (num_mul (num_div (parseInt e v_left) (parseInt e v_total)) (Fin 100))
                  else if has_left then JNum (num_div (parseInt e v_left) (Fin 60))
                  else JNull))"

definition handle_life_span :: "env \<Rightarrow> json \<Rightarrow> vacbot_non950 \<Rightarrow> vacbot_non950 \<times> (error + unit)" where
  "handle_life_span e event s =
     attempt s (hasOwnProperty event ''type'') (\<lambda>has_type.
     attempt s (get event ''type'') (\<lambda>event_type.
     let type = (if has_type then lookup e (COMPONENT_FROM_ECOVACS e) event_type else JNull) in
     if \<not> truthy type then (s, Inr ())
     else
       attempt s (life_span_value e event) (\<lambda>lifespan.
       if truthy lifespan
       then (s\<lparr>components_non950 := (components_non950 s)(ToString e type \<mapsto> lifespan)\<rparr>, Inr ())
       else (s, Inr ()))))"

subsection \<open>Errors\<close>

text \<open>\<open>v == str\<close> for a string \<open>str\<close>.\<close>

definition loose_eq_string :: "env \<Rightarrow> json \<Rightarrow> string \<Rightarrow> bool" where
  "loose_eq_string e v str =
     (case v of
        JUndefined \<Rightarrow> False
      | JNull \<Rightarrow> False
      | JBool b \<Rightarrow> strict_eq (JNum (ToNumber e v)) (JNum (StringToNumber e str))
      | JNum n \<Rightarrow> strict_eq v (JNum (StringToNumber e str))
      | JStr x \<Rightarrow> x = str
      | JArr xs \<Rightarrow> ToString e v = str
      | JObj kvs \<Rightarrow> ToString e v = str)"

definition handle_error :: "env \<Rightarrow> json \<Rightarrow> vacbot_non950 \<Rightarrow> vacbot_non950 \<times> (error + unit)" where
  "handle_error e event s =
     attempt s (hasOwnProperty event ''errno'') (\<lambda>has_errno.
     attempt s (get event ''errno'') (\<lambda>errno.
     attempt s (hasOwnProperty event ''error'') (\<lambda>has_error.
     attempt s (get event ''error'') (\<lambda>event_error.
     attempt s (hasOwnProperty event ''errs'') (\<lambda>has_errs.
     attempt s (get event ''errs'') (\<lambda>event_errs.
     if has_errno \<and> truthy (lookup e (errorCodes e) errno) \<and> loose_eq_string e errno ''100''
     then (s, Inr ())
     else
       let errorCode0 = (if has_errno \<and> truthy (lookup e (errorCodes e) errno)
                         then lookup e (errorCodes e) errno else JNull);
           errorCode1 = (if \<not> truthy errorCode0 \<and> has_error then event_error else errorCode0);
           errorCode2 = (if \<not> truthy errorCode1 \<and> has_errs then event_errs else errorCode1) in
       if truthy errorCode2 then (s\<lparr>error_event := errorCode2\<rparr>, Inr ()) else (s, Inr ())))))))"

subsection \<open>Commands\<close>

text \<open>
  \<open>run(action)\<close> reads its further arguments from \<open>arguments\<close>; \<open>args\<close> are the arguments
  after \<open>action\<close>, so \<open>arguments.length\<close> is \<open>length args + 1\<close>. It returns the requests it
  hands to \<open>send_command\<close>.
\<close>

definition run_non950 :: "json \<Rightarrow> json list \<Rightarrow> vacbot_non950 \<Rightarrow> vacbot_non950 \<times> (error + command list)" where
  "run_non950 action args s =
     attempt s (toLowerCase action) (\<lambda>c.
     if c = ''clean'' then
       (if length args + 1 \<le> 1 then (s, Inr [Cmd ''Clean'' []])
        else if length args + 1 = 2 then (s, Inr [Cmd ''Clean'' [arg args 0]])
        else (s, Inr [Cmd ''Clean'' [arg args 0, arg args 1]]))
     else if c = ''edge'' then (s, Inr [Cmd ''Edge'' []])
     else if c = ''spot'' then (s, Inr [Cmd ''Spot'' []])
     else if c = ''spotarea'' then
       (if length args + 1 < 3 then (s, Inr [])
        else (s, Inr [Cmd ''SpotArea'' [arg args 0, arg args 1]]))
     else if c = ''customarea'' then
       (if length args + 1 < 4 then (s, Inr [])
        else (s, Inr [Cmd ''CustomArea'' [arg args 0, arg args 1, arg args 2]]))
     else if c = ''stop'' then (s, Inr [Cmd ''Stop'' []])
     else if c = ''pause'' then (s, Inr [Cmd ''Pause'' []])
     else if c = ''resume'' then (s, Inr [Cmd ''Resume'' []])
     else if c = ''charge'' then (s, Inr [Cmd ''Charge'' []])
     else if c = ''playsound'' then (s, Inr [Cmd ''PlaySound'' []])
     else if c = ''getdeviceinfo'' \<or> c = ''deviceinfo'' then (s, Inr [Cmd ''GetDeviceInfo'' []])
     else if c = ''getcleanstate'' \<or> c = ''cleanstate'' then (s, Inr [Cmd ''GetCleanState'' []])
     else if c = ''getcleanspeed'' \<or> c = ''cleanspeed'' then (s, Inr [Cmd ''GetCleanSpeed'' []])
     else if c = ''getchargestate'' \<or> c = ''chargestate'' then (s, Inr [Cmd ''GetChargeState'' []])
     else if c = ''getbatterystate'' \<or> c = ''batterystate'' then (s, Inr [Cmd ''GetBatteryState'' []])
     else if c = ''getlifespan'' \<or> c = ''lifespan'' then
       (if length args + 1 < 2 then (s, Inr [])
        else (s, Inr [Cmd ''GetLifeSpan'' [arg args 0]]))
     else if c = ''getwaterlevel'' then (s, Inr [Cmd ''GetWaterLevel'' []])
     else if c = ''setwaterlevel'' then
       (if length args + 1 < 2 then (s, Inr [])
        else (s, Inr [Cmd ''SetWaterLevel'' [arg args 0]]))
     else if c = ''getwaterboxinfo'' then (s, Inr [Cmd ''GetWaterBoxInfo'' []])
     else (s, Inr []))"

section \<open>A sample session\<close>

text \<open>
  The closed examples below run the handlers in a sample environment: tables with a few
  entries of the kind the library's tables hold, a base class whose \<open>run\<close> sends nothing,
  and containers that are arrays of what was pushed.
\<close>

definition sample_push :: "json \<Rightarrow> json \<Rightarrow> json" where
  "sample_push c b = (case c of JArr xs \<Rightarrow> JArr (xs @ [b]) | _ \<Rightarrow> c)"

definition sample_env :: env where
  "sample_env = \<lparr>
     FractionToString = (\<lambda>n. ''fraction''),
     StringToNumber_other = (\<lambda>s. NaN),
     CLEAN_MODE_FROM_ECOVACS = map_of
       [(''auto'', ''auto''), (''spotArea'', ''spot_area''), (''customArea'', ''custom_area''),
        (''goCharging'', ''returning''), (''idle'', ''idle''), (''pause'', ''pause'')],
     COMPONENT_FROM_ECOVACS = map_of
       [(''brush'', ''main_brush''), (''sideBrush'', ''side_brush''), (''heap'', ''filter''),
        (''Brush'', ''main_brush''), (''SideBrush'', ''side_brush''), (''DustCaseHeap'', ''filter'')],
     errorCodes = map_of
       [(''0'', ''NoError: Robot is operational''), (''100'', ''NoError: Robot is operational''),
        (''101'', ''BatteryLow: Low battery'')],
     isPositionInSpotArea = (\<lambda>x y infos. JStr ''unknown''),
     getDistanceToChargingStation = (\<lambda>p c. JStr (p @ '';'' @ c)),
     getSpotAreaName = (\<lambda>s i. JStr ''unknown''),
     getTimeStringFormatted = (\<lambda>n. JStr (case n of Fin q \<Rightarrow> dec_int \<lfloor>q\<rfloor> @ ''s'' | _ \<Rightarrow> ''NaN'')),
     newMapSpotAreas = (\<lambda>mapID msid. JArr []),
     newMapSpotArea = (\<lambda>mssid. mssid),
     pushSpotArea = sample_push,
     newMapVirtualBoundaries = (\<lambda>mapID. JArr []),
     newMapVirtualBoundary = (\<lambda>mssid type. JArr [mssid, type]),
     pushVirtualBoundary = sample_push,
     COMPONENT_TO_ECOVACS = map_of
       [(''main_brush'', ''brush''), (''side_brush'', ''sideBrush''), (''filter'', ''heap'')],
     super_run = (\<lambda>command args s. (s, Inr [])),
     hasMainBrush = (\<lambda>s. JBool True),
     hasUnitCareInfo = (\<lambda>s. JBool False),
     hasRoundMopInfo = (\<lambda>s. JBool False),
     isMapImageSupported = (\<lambda>s. JBool True),
     getModelType = (\<lambda>s. JStr ''950''),
     isValidVirtualWallType = (\<lambda>v. JBool (v = JStr ''vw'' \<or> v = JStr ''mw'')),
     isAirPurifier = (\<lambda>v. JBool False) \<rparr>"

definition sample_session :: vacbot where
  "sample_session = \<lparr>
     currentSpotAreas = JStr [], currentCustomAreaValues = JStr [], cleanReport = JNull,
     chargeStatus = JNull, batteryLevel = JNull, batteryIsLow = JNull, components = Map.empty,
     chargePosition = JObj [(''x'', JNull), (''y'', JNull), (''a'', JNull), (''changeFlag'', JBool False)],
     deebotPosition = JObj [(''x'', JNull), (''y'', JNull), (''a'', JNull),
       (''isInvalid'', JBool False), (''currentSpotAreaID'', JStr ''unknown''),
       (''currentSpotAreaName'', JStr ''unknown''), (''changeFlag'', JBool False)],
     mapSpotAreaInfos = Map.empty, currentMapMID = JStr [],
     mapVirtualBoundaries = Map.empty, mapVirtualBoundariesResponses = Map.empty,
     cleanLog = Map.empty, cleanLog_lastImageUrl = JNull, cleanLog_lastTimestamp = JNull,
     cleanLog_lastSquareMeters = JNull, cleanLog_lastTotalTime = JNull,
     cleanLog_lastTotalTimeString = JNull, errorCode = JNull, errorDescription = JNull,
     createMapDataObject = JBool False, createMapImage = JBool False,
     createMapImageOnly = JBool False, emitFullLifeSpanEvent = JBool False,
     lastComponentValues = Map.empty, deviceClass = JStr ''yna5xi'' \<rparr>"

definition sample_non950 :: vacbot_non950 where
  "sample_non950 = \<lparr>
     vacuum_status = JNull, clean_status = JNull,
     deebot_position = JObj [(''x'', JNull), (''y'', JNull), (''a'', JNull), (''invalid'', JNum (Fin 0))],
     charge_position = JObj [(''x'', JNull), (''y'', JNull), (''a'', JNull)],
     fan_speed = JNull, charge_status = JNull, battery_status = JNull, water_level = JNull,
     waterbox_info = JNull, components_non950 = Map.empty, error_event = JNull \<rparr>"

text \<open>A log entry of the sample session, of 6 seconds and with the image \<open>u\<close>.\<close>

definition sample_log :: "string \<Rightarrow> string \<Rightarrow> rat \<Rightarrow> json" where
  "sample_log log_id area ts =
     JObj [(''id'', JStr log_id), (''area'', JStr area), (''ts'', JNum (Fin ts)), (''last'', JStr ''6''),
           (''imageUrl'', JStr ''u''), (''type'', JStr ''auto''), (''stopReason'', JNum (Fin 1))]"






section \<open>Lemmas on the JavaScript layer\<close>

lemma num_ge_Fin: "num_ge (Fin a) (Fin b) = (b \<le> a)"
  by (auto simp: num_ge_def num_less_def)

lemma num_less_Fin: "num_less (Fin a) (Fin b) = (a < b)"
  by (simp add: num_less_def)

lemma ToNumber_JNum: "ToNumber e (JNum n) = n"
  by (simp add: ToNumber_def)

lemma get_JObj: "get (JObj kvs) k = Inr (case map_of kvs k of None \<Rightarrow> JUndefined | Some x \<Rightarrow> x)"
  by (simp add: get_def)

lemma hasOwnProperty_JObj: "hasOwnProperty (JObj kvs) k = Inr (map_of kvs k \<noteq> None)"
  by (simp add: hasOwnProperty_def map_of_eq_None_iff)

lemma strict_eq_JStr: "strict_eq v (JStr t) = (v = JStr t)"
  by (cases v) (auto simp: strict_eq_def)

text \<open>A property of a handler is proved along its \<open>attempt\<close>s and its conditionals.\<close>

lemma attempt_intro:
  "(\<And>err. P (s, Inl err)) \<Longrightarrow> (\<And>v. r = Inr v \<Longrightarrow> P (f v)) \<Longrightarrow> P (attempt s r f)"
  by (cases r) (simp_all add: attempt_def)

lemma if_intro: "(c \<Longrightarrow> P a) \<Longrightarrow> (\<not> c \<Longrightarrow> P b) \<Longrightarrow> P (if c then a else b)"
  by simp

lemma field_of_JObj: "field_of (JObj kvs) k = (case map_of kvs k of None \<Rightarrow> JUndefined | Some x \<Rightarrow> x)"
  by (simp add: field_of_def get_JObj)

lemma get_field_of: "v \<noteq> JUndefined \<Longrightarrow> v \<noteq> JNull \<Longrightarrow> get v k = Inr (field_of v k)"
  by (cases v) (simp_all add: get_def field_of_def)

lemma truthy_defined: "truthy v \<Longrightarrow> v \<noteq> JUndefined \<and> v \<noteq> JNull"
  by (cases v) (simp_all add: truthy_def)

lemma num_div_Fin: "b \<noteq> 0 \<Longrightarrow> num_div (Fin a) (Fin b) = double_of (a / b)"
  by (simp add: num_div_def)

lemma num_mul_Fin: "num_mul (Fin a) (Fin b) = double_of (a * b)"
  by (simp add: num_mul_def)

lemma round_hundredths_nonneg: "0 \<le> q \<Longrightarrow> round_hundredths q = of_int \<lfloor>q * 100 + 1 / 2\<rfloor> / 100"
  by (simp add: round_hundredths_def)

lemma round_hundredths_range:
  assumes "0 \<le> q" "q \<le> 100"
  shows "0 \<le> round_hundredths q \<and> round_hundredths q \<le> 100"
proof -
  have "(0::int) \<le> \<lfloor>q * 100 + 1 / 2\<rfloor>" using assms by simp
  moreover have "q * 100 + 1 / 2 < of_int (10001::int)" using assms by simp
  then have "\<lfloor>q * 100 + 1 / 2\<rfloor> < (10001::int)" by (simp only: floor_less_iff)
  then have "\<lfloor>q * 100 + 1 / 2\<rfloor> \<le> (10000::int)" by simp
  then have "(of_int \<lfloor>q * 100 + 1 / 2\<rfloor> :: rat) \<le> of_int 10000" by (simp only: of_int_le_iff)
  ultimately show ?thesis using assms by (simp add: round_hundredths_nonneg)
qed

lemma round_hundredths_near: "\<bar>round_hundredths q - q\<bar> \<le> 1 / 200"
proof -
  define r where "r = \<bar>q\<bar> * 100 + 1 / 2"
  have 1: "of_int \<lfloor>r\<rfloor> \<le> r" and 2: "r < of_int \<lfloor>r\<rfloor> + 1" by linarith+
  have 3: "\<bar>of_int \<lfloor>r\<rfloor> / 100 - \<bar>q\<bar>\<bar> \<le> 1 / 200"
  proof (rule abs_leI)
    show "of_int \<lfloor>r\<rfloor> / 100 - \<bar>q\<bar> \<le> 1 / 200"
      using 1 unfolding r_def by linarith
    show "- (of_int \<lfloor>r\<rfloor> / 100 - \<bar>q\<bar>) \<le> 1 / 200"
      using 2 unfolding r_def by linarith
  qed
  show ?thesis
  proof (cases "q < 0")
    case True
    then have "round_hundredths q - q = - (of_int \<lfloor>r\<rfloor> / 100 - \<bar>q\<bar>)"
      by (simp add: round_hundredths_def r_def)
    then have "\<bar>round_hundredths q - q\<bar> = \<bar>of_int \<lfloor>r\<rfloor> / 100 - \<bar>q\<bar>\<bar>"
      by (simp only: abs_minus_cancel)
    then show ?thesis using 3 by (simp only:)
  next
    case False
    then have "round_hundredths q - q = of_int \<lfloor>r\<rfloor> / 100 - \<bar>q\<bar>"
      by (simp add: round_hundredths_def r_def)
    then show ?thesis using 3 by (simp only:)
  qed
qed

lemma round_hundredths_grid: "\<exists>n::int. round_hundredths q = of_int n / 100"
proof (cases "q < 0")
  case True
  then have "round_hundredths q = of_int (- \<lfloor>\<bar>q\<bar> * 100 + 1 / 2\<rfloor>) / 100"
    by (simp add: round_hundredths_def)
  then show ?thesis by blast
next
  case False
  then have "round_hundredths q = of_int \<lfloor>\<bar>q\<bar> * 100 + 1 / 2\<rfloor> / 100"
    by (simp add: round_hundredths_def)
  then show ?thesis by blast
qed

lemma pow2_powi: "pow2 k = 2 powi k"
  by (simp add: pow2_def power_int_def inverse_eq_divide power_one_over)

lemma pow2_pos: "0 < pow2 k"
  by (simp add: pow2_def)

lemma pow2_mono: "i \<le> j \<Longrightarrow> pow2 i \<le> pow2 j"
  unfolding pow2_powi by (rule power_int_increasing) simp_all

lemma pow2_diff: "pow2 (i - j) = pow2 i / pow2 j"
  unfolding pow2_powi by (rule power_int_diff) simp

lemma pow2_nat: "pow2 (int n) = 2 ^ n"
  by (simp add: pow2_def)

lemma binade_le:
  assumes "q \<noteq> 0"
  shows "pow2 (binade q) \<le> \<bar>q\<bar>"
proof -
  obtain a b where ab: "quotient_of \<bar>q\<bar> = (a, b)" by (cases "quotient_of \<bar>q\<bar>")
  then have b: "0 < b" by (rule quotient_of_denom_pos)
  from ab have q: "\<bar>q\<bar> = of_int a / of_int b" by (rule quotient_of_div)
  from assms have "0 < \<bar>q\<bar>" by simp
  with q b have a: "0 < a" by (simp add: zero_less_divide_iff)
  show ?thesis
  proof (cases "pow2 (bitlen a - bitlen b) \<le> \<bar>q\<bar>")
    case True
    then show ?thesis by (simp add: binade_def ab)
  next
    case False
    from bitlen_bounds [OF a] have la: "2 ^ nat (bitlen a - 1) \<le> a" by simp
    from bitlen_bounds [OF b] have lb: "b \<le> 2 ^ nat (bitlen b)" by simp
    from a have la1: "1 \<le> bitlen a" by (simp add: bitlen_alt_def)
    have pa: "pow2 (bitlen a - 1) = of_int (2 ^ nat (bitlen a - 1))"
      using la1 by (simp add: pow2_def)
    have pb: "pow2 (bitlen b) = of_int (2 ^ nat (bitlen b))"
      using bitlen_nonneg [of b] by (simp add: pow2_def)
    have "pow2 (bitlen a - bitlen b - 1) = pow2 ((bitlen a - 1) - bitlen b)"
      by (simp add: algebra_simps)
    also have "\<dots> = pow2 (bitlen a - 1) / pow2 (bitlen b)"
      by (rule pow2_diff)
    also have "\<dots> = of_int (2 ^ nat (bitlen a - 1)) / of_int (2 ^ nat (bitlen b))"
      by (simp only: pa pb)
    also have "\<dots> \<le> of_int a / of_int b"
    proof (rule frac_le)
      show "(0::rat) \<le> of_int a" using a by simp
      show "(of_int (2 ^ nat (bitlen a - 1)) :: rat) \<le> of_int a" using la by (simp only: of_int_le_iff)
      show "(0::rat) < of_int b" using b by simp
      show "(of_int b :: rat) \<le> of_int (2 ^ nat (bitlen b))" using lb by (simp only: of_int_le_iff)
    qed
    finally have "pow2 (bitlen a - bitlen b - 1) \<le> of_int a / of_int b" .
    then have "pow2 (bitlen a - bitlen b - 1) \<le> \<bar>q\<bar>" by (simp only: q)
    then show ?thesis using False by (simp add: binade_def ab)
  qed
qed

lemma binade_less: "q \<noteq> 0 \<Longrightarrow> \<bar>q\<bar> < pow2 n \<Longrightarrow> binade q < n"
proof (rule ccontr)
  assume q: "q \<noteq> 0" and l: "\<bar>q\<bar> < pow2 n" and n: "\<not> binade q < n"
  then have "pow2 n \<le> pow2 (binade q)" by (intro pow2_mono) simp
  with binade_le [OF q] l show False by simp
qed

lemma round_even_le: "x \<le> of_int k \<Longrightarrow> round_even x \<le> k"
proof -
  assume x: "x \<le> of_int k"
  then have f: "\<lfloor>x\<rfloor> \<le> k" by (simp add: floor_le_iff)
  show ?thesis
  proof (cases "\<lfloor>x\<rfloor> = k")
    case True
    with x have "x = of_int \<lfloor>x\<rfloor>" by linarith
    then have "x - of_int \<lfloor>x\<rfloor> = 0" by simp
    then show ?thesis using True by (simp add: round_even_def Let_def)
  next
    case False
    with f have "\<lfloor>x\<rfloor> + 1 \<le> k" by simp
    then show ?thesis using f by (simp add: round_even_def Let_def)
  qed
qed

lemma round_even_nonneg: "0 \<le> x \<Longrightarrow> 0 \<le> round_even x"
  by (simp add: round_even_def Let_def)

lemma double_of_0: "double_of 0 = Fin 0"
  by (simp add: double_of_def)

lemma double_of_range:
  assumes "0 \<le> q" "q \<le> of_nat N" "N < 2 ^ 53"
  shows "\<exists>r. double_of q = Fin r \<and> 0 \<le> r \<and> r \<le> of_nat N"
proof (cases "q = 0")
  case True
  then show ?thesis by (simp add: double_of_0)
next
  case False
  with assms have pos: "0 < q" by simp
  define e where "e = max (binade q) (- 1022)"
  define j where "j = nat (52 - e)"
  define ulp where "ulp = pow2 (e - 52)"
  define m where "m = round_even (q / ulp)"
  have "(of_nat N :: rat) < of_nat (2 ^ 53)" using assms(3) by (simp only: of_nat_less_iff)
  then have "\<bar>q\<bar> < pow2 53" using assms pos by (simp add: pow2_def)
  from binade_less [OF False this] have e: "e \<le> 52" by (simp add: e_def)
  then have u: "ulp = 1 / 2 ^ j" by (simp add: ulp_def pow2_def j_def)
  have up: "0 < ulp" by (simp add: ulp_def pow2_pos)
  have "q / ulp \<le> of_int (int N * 2 ^ j)"
    using assms pos by (simp add: u)
  then have mk: "m \<le> int N * 2 ^ j" unfolding m_def by (rule round_even_le)
  have m0: "0 \<le> m" unfolding m_def using up pos by (intro round_even_nonneg) simp
  have "(of_int m :: rat) \<le> of_int (int N * 2 ^ j)" using mk by (simp only: of_int_le_iff)
  then have r: "of_int m * ulp \<le> of_nat N" by (simp add: u field_simps)
  have r0: "0 \<le> of_int m * ulp" using m0 up by simp
  have d: "double_of q = Fin (of_int m * ulp)"
    using False pos e by (simp add: double_of_def Let_def e_def [symmetric] ulp_def [symmetric] m_def [symmetric])
  show ?thesis using d r r0 by simp
qed

text \<open>The percentage \<open>a / b * 100\<close> as the program computes it, and the other two formulas
  of the life span handlers, stay in range.\<close>

lemma num_in_range:
  "(\<exists>r. n = Fin r \<and> 0 \<le> r \<and> r \<le> c) \<longleftrightarrow> num_ge n (Fin 0) \<and> num_ge (Fin c) n"
  by (cases n) (auto simp: num_ge_def num_less_def)

lemma quotient_range:
  assumes "0 \<le> a" "a \<le> of_nat N * b" "0 < b" "N < 2 ^ 53"
  shows "\<exists>r. num_div (Fin a) (Fin b) = Fin r \<and> 0 \<le> r \<and> r \<le> of_nat N"
proof -
  have "0 \<le> a / b" "a / b \<le> of_nat N" using assms by (simp_all add: divide_le_eq)
  from double_of_range [OF this assms(4)] show ?thesis using assms(3) by (simp add: num_div_Fin)
qed

lemma percent_range:
  assumes "0 \<le> a" "a \<le> b" "0 < b"
  shows "\<exists>r. num_mul (num_div (Fin a) (Fin b)) (Fin 100) = Fin r \<and> 0 \<le> r \<and> r \<le> 100"
proof -
  from quotient_range [of a 1 b] assms
  obtain r1 where r1: "num_div (Fin a) (Fin b) = Fin r1" "0 \<le> r1" "r1 \<le> 1" by auto
  then have "0 \<le> r1 * 100" "r1 * 100 \<le> of_nat 100" by simp_all
  from double_of_range [OF this] show ?thesis by (simp add: r1 num_mul_Fin)
qed

lemma toFixed2_range:
  assumes "0 \<le> r" "r \<le> 100"
  shows "\<exists>t. toFixed2 (Fin r) = Fin t \<and> 0 \<le> t \<and> t \<le> 100"
proof -
  from round_hundredths_range [OF assms]
  have "0 \<le> round_hundredths r" "round_hundredths r \<le> of_nat 100" by simp_all
  from double_of_range [OF this] show ?thesis using assms by (simp add: toFixed2_def)
qed

section \<open>The battery handler\<close>

text \<open>
  Claim C10. In the 950-type battery handler, a payload without the field \<open>isLow\<close> sets
  \<open>batteryIsLow\<close> to the value of the comparison \<open>batteryLevel >= 15\<close>: for a numeric level
  it is true exactly when the level is at least 15. When \<open>isLow\<close> is present,
  \<open>batteryIsLow\<close> is the boolean coercion of its numeric value. In both cases
  \<open>batteryLevel\<close> is the field \<open>value\<close> of the payload.
\<close>

theorem handleBattery_isLow:
  "get payload ''value'' = Inr v \<Longrightarrow>
   (hasOwnProperty payload ''isLow'' = Inr False \<longrightarrow>
      handleBattery e payload s =
        (s\<lparr>batteryLevel := v, batteryIsLow := JBool (num_ge (ToNumber e v) (Fin 15))\<rparr>, Inr ())) \<and>
   (hasOwnProperty payload ''isLow'' = Inr False \<longrightarrow> v = JNum (Fin q) \<longrightarrow>
      batteryIsLow (fst (handleBattery e payload s)) = JBool (15 \<le> q)) \<and>
   (hasOwnProperty payload ''isLow'' = Inr True \<longrightarrow> get payload ''isLow'' = Inr l \<longrightarrow>
      handleBattery e payload s =
        (s\<lparr>batteryLevel := v, batteryIsLow := JBool (truthy (JNum (ToNumber e l)))\<rparr>, Inr ()))"
  by (simp add: handleBattery_def attempt_def Let_def ToNumber_JNum num_ge_Fin)

text \<open>A level of 20 without \<open>isLow\<close> sets the flag; so does a level of 9 with \<open>isLow\<close> 1.\<close>

theorem handleBattery_isLow_witness:
  "get (JObj [(''value'', JNum (Fin 20))]) ''value'' = Inr (JNum (Fin 20)) \<and>
   hasOwnProperty (JObj [(''value'', JNum (Fin 20))]) ''isLow'' = Inr False \<and>
   batteryIsLow (fst (handleBattery sample_env (JObj [(''value'', JNum (Fin 20))]) sample_session)) =
     JBool True \<and>
   get (JObj [(''value'', JNum (Fin 9)), (''isLow'', JNum (Fin 1))]) ''value'' = Inr (JNum (Fin 9)) \<and>
   hasOwnProperty (JObj [(''value'', JNum (Fin 9)), (''isLow'', JNum (Fin 1))]) ''isLow'' = Inr True \<and>
   get (JObj [(''value'', JNum (Fin 9)), (''isLow'', JNum (Fin 1))]) ''isLow'' = Inr (JNum (Fin 1)) \<and>
   batteryIsLow (fst (handleBattery sample_env
      (JObj [(''value'', JNum (Fin 9)), (''isLow'', JNum (Fin 1))]) sample_session)) = JBool True"
  using handleBattery_isLow [where payload = "JObj [(''value'', JNum (Fin 20))]" and v = "JNum (Fin 20)"
      and e = sample_env and s = sample_session and q = 20]
    handleBattery_isLow [where payload = "JObj [(''value'', JNum (Fin 9)), (''isLow'', JNum (Fin 1))]"
      and v = "JNum (Fin 9)" and e = sample_env and s = sample_session and l = "JNum (Fin 1)"]
  by (simp add: get_JObj hasOwnProperty_JObj truthy_def ToNumber_JNum num_ge_Fin)

section \<open>The clean state handler\<close>

lemma handleCleanInfo_one_empty:
  "currentSpotAreas (fst (handleCleanInfo e payload s)) = JStr [] \<or>
   currentCustomAreaValues (fst (handleCleanInfo e payload s)) = JStr []"
proof -
  define Q :: "vacbot \<times> (error + string list) \<Rightarrow> bool"
    where "Q = (\<lambda>r. currentSpotAreas (fst r) = JStr [] \<or> currentCustomAreaValues (fst r) = JStr [])"
  have "Q (handleCleanInfo e payload s)"
    unfolding handleCleanInfo_def handleCleanInfo_body_def Let_def
    by (intro attempt_intro [where P = Q] if_intro [where P = Q]) (simp_all add: Q_def)
  then show ?thesis by (simp add: Q_def)
qed

text \<open>The type of a clean, as the handler reads it: the type of the content when the
  content is an object, else the type of the clean state.\<close>

lemma handleCleanInfo_no_area:
  assumes "\<not> strict_eq (field_of payload ''state'') (JStr ''clean'') \<or>
     (let cleanState = field_of payload ''cleanState'';
          content = field_of cleanState ''content'';
          type = (if is_object content then field_of content ''type'' else field_of cleanState ''type'')
      in type \<noteq> JStr ''spotArea'' \<and> type \<noteq> JStr ''customArea'')"
  shows "currentSpotAreas (fst (handleCleanInfo e payload s)) = JStr [] \<and>
     currentCustomAreaValues (fst (handleCleanInfo e payload s)) = JStr []"
proof -
  define Q :: "vacbot \<times> (error + string list) \<Rightarrow> bool"
    where "Q = (\<lambda>r. currentSpotAreas (fst r) = JStr [] \<and> currentCustomAreaValues (fst r) = JStr [])"
  have "Q (handleCleanInfo e payload s)"
    unfolding handleCleanInfo_def handleCleanInfo_body_def Let_def
    using assms
    by (intro attempt_intro [where P = Q] if_intro [where P = Q])
       (auto simp: Q_def field_of_def strict_eq_JStr Let_def split: if_splits)
  then show ?thesis by (simp add: Q_def)
qed

lemma handleCleanInfo_area_kind:
  "(let cleanState = field_of payload ''cleanState'';
        content = field_of cleanState ''content'';
        type = (if is_object content then field_of content ''type'' else field_of cleanState ''type'')
    in (type \<noteq> JStr ''spotArea'' \<longrightarrow> currentSpotAreas (fst (handleCleanInfo e payload s)) = JStr []) \<and>
       (type \<noteq> JStr ''customArea'' \<longrightarrow>
          currentCustomAreaValues (fst (handleCleanInfo e payload s)) = JStr []))"
proof -
  define Q :: "vacbot \<times> (error + string list) \<Rightarrow> bool"
    where "Q = (\<lambda>r. let cleanState = field_of payload ''cleanState'';
        content = field_of cleanState ''content'';
        type = (if is_object content then field_of content ''type'' else field_of cleanState ''type'')
    in (type \<noteq> JStr ''spotArea'' \<longrightarrow> currentSpotAreas (fst r) = JStr []) \<and>
       (type \<noteq> JStr ''customArea'' \<longrightarrow> currentCustomAreaValues (fst r) = JStr []))"
  have "Q (handleCleanInfo e payload s)"
    unfolding handleCleanInfo_def handleCleanInfo_body_def Let_def
    by (intro attempt_intro [where P = Q] if_intro [where P = Q])
       (auto simp: Q_def field_of_def strict_eq_JStr Let_def split: if_splits)
  then show ?thesis by (simp add: Q_def)
qed

lemma handleCleanInfo_not_clean:
  "get payload ''state'' = Inr st \<Longrightarrow> \<not> strict_eq st (JStr ''clean'') \<Longrightarrow>
   currentSpotAreas (fst (handleCleanInfo e payload s)) = JStr [] \<and>
   currentCustomAreaValues (fst (handleCleanInfo e payload s)) = JStr []"
  by (rule handleCleanInfo_no_area) (simp add: field_of_def)

text \<open>
  Claim C8. Every invocation of \<open>handleCleanInfo\<close> begins by resetting \<open>currentSpotAreas\<close>
  and \<open>currentCustomAreaValues\<close> to the empty string: the values recorded before have no
  influence on what the handler returns or leaves in the session, and at most one of the
  two fields is set afterwards. A payload that is not a clean of the type \<open>spotArea\<close> or
  \<open>customArea\<close> leaves both fields empty: a payload whose state is not \<open>clean\<close> (charge,
  idle, alert), and a clean of any other type (\<open>auto\<close>, say). The type is read as the
  handler reads it, from the content when the content is an object and from the clean
  state otherwise. A spot area clean leaves the custom area values empty and a custom
  area clean the spot areas.
\<close>

theorem handleCleanInfo_resets_areas:
  "handleCleanInfo e payload (s\<lparr>currentSpotAreas := x, currentCustomAreaValues := y\<rparr>) =
     handleCleanInfo e payload s \<and>
   (currentSpotAreas (fst (handleCleanInfo e payload s)) = JStr [] \<or>
    currentCustomAreaValues (fst (handleCleanInfo e payload s)) = JStr []) \<and>
   (get payload ''state'' = Inr st \<longrightarrow> \<not> strict_eq st (JStr ''clean'') \<longrightarrow>
      currentSpotAreas (fst (handleCleanInfo e payload s)) = JStr [] \<and>
      currentCustomAreaValues (fst (handleCleanInfo e payload s)) = JStr []) \<and>
   (\<not> strict_eq (field_of payload ''state'') (JStr ''clean'') \<or>
     (let cleanState = field_of payload ''cleanState'';
          content = field_of cleanState ''content'';
          type = (if is_object content then field_of content ''type'' else field_of cleanState ''type'')
      in type \<noteq> JStr ''spotArea'' \<and> type \<noteq> JStr ''customArea'') \<longrightarrow>
      currentSpotAreas (fst (handleCleanInfo e payload s)) = JStr [] \<and>
      currentCustomAreaValues (fst (handleCleanInfo e payload s)) = JStr []) \<and>
   (let cleanState = field_of payload ''cleanState'';
        content = field_of cleanState ''content'';
        type = (if is_object content then field_of content ''type'' else field_of cleanState ''type'')
    in (type \<noteq> JStr ''spotArea'' \<longrightarrow> currentSpotAreas (fst (handleCleanInfo e payload s)) = JStr []) \<and>
       (type \<noteq> JStr ''customArea'' \<longrightarrow>
          currentCustomAreaValues (fst (handleCleanInfo e payload s)) = JStr []))"
proof (intro conjI impI)
  show "handleCleanInfo e payload (s\<lparr>currentSpotAreas := x, currentCustomAreaValues := y\<rparr>) =
     handleCleanInfo e payload s"
    by (simp add: handleCleanInfo_def)
  show "currentSpotAreas (fst (handleCleanInfo e payload s)) = JStr [] \<or>
    currentCustomAreaValues (fst (handleCleanInfo e payload s)) = JStr []"
    by (rule handleCleanInfo_one_empty)
  show "let cleanState = field_of payload ''cleanState'';
        content = field_of cleanState ''content'';
        type = (if is_object content then field_of content ''type'' else field_of cleanState ''type'')
    in (type \<noteq> JStr ''spotArea'' \<longrightarrow> currentSpotAreas (fst (handleCleanInfo e payload s)) = JStr []) \<and>
       (type \<noteq> JStr ''customArea'' \<longrightarrow>
          currentCustomAreaValues (fst (handleCleanInfo e payload s)) = JStr [])"
    by (rule handleCleanInfo_area_kind)
next
  assume a: "get payload ''state'' = Inr st" "\<not> strict_eq st (JStr ''clean'')"
  from handleCleanInfo_not_clean [OF a]
  show "currentSpotAreas (fst (handleCleanInfo e payload s)) = JStr []"
    and "currentCustomAreaValues (fst (handleCleanInfo e payload s)) = JStr []"
    by simp_all
next
  assume a: "\<not> strict_eq (field_of payload ''state'') (JStr ''clean'') \<or>
     (let cleanState = field_of payload ''cleanState'';
          content = field_of cleanState ''content'';
          type = (if is_object content then field_of content ''type'' else field_of cleanState ''type'')
      in type \<noteq> JStr ''spotArea'' \<and> type \<noteq> JStr ''customArea'')"
  from handleCleanInfo_no_area [OF a]
  show "currentSpotAreas (fst (handleCleanInfo e payload s)) = JStr []"
    and "currentCustomAreaValues (fst (handleCleanInfo e payload s)) = JStr []"
    by simp_all
qed

text \<open>An idle payload and a working auto clean clear the areas a session has recorded.\<close>

theorem handleCleanInfo_resets_areas_witness:
  "get (JObj [(''state'', JStr ''idle'')]) ''state'' = Inr (JStr ''idle'') \<and>
   \<not> strict_eq (JStr ''idle'') (JStr ''clean'') \<and>
   currentSpotAreas (fst (handleCleanInfo sample_env (JObj [(''state'', JStr ''idle'')])
      (sample_session\<lparr>currentSpotAreas := JStr ''1,2'',
                       currentCustomAreaValues := JStr ''10,20,30,40''\<rparr>))) = JStr [] \<and>
   currentCustomAreaValues (fst (handleCleanInfo sample_env (JObj [(''state'', JStr ''idle'')])
      (sample_session\<lparr>currentSpotAreas := JStr ''1,2'',
                       currentCustomAreaValues := JStr ''10,20,30,40''\<rparr>))) = JStr [] \<and>
   strict_eq (field_of (JObj [(''state'', JStr ''clean''),
      (''cleanState'', JObj [(''motionState'', JStr ''working''), (''type'', JStr ''auto'')])])
      ''state'') (JStr ''clean'') \<and>
   currentSpotAreas (fst (handleCleanInfo sample_env
      (JObj [(''state'', JStr ''clean''),
             (''cleanState'', JObj [(''motionState'', JStr ''working''), (''type'', JStr ''auto'')])])
      (sample_session\<lparr>currentSpotAreas := JStr ''1,2'',
                       currentCustomAreaValues := JStr ''10,20,30,40''\<rparr>))) = JStr [] \<and>
   currentCustomAreaValues (fst (handleCleanInfo sample_env
      (JObj [(''state'', JStr ''clean''),
             (''cleanState'', JObj [(''motionState'', JStr ''working''), (''type'', JStr ''auto'')])])
      (sample_session\<lparr>currentSpotAreas := JStr ''1,2'',
                       currentCustomAreaValues := JStr ''10,20,30,40''\<rparr>))) = JStr []"
  using handleCleanInfo_resets_areas [where e = sample_env
      and payload = "JObj [(''state'', JStr ''idle'')]"
      and s = "sample_session\<lparr>currentSpotAreas := JStr ''1,2'',
                                currentCustomAreaValues := JStr ''10,20,30,40''\<rparr>"
      and st = "JStr ''idle''"]
    handleCleanInfo_resets_areas [where e = sample_env
      and payload = "JObj [(''state'', JStr ''clean''),
             (''cleanState'', JObj [(''motionState'', JStr ''working''), (''type'', JStr ''auto'')])]"
      and s = "sample_session\<lparr>currentSpotAreas := JStr ''1,2'',
                                currentCustomAreaValues := JStr ''10,20,30,40''\<rparr>"
      and st = "JStr ''clean''"]
  by (simp add: get_JObj field_of_JObj strict_eq_JStr is_object_def)

text \<open>The scenario of the specification: a working spot area clean of the areas 1 and 2.\<close>

lemma handleCleanInfo_spotArea_example:
  "handleCleanInfo sample_env
     (JObj [(''state'', JStr ''clean''),
            (''cleanState'', JObj [(''motionState'', JStr ''working''), (''type'', JStr ''spotArea''),
               (''content'', JObj [(''type'', JStr ''spotArea''), (''value'', JStr ''1,2'')])])])
     sample_session =
   (sample_session\<lparr>cleanReport := JStr ''spot_area'', currentSpotAreas := JStr ''1,2''\<rparr>, Inr [])"
  by (simp add: handleCleanInfo_def handleCleanInfo_body_def attempt_def get_JObj strict_eq_JStr
      is_object_def lookup_def sample_env_def sample_session_def)

lemma handleCleanInfo_other:
  assumes "get payload ''state'' = Inr st" "\<not> strict_eq st (JStr ''clean'')"
    "get payload ''trigger'' = Inr tr" "\<not> strict_eq tr (JStr ''alert'')"
  shows "handleCleanInfo e payload s =
    (let mode = lookup e (CLEAN_MODE_FROM_ECOVACS e) st;
         s1 = s\<lparr>currentSpotAreas := JStr [], currentCustomAreaValues := JStr [], cleanReport := mode\<rparr>
     in if mode = JStr ''returning'' then (s1\<lparr>chargeStatus := mode\<rparr>, Inr [])
        else if mode = JStr ''idle'' then (s1, Inr [''GetChargeState''])
        else (s1, Inr []))"
  using assms
  by (simp add: handleCleanInfo_def handleCleanInfo_body_def attempt_def Let_def strict_eq_JStr truthy_def)

lemma handleCleanInfo_alert:
  assumes "get payload ''state'' = Inr st" "\<not> strict_eq st (JStr ''clean'')"
    "get payload ''trigger'' = Inr (JStr ''alert'')"
  shows "handleCleanInfo e payload s =
    (s\<lparr>currentSpotAreas := JStr [], currentCustomAreaValues := JStr [], cleanReport := JStr ''alert''\<rparr>,
     Inr [])"
  using assms
  by (simp add: handleCleanInfo_def handleCleanInfo_body_def attempt_def Let_def strict_eq_JStr)

text \<open>A payload whose state is \<open>clean\<close> leaves the charge status alone and asks for no
  command, also when it stops with an exception.\<close>

lemma handleCleanInfo_clean:
  assumes "get payload ''state'' = Inr st" "strict_eq st (JStr ''clean'')"
  shows "chargeStatus (fst (handleCleanInfo e payload s)) = chargeStatus s \<and>
    (snd (handleCleanInfo e payload s) = Inr [] \<or>
     snd (handleCleanInfo e payload s) = Inl TypeError)"
proof -
  define Q :: "vacbot \<times> (error + string list) \<Rightarrow> bool"
    where "Q = (\<lambda>r. chargeStatus (fst r) = chargeStatus s \<and> (snd r = Inr [] \<or> snd r = Inl TypeError))"
  have e: "err = TypeError" for err :: error by (cases err) simp
  have "Q (handleCleanInfo e payload s)"
    unfolding handleCleanInfo_def handleCleanInfo_body_def Let_def
    using assms
    by (intro attempt_intro [where P = Q] if_intro [where P = Q]) (simp_all add: Q_def e)
  then show ?thesis by (simp add: Q_def)
qed

text \<open>
  Claim C6, as it is written: a payload whose state maps to \<open>returning\<close> sets the charge
  status to \<open>returning\<close>, and one whose state maps to \<open>idle\<close> asks for exactly one
  \<open>GetChargeState\<close>. It fails for a payload with the trigger \<open>alert\<close>, which the handler
  reads before the state: the idle alert asks for no command, and the returning alert
  leaves the charge status as it was.
\<close>

theorem handleCleanInfo_charge_counterexample:
  "lookup sample_env (CLEAN_MODE_FROM_ECOVACS sample_env) (JStr ''idle'') = JStr ''idle'' \<and>
   snd (handleCleanInfo sample_env (JObj [(''trigger'', JStr ''alert''), (''state'', JStr ''idle'')])
          sample_session) = Inr [] \<and>
   lookup sample_env (CLEAN_MODE_FROM_ECOVACS sample_env) (JStr ''goCharging'') = JStr ''returning'' \<and>
   chargeStatus (fst (handleCleanInfo sample_env
      (JObj [(''trigger'', JStr ''alert''), (''state'', JStr ''goCharging'')]) sample_session)) = JNull"
  by (simp add: handleCleanInfo_alert get_JObj strict_eq_JStr lookup_def sample_env_def sample_session_def)

text \<open>
  Claim C6, amended. For a payload whose trigger is not \<open>alert\<close> and whose state is not
  \<open>clean\<close>: when the state maps to \<open>returning\<close> the charge status becomes \<open>returning\<close> and
  no command is asked for; when it maps to \<open>idle\<close> exactly one \<open>GetChargeState\<close> is asked
  for and the charge status is left as it was; when it maps to anything else no command
  is asked for and the charge status is left as it was. A payload whose state is \<open>clean\<close>
  asks for no command and leaves the charge status as it was, whatever its trigger. With
  the trigger \<open>alert\<close> and a state other than \<open>clean\<close>, the clean report is \<open>alert\<close>, the
  charge status is left as it was and no command is asked for.
\<close>

theorem handleCleanInfo_charge:
  "get payload ''state'' = Inr st \<Longrightarrow> get payload ''trigger'' = Inr tr \<Longrightarrow>
   (\<not> strict_eq st (JStr ''clean'') \<longrightarrow> \<not> strict_eq tr (JStr ''alert'') \<longrightarrow>
      lookup e (CLEAN_MODE_FROM_ECOVACS e) st = JStr ''returning'' \<longrightarrow>
      chargeStatus (fst (handleCleanInfo e payload s)) = JStr ''returning'' \<and>
      snd (handleCleanInfo e payload s) = Inr []) \<and>
   (\<not> strict_eq st (JStr ''clean'') \<longrightarrow> \<not> strict_eq tr (JStr ''alert'') \<longrightarrow>
      lookup e (CLEAN_MODE_FROM_ECOVACS e) st = JStr ''idle'' \<longrightarrow>
      chargeStatus (fst (handleCleanInfo e payload s)) = chargeStatus s \<and>
      snd (handleCleanInfo e payload s) = Inr [''GetChargeState'']) \<and>
   (\<not> strict_eq st (JStr ''clean'') \<longrightarrow> \<not> strict_eq tr (JStr ''alert'') \<longrightarrow>
      lookup e (CLEAN_MODE_FROM_ECOVACS e) st \<noteq> JStr ''idle'' \<longrightarrow>
      snd (handleCleanInfo e payload s) = Inr []) \<and>
   (\<not> strict_eq st (JStr ''clean'') \<longrightarrow> \<not> strict_eq tr (JStr ''alert'') \<longrightarrow>
      lookup e (CLEAN_MODE_FROM_ECOVACS e) st \<noteq> JStr ''returning'' \<longrightarrow>
      chargeStatus (fst (handleCleanInfo e payload s)) = chargeStatus s) \<and>
   (\<not> strict_eq st (JStr ''clean'') \<longrightarrow> strict_eq tr (JStr ''alert'') \<longrightarrow>
      chargeStatus (fst (handleCleanInfo e payload s)) = chargeStatus s \<and>
      cleanReport (fst (handleCleanInfo e payload s)) = JStr ''alert'' \<and>
      snd (handleCleanInfo e payload s) = Inr []) \<and>
   (strict_eq st (JStr ''clean'') \<longrightarrow>
      chargeStatus (fst (handleCleanInfo e payload s)) = chargeStatus s \<and>
      (snd (handleCleanInfo e payload s) = Inr [] \<or>
       snd (handleCleanInfo e payload s) = Inl TypeError))"
proof (cases "strict_eq st (JStr ''clean'')")
  case True
  assume "get payload ''state'' = Inr st"
  from handleCleanInfo_clean [OF this True] True show ?thesis by simp
next
  case False
  assume g: "get payload ''state'' = Inr st" "get payload ''trigger'' = Inr tr"
  show ?thesis
  proof (cases "strict_eq tr (JStr ''alert'')")
    case True
    then have "tr = JStr ''alert''" by (simp add: strict_eq_JStr)
    with g False True show ?thesis by (simp add: handleCleanInfo_alert)
  next
    case a: False
    with g False show ?thesis by (simp add: handleCleanInfo_other Let_def)
  qed
qed

text \<open>The payloads \<open>goCharging\<close>, \<open>idle\<close> and \<open>pause\<close> without a trigger, the idle alert, and
  a working auto clean.\<close>

theorem handleCleanInfo_charge_witness:
  "get (JObj [(''state'', JStr ''goCharging'')]) ''state'' = Inr (JStr ''goCharging'') \<and>
   \<not> strict_eq (JStr ''goCharging'') (JStr ''clean'') \<and>
   get (JObj [(''state'', JStr ''goCharging'')]) ''trigger'' = Inr JUndefined \<and>
   \<not> strict_eq JUndefined (JStr ''alert'') \<and>
   lookup sample_env (CLEAN_MODE_FROM_ECOVACS sample_env) (JStr ''goCharging'') = JStr ''returning'' \<and>
   chargeStatus (fst (handleCleanInfo sample_env (JObj [(''state'', JStr ''goCharging'')]) sample_session)) =
     JStr ''returning'' \<and>
   snd (handleCleanInfo sample_env (JObj [(''state'', JStr ''goCharging'')]) sample_session) = Inr [] \<and>
   get (JObj [(''state'', JStr ''idle'')]) ''state'' = Inr (JStr ''idle'') \<and>
   get (JObj [(''state'', JStr ''idle'')]) ''trigger'' = Inr JUndefined \<and>
   lookup sample_env (CLEAN_MODE_FROM_ECOVACS sample_env) (JStr ''idle'') = JStr ''idle'' \<and>
   snd (handleCleanInfo sample_env (JObj [(''state'', JStr ''idle'')]) sample_session) =
     Inr [''GetChargeState''] \<and>
   get (JObj [(''state'', JStr ''pause'')]) ''state'' = Inr (JStr ''pause'') \<and>
   get (JObj [(''state'', JStr ''pause'')]) ''trigger'' = Inr JUndefined \<and>
   lookup sample_env (CLEAN_MODE_FROM_ECOVACS sample_env) (JStr ''pause'') = JStr ''pause'' \<and>
   snd (handleCleanInfo sample_env (JObj [(''state'', JStr ''pause'')]) sample_session) = Inr [] \<and>
   get (JObj [(''trigger'', JStr ''alert''), (''state'', JStr ''idle'')]) ''state'' = Inr (JStr ''idle'') \<and>
   get (JObj [(''trigger'', JStr ''alert''), (''state'', JStr ''idle'')]) ''trigger'' = Inr (JStr ''alert'') \<and>
   cleanReport (fst (handleCleanInfo sample_env
      (JObj [(''trigger'', JStr ''alert''), (''state'', JStr ''idle'')]) sample_session)) = JStr ''alert'' \<and>
   strict_eq (JStr ''clean'') (JStr ''clean'') \<and>
   snd (handleCleanInfo sample_env
      (JObj [(''state'', JStr ''clean''),
             (''cleanState'', JObj [(''motionState'', JStr ''working''), (''type'', JStr ''auto'')])])
      sample_session) = Inr []"
proof -
  have c: "snd (handleCleanInfo sample_env
      (JObj [(''state'', JStr ''clean''),
             (''cleanState'', JObj [(''motionState'', JStr ''working''), (''type'', JStr ''auto'')])])
      sample_session) \<noteq> Inl TypeError"
    by (simp add: handleCleanInfo_def handleCleanInfo_body_def attempt_def get_JObj strict_eq_JStr
        is_object_def)
  show ?thesis
    using handleCleanInfo_charge [where payload = "JObj [(''state'', JStr ''goCharging'')]"
        and st = "JStr ''goCharging''" and tr = JUndefined and e = sample_env and s = sample_session]
      handleCleanInfo_charge [where payload = "JObj [(''state'', JStr ''idle'')]"
        and st = "JStr ''idle''" and tr = JUndefined and e = sample_env and s = sample_session]
      handleCleanInfo_charge [where payload = "JObj [(''state'', JStr ''pause'')]"
        and st = "JStr ''pause''" and tr = JUndefined and e = sample_env and s = sample_session]
      handleCleanInfo_charge [where payload = "JObj [(''trigger'', JStr ''alert''), (''state'', JStr ''idle'')]"
        and st = "JStr ''idle''" and tr = "JStr ''alert''" and e = sample_env and s = sample_session]
      handleCleanInfo_charge [where payload = "JObj [(''state'', JStr ''clean''),
             (''cleanState'', JObj [(''motionState'', JStr ''working''), (''type'', JStr ''auto'')])]"
        and st = "JStr ''clean''" and tr = JUndefined and e = sample_env and s = sample_session]
      c
    by (simp add: get_JObj strict_eq_JStr lookup_def sample_env_def)
qed

section \<open>The life span handlers\<close>

lemma life_span_value_JObj:
  "life_span_value e (JObj kvs) =
     Inr (if map_of kvs ''val'' \<noteq> None \<and> map_of kvs ''total'' \<noteq> None
          then JNum (num_mul (num_div (parseInt e (field_of (JObj kvs) ''val''))
                                      (parseInt e (field_of (JObj kvs) ''total''))) (Fin 100))
          else if map_of kvs ''val'' \<noteq> None
          then JNum (num_div (parseInt e (field_of (JObj kvs) ''val'')) (Fin 100))
          else if map_of kvs ''left'' \<noteq> None \<and> map_of kvs ''total'' \<noteq> None
          then JNum (num_mul (num_div (parseInt e (field_of (JObj kvs) ''left''))
                                      (parseInt e (field_of (JObj kvs) ''total''))) (Fin 100))
          else if map_of kvs ''left'' \<noteq> None
          then JNum (num_div (parseInt e (field_of (JObj kvs) ''left'')) (Fin 60))
          else JNull)"
  by (simp add: life_span_value_def hasOwnProperty_JObj Let_def)

lemma handle_life_span_falsy:
  "life_span_value e event = Inr v \<Longrightarrow> \<not> truthy v \<Longrightarrow> handle_life_span e event s = (s, Inr ())"
  by (cases event)
     (simp_all add: handle_life_span_def life_span_value_def attempt_def hasOwnProperty_def
        get_def Let_def)

lemma num_div_zero: "\<not> truthy (JNum (num_mul (num_div (Fin 0) n) (Fin 100)))"
  by (cases n) (simp_all add: num_div_def num_mul_def truthy_def double_of_0)

lemma num_div_zero_100: "\<not> truthy (JNum (num_div (Fin 0) (Fin 100)))"
  by (simp add: num_div_def truthy_def double_of_0)

lemma num_div_zero_60: "\<not> truthy (JNum (num_div (Fin 0) (Fin 60)))"
  by (simp add: num_div_def truthy_def double_of_0)

text \<open>The non-950 handler on an event whose type the dictionary knows: the value of the
  event's shape is stored when it is truthy.\<close>

lemma handle_life_span_known:
  assumes "map_of kvs ''type'' = Some t" "lookup e (COMPONENT_FROM_ECOVACS e) t = JStr c" "c \<noteq> []"
    and "life_span_value e (JObj kvs) = Inr v"
  shows "handle_life_span e (JObj kvs) s =
    (if truthy v then s\<lparr>components_non950 := (components_non950 s)(c \<mapsto> v)\<rparr> else s, Inr ())"
  using assms
  by (simp add: handle_life_span_def attempt_def hasOwnProperty_JObj get_JObj truthy_def)

text \<open>The 950-type handler, one element at a time.\<close>

lemma handleLifespan_step_eq:
  "handleLifespan_step e p s =
     (if truthy p
      then s\<lparr>components := (components s)(component_of e p \<mapsto> JNum (lifespan_of e p))\<rparr>
      else s, Inr ())"
proof (cases "truthy p")
  case True
  then have "p \<noteq> JUndefined" "p \<noteq> JNull" by (auto simp: truthy_def)
  then have g: "get p k = Inr (field_of p k)" for k
    by (cases p) (simp_all add: get_def field_of_def)
  show ?thesis using True
    by (simp add: handleLifespan_step_def attempt_def g Let_def component_of_def lifespan_of_def)
next
  case False
  then show ?thesis by (simp add: handleLifespan_step_def)
qed

lemma handleLifespan_loop_ok: "snd (handleLifespan_loop e ps s) = Inr ()"
  by (induction ps arbitrary: s) (simp_all add: handleLifespan_step_eq)

lemma handleLifespan_loop_frame:
  "list_all (\<lambda>q. truthy q \<longrightarrow> component_of e q \<noteq> k) ps \<Longrightarrow>
   components (fst (handleLifespan_loop e ps s)) k = components s k"
  by (induction ps arbitrary: s) (auto simp: handleLifespan_step_eq)

lemma handleLifespan_loop_append:
  "handleLifespan_loop e (xs @ ys) s = handleLifespan_loop e ys (fst (handleLifespan_loop e xs s))"
  by (induction xs arbitrary: s) (simp_all add: handleLifespan_step_eq)

lemma handleLifespan_entry:
  assumes "for_in_values payload = xs @ p # ys" "truthy p"
    and "list_all (\<lambda>q. truthy q \<longrightarrow> component_of e q \<noteq> component_of e p) ys"
  shows "components (fst (handleLifespan e payload s)) (component_of e p) = Some (JNum (lifespan_of e p))"
proof -
  have "handleLifespan e payload s =
    handleLifespan_loop e ys (fst (handleLifespan_step e p (fst (handleLifespan_loop e xs s))))"
    unfolding handleLifespan_def assms(1) handleLifespan_loop_append
    by (simp add: handleLifespan_step_eq)
  then show ?thesis
    using assms(2) by (simp add: handleLifespan_loop_frame [OF assms(3)] handleLifespan_step_eq)
qed

lemma toFixed2_rounds:
  assumes "\<bar>r\<bar> < 10 ^ 21"
  shows "\<exists>k::int. toFixed2 (Fin r) = double_of (of_int k / 100) \<and> \<bar>of_int k / 100 - r\<bar> \<le> 1 / 200"
proof -
  from round_hundredths_grid [of r] obtain k :: int where k: "round_hundredths r = of_int k / 100" ..
  with round_hundredths_near [of r] have "\<bar>of_int k / 100 - r\<bar> \<le> 1 / 200" by simp
  moreover have "toFixed2 (Fin r) = double_of (round_hundredths r)"
    using assms by (simp add: toFixed2_def)
  then have "toFixed2 (Fin r) = double_of (of_int k / 100)"
    by (simp only: k)
  ultimately show ?thesis by blast
qed

text \<open>Evaluations for the closed examples.\<close>

lemma parseInt_9000: "parseInt e (JStr ''9000'') = Fin 9000"
  unfolding parseInt_def ToString.simps by code_simp

lemma parseInt_50: "parseInt e (JStr ''50'') = Fin 50"
  unfolding parseInt_def ToString.simps by code_simp

lemma parseInt_200: "parseInt e (JStr ''200'') = Fin 200"
  unfolding parseInt_def ToString.simps by code_simp

lemma parseInt_0: "parseInt e (JStr ''0'') = Fin 0"
  unfolding parseInt_def ToString.simps by code_simp

lemma parseInt_100: "parseInt e (JStr ''100'') = Fin 100"
  unfolding parseInt_def ToString.simps by code_simp

lemma sample_components: "COMPONENT_FROM_ECOVACS sample_env = map_of
       [(''brush'', ''main_brush''), (''sideBrush'', ''side_brush''), (''heap'', ''filter''),
        (''Brush'', ''main_brush''), (''SideBrush'', ''side_brush''), (''DustCaseHeap'', ''filter'')]"
  by (simp add: sample_env_def)

lemma quotient_examples:
  "num_div (Fin 9000) (Fin 60) = Fin 150"
  "num_mul (num_div (Fin 50) (Fin 200)) (Fin 100) = Fin 25"
  "num_div (Fin 50) (Fin 100) = Fin (1 / 2)"
  "num_div (Fin 50) (Fin 60) = double_of (5 / 6)"
  by code_simp+

lemma lifespan_of_examples:
  "lifespan_of e (JObj [(''type'', JStr ''brush''), (''left'', JNum (Fin 200)), (''total'', JNum (Fin 100))]) =
     Fin 200"
  "lifespan_of e (JObj [(''type'', JStr ''brush''), (''left'', JNum (Fin 1)), (''total'', JNum (Fin 3))]) =
     double_of (3333 / 100)"
  "lifespan_of e (JObj [(''type'', JStr ''heap''), (''left'', JNum (Fin 23)), (''total'', JNum (Fin 160))]) =
     double_of (1437 / 100)"
  by code_simp+

lemma component_of_examples:
  "component_of sample_env (JObj ((''type'', JStr ''brush'') # kvs)) = ''main_brush''"
  "component_of sample_env (JObj ((''type'', JStr ''heap'') # kvs)) = ''filter''"
  by (simp_all add: component_of_def field_of_JObj lookup_def sample_components truthy_def)

text \<open>
  Claim C1, as it is written: the percentage lies in \<open>[0,100]\<close> for every payload with
  valid numeric fields. Neither handler clamps or checks the value. On the non-950 path
  an event with \<open>left\<close> alone is divided by 60: \<open>left\<close> 9000 is recorded as 150. On the
  950-type path \<open>left\<close> 200 of \<open>total\<close> 100 is recorded as 200.
\<close>

theorem life_span_counterexample:
  "components_non950 (fst (handle_life_span sample_env
      (JObj [(''type'', JStr ''Brush''), (''left'', JStr ''9000'')]) sample_non950))
      ''main_brush'' = Some (JNum (Fin 150)) \<and>
   \<not> num_ge (Fin 100) (Fin 150) \<and>
   components (fst (handleLifespan sample_env
      (JArr [JObj [(''type'', JStr ''brush''), (''left'', JNum (Fin 200)), (''total'', JNum (Fin 100))]])
      sample_session)) ''main_brush'' = Some (JNum (Fin 200)) \<and>
   \<not> num_ge (Fin 100) (Fin 200)"
proof -
  have a: "handle_life_span sample_env
      (JObj [(''type'', JStr ''Brush''), (''left'', JStr ''9000'')]) sample_non950 =
    (sample_non950\<lparr>components_non950 := (components_non950 sample_non950)(''main_brush'' \<mapsto> JNum (Fin 150))\<rparr>,
     Inr ())"
    by (subst handle_life_span_known [where t = "JStr ''Brush''" and c = "''main_brush''"
          and v = "JNum (Fin 150)"])
       (simp_all add: lookup_def sample_components life_span_value_JObj field_of_JObj
          parseInt_9000 quotient_examples truthy_def)
  have b: "components (fst (handleLifespan sample_env
      (JArr [JObj [(''type'', JStr ''brush''), (''left'', JNum (Fin 200)), (''total'', JNum (Fin 100))]])
      sample_session)) ''main_brush'' = Some (JNum (Fin 200))"
    by (simp add: handleLifespan_def for_in_values_def handleLifespan_step_eq truthy_def
        component_of_examples lifespan_of_examples)
  show ?thesis
    unfolding a b by (simp add: num_ge_Fin)
qed

text \<open>
  Claim C1, amended. The value computed is the formula of the payload's shape, in the
  arithmetic of doubles. Non-950 handler, for an event whose type the dictionary knows and
  whose numeric fields parse to the numbers \<open>a\<close> and \<open>b\<close>: \<open>val/total*100\<close> for
  \<open>{val,total}\<close>, \<open>val/100\<close> for \<open>{val}\<close>, \<open>left/total*100\<close> for \<open>{left,total}\<close> without
  \<open>val\<close>, \<open>left/60\<close> for \<open>{left}\<close> alone; the value is stored under the component when it
  is not zero (nor \<open>NaN\<close>). 950-type handler: every element of the payload that is not
  falsy stores \<open>left/total*100\<close>, rounded by \<open>toFixed(2)\<close> to a multiple of one hundredth
  at most half a hundredth away and read back as a double, under its component; the
  last element of a component wins, no other component changes and the handler does not
  fail. The value is not clamped: it lies in \<open>[0,100]\<close> when \<open>0 \<le> a \<le> b\<close> and \<open>b > 0\<close>
  for the shapes with \<open>total\<close>, when \<open>0 \<le> a \<le> 10000\<close> for \<open>{val}\<close> and when
  \<open>0 \<le> a \<le> 6000\<close> for \<open>{left}\<close>.
\<close>

theorem life_span_percentage:
  "(map_of kvs ''type'' = Some t \<longrightarrow> lookup e (COMPONENT_FROM_ECOVACS e) t = JStr c \<longrightarrow> c \<noteq> [] \<longrightarrow>
    map_of kvs ''val'' = Some x \<longrightarrow> map_of kvs ''total'' = Some y \<longrightarrow>
    parseInt e x = Fin a \<longrightarrow> parseInt e y = Fin b \<longrightarrow>
      handle_life_span e (JObj kvs) n =
        (let v = num_mul (num_div (Fin a) (Fin b)) (Fin 100)
         in (if truthy (JNum v) then n\<lparr>components_non950 := (components_non950 n)(c \<mapsto> JNum v)\<rparr>
             else n, Inr ()))) \<and>
   (map_of kvs ''type'' = Some t \<longrightarrow> lookup e (COMPONENT_FROM_ECOVACS e) t = JStr c \<longrightarrow> c \<noteq> [] \<longrightarrow>
    map_of kvs ''val'' = Some x \<longrightarrow> map_of kvs ''total'' = None \<longrightarrow> parseInt e x = Fin a \<longrightarrow>
      handle_life_span e (JObj kvs) n =
        (let v = num_div (Fin a) (Fin 100)
         in (if truthy (JNum v) then n\<lparr>components_non950 := (components_non950 n)(c \<mapsto> JNum v)\<rparr>
             else n, Inr ()))) \<and>
   (map_of kvs ''type'' = Some t \<longrightarrow> lookup e (COMPONENT_FROM_ECOVACS e) t = JStr c \<longrightarrow> c \<noteq> [] \<longrightarrow>
    map_of kvs ''val'' = None \<longrightarrow> map_of kvs ''left'' = Some x \<longrightarrow> map_of kvs ''total'' = Some y \<longrightarrow>
    parseInt e x = Fin a \<longrightarrow> parseInt e y = Fin b \<longrightarrow>
      handle_life_span e (JObj kvs) n =
        (let v = num_mul (num_div (Fin a) (Fin b)) (Fin 100)
         in (if truthy (JNum v) then n\<lparr>components_non950 := (components_non950 n)(c \<mapsto> JNum v)\<rparr>
             else n, Inr ()))) \<and>
   (map_of kvs ''type'' = Some t \<longrightarrow> lookup e (COMPONENT_FROM_ECOVACS e) t = JStr c \<longrightarrow> c \<noteq> [] \<longrightarrow>
    map_of kvs ''val'' = None \<longrightarrow> map_of kvs ''left'' = Some x \<longrightarrow> map_of kvs ''total'' = None \<longrightarrow>
    parseInt e x = Fin a \<longrightarrow>
      handle_life_span e (JObj kvs) n =
        (let v = num_div (Fin a) (Fin 60)
         in (if truthy (JNum v) then n\<lparr>components_non950 := (components_non950 n)(c \<mapsto> JNum v)\<rparr>
             else n, Inr ()))) \<and>
   (0 \<le> a \<longrightarrow> a \<le> b \<longrightarrow> 0 < b \<longrightarrow>
      num_ge (num_mul (num_div (Fin a) (Fin b)) (Fin 100)) (Fin 0) \<and>
      num_ge (Fin 100) (num_mul (num_div (Fin a) (Fin b)) (Fin 100))) \<and>
   (0 \<le> a \<longrightarrow> a \<le> 10000 \<longrightarrow>
      num_ge (num_div (Fin a) (Fin 100)) (Fin 0) \<and> num_ge (Fin 100) (num_div (Fin a) (Fin 100))) \<and>
   (0 \<le> a \<longrightarrow> a \<le> 6000 \<longrightarrow>
      num_ge (num_div (Fin a) (Fin 60)) (Fin 0) \<and> num_ge (Fin 100) (num_div (Fin a) (Fin 60))) \<and>
   (for_in_values payload = xs @ p # ys \<longrightarrow> truthy p \<longrightarrow>
    list_all (\<lambda>q. truthy q \<longrightarrow> component_of e q \<noteq> component_of e p) ys \<longrightarrow>
      components (fst (handleLifespan e payload s)) (component_of e p) =
        Some (JNum (toFixed2 (num_mul (num_div (parseInt e (field_of p ''left''))
                                                (parseInt e (field_of p ''total''))) (Fin 100))))) \<and>
   (list_all (\<lambda>q. truthy q \<longrightarrow> component_of e q \<noteq> k) (for_in_values payload) \<longrightarrow>
      components (fst (handleLifespan e payload s)) k = components s k) \<and>
   snd (handleLifespan e payload s) = Inr () \<and>
   (\<bar>r\<bar> < 10 ^ 21 \<longrightarrow>
      (\<exists>i::int. toFixed2 (Fin r) = double_of (of_int i / 100) \<and> \<bar>of_int i / 100 - r\<bar> \<le> 1 / 200)) \<and>
   (0 \<le> a \<longrightarrow> a \<le> b \<longrightarrow> 0 < b \<longrightarrow>
      num_ge (toFixed2 (num_mul (num_div (Fin a) (Fin b)) (Fin 100))) (Fin 0) \<and>
      num_ge (Fin 100) (toFixed2 (num_mul (num_div (Fin a) (Fin b)) (Fin 100))))"
proof (intro conjI impI)
  show "snd (handleLifespan e payload s) = Inr ()"
    by (simp add: handleLifespan_def handleLifespan_loop_ok)
next
  assume "map_of kvs ''type'' = Some t" "lookup e (COMPONENT_FROM_ECOVACS e) t = JStr c" "c \<noteq> []"
    "map_of kvs ''val'' = Some x" "map_of kvs ''total'' = Some y"
    "parseInt e x = Fin a" "parseInt e y = Fin b"
  then show "handle_life_span e (JObj kvs) n =
        (let v = num_mul (num_div (Fin a) (Fin b)) (Fin 100)
         in (if truthy (JNum v) then n\<lparr>components_non950 := (components_non950 n)(c \<mapsto> JNum v)\<rparr>
             else n, Inr ()))"
    by (subst handle_life_span_known [where v = "JNum (num_mul (num_div (Fin a) (Fin b)) (Fin 100))"])
       (simp_all add: life_span_value_JObj field_of_JObj Let_def)
next
  assume "map_of kvs ''type'' = Some t" "lookup e (COMPONENT_FROM_ECOVACS e) t = JStr c" "c \<noteq> []"
    "map_of kvs ''val'' = Some x" "map_of kvs ''total'' = None" "parseInt e x = Fin a"
  then show "handle_life_span e (JObj kvs) n =
        (let v = num_div (Fin a) (Fin 100)
         in (if truthy (JNum v) then n\<lparr>components_non950 := (components_non950 n)(c \<mapsto> JNum v)\<rparr>
             else n, Inr ()))"
    by (subst handle_life_span_known [where v = "JNum (num_div (Fin a) (Fin 100))"])
       (simp_all add: life_span_value_JObj field_of_JObj Let_def)
next
  assume "map_of kvs ''type'' = Some t" "lookup e (COMPONENT_FROM_ECOVACS e) t = JStr c" "c \<noteq> []"
    "map_of kvs ''val'' = None" "map_of kvs ''left'' = Some x" "map_of kvs ''total'' = Some y"
    "parseInt e x = Fin a" "parseInt e y = Fin b"
  then show "handle_life_span e (JObj kvs) n =
        (let v = num_mul (num_div (Fin a) (Fin b)) (Fin 100)
         in (if truthy (JNum v) then n\<lparr>components_non950 := (components_non950 n)(c \<mapsto> JNum v)\<rparr>
             else n, Inr ()))"
    by (subst handle_life_span_known [where v = "JNum (num_mul (num_div (Fin a) (Fin b)) (Fin 100))"])
       (simp_all add: life_span_value_JObj field_of_JObj Let_def)
next
  assume "map_of kvs ''type'' = Some t" "lookup e (COMPONENT_FROM_ECOVACS e) t = JStr c" "c \<noteq> []"
    "map_of kvs ''val'' = None" "map_of kvs ''left'' = Some x" "map_of kvs ''total'' = None"
    "parseInt e x = Fin a"
  then show "handle_life_span e (JObj kvs) n =
        (let v = num_div (Fin a) (Fin 60)
         in (if truthy (JNum v) then n\<lparr>components_non950 := (components_non950 n)(c \<mapsto> JNum v)\<rparr>
             else n, Inr ()))"
    by (subst handle_life_span_known [where v = "JNum (num_div (Fin a) (Fin 60))"])
       (simp_all add: life_span_value_JObj field_of_JObj Let_def)
next
  assume r: "0 \<le> a" "a \<le> b" "0 < b"
  from percent_range [OF r]
  show "num_ge (num_mul (num_div (Fin a) (Fin b)) (Fin 100)) (Fin 0)"
    and "num_ge (Fin 100) (num_mul (num_div (Fin a) (Fin b)) (Fin 100))"
    unfolding num_in_range by simp_all
next
  assume r: "0 \<le> a" "a \<le> 10000"
  from quotient_range [of a 100 100] r
  show "num_ge (num_div (Fin a) (Fin 100)) (Fin 0)"
    and "num_ge (Fin 100) (num_div (Fin a) (Fin 100))"
    unfolding num_in_range by simp_all
next
  assume r: "0 \<le> a" "a \<le> 6000"
  from quotient_range [of a 100 60] r
  show "num_ge (num_div (Fin a) (Fin 60)) (Fin 0)"
    and "num_ge (Fin 100) (num_div (Fin a) (Fin 60))"
    unfolding num_in_range by simp_all
next
  assume "for_in_values payload = xs @ p # ys" "truthy p"
    "list_all (\<lambda>q. truthy q \<longrightarrow> component_of e q \<noteq> component_of e p) ys"
  from handleLifespan_entry [OF this]
  show "components (fst (handleLifespan e payload s)) (component_of e p) =
        Some (JNum (toFixed2 (num_mul (num_div (parseInt e (field_of p ''left''))
                                                (parseInt e (field_of p ''total''))) (Fin 100))))"
    by (simp add: lifespan_of_def)
next
  assume "list_all (\<lambda>q. truthy q \<longrightarrow> component_of e q \<noteq> k) (for_in_values payload)"
  then show "components (fst (handleLifespan e payload s)) k = components s k"
    by (simp add: handleLifespan_def handleLifespan_loop_frame)
next
  assume "\<bar>r\<bar> < 10 ^ 21"
  then show "\<exists>i::int. toFixed2 (Fin r) = double_of (of_int i / 100) \<and> \<bar>of_int i / 100 - r\<bar> \<le> 1 / 200"
    by (rule toFixed2_rounds)
next
  assume r: "0 \<le> a" "a \<le> b" "0 < b"
  from percent_range [OF r]
  obtain q where q: "num_mul (num_div (Fin a) (Fin b)) (Fin 100) = Fin q" "0 \<le> q" "q \<le> 100"
    by blast
  from toFixed2_range [OF q(2,3)]
  show "num_ge (toFixed2 (num_mul (num_div (Fin a) (Fin b)) (Fin 100))) (Fin 0)"
    and "num_ge (Fin 100) (toFixed2 (num_mul (num_div (Fin a) (Fin b)) (Fin 100)))"
    unfolding num_in_range q(1) by simp_all
qed

text \<open>The four shapes with 50 (of 200) on the non-950 path; on the 950-type path a payload
  with the main brush at 1 of 3 and the filter at 23 of 160.\<close>

theorem life_span_percentage_witness:
  "handle_life_span sample_env
     (JObj [(''type'', JStr ''Brush''), (''val'', JStr ''50''), (''total'', JStr ''200'')]) sample_non950 =
     (sample_non950\<lparr>components_non950 := (components_non950 sample_non950)(''main_brush'' \<mapsto> JNum (Fin 25))\<rparr>,
      Inr ()) \<and>
   handle_life_span sample_env
     (JObj [(''type'', JStr ''Brush''), (''val'', JStr ''50'')]) sample_non950 =
     (sample_non950\<lparr>components_non950 :=
        (components_non950 sample_non950)(''main_brush'' \<mapsto> JNum (Fin (1 / 2)))\<rparr>, Inr ()) \<and>
   handle_life_span sample_env
     (JObj [(''type'', JStr ''Brush''), (''left'', JStr ''50''), (''total'', JStr ''200'')]) sample_non950 =
     (sample_non950\<lparr>components_non950 := (components_non950 sample_non950)(''main_brush'' \<mapsto> JNum (Fin 25))\<rparr>,
      Inr ()) \<and>
   components_non950 (fst (handle_life_span sample_env
     (JObj [(''type'', JStr ''Brush''), (''left'', JStr ''50'')]) sample_non950)) ''main_brush'' =
     Some (JNum (double_of (5 / 6))) \<and>
   num_ge (Fin 25) (Fin 0) \<and> num_ge (Fin 100) (Fin 25) \<and>
   components (fst (handleLifespan sample_env
      (JArr [JObj [(''type'', JStr ''brush''), (''left'', JNum (Fin 1)), (''total'', JNum (Fin 3))],
             JObj [(''type'', JStr ''heap''), (''left'', JNum (Fin 23)), (''total'', JNum (Fin 160))]])
      sample_session)) ''main_brush'' = Some (JNum (double_of (3333 / 100))) \<and>
   components (fst (handleLifespan sample_env
      (JArr [JObj [(''type'', JStr ''brush''), (''left'', JNum (Fin 1)), (''total'', JNum (Fin 3))],
             JObj [(''type'', JStr ''heap''), (''left'', JNum (Fin 23)), (''total'', JNum (Fin 160))]])
      sample_session)) ''filter'' = Some (JNum (double_of (1437 / 100)))"
proof -
  have l: "lookup sample_env (COMPONENT_FROM_ECOVACS sample_env) (JStr ''Brush'') = JStr ''main_brush''"
    by (simp add: lookup_def sample_components)
  note P = life_span_percentage [where e = sample_env and t = "JStr ''Brush''" and c = "''main_brush''"
      and n = sample_non950 and a = 50 and b = 200]
  have i1: "handle_life_span sample_env
     (JObj [(''type'', JStr ''Brush''), (''val'', JStr ''50''), (''total'', JStr ''200'')]) sample_non950 =
     (let v = num_mul (num_div (Fin 50) (Fin 200)) (Fin 100)
      in (if truthy (JNum v)
          then sample_non950\<lparr>components_non950 := (components_non950 sample_non950)(''main_brush'' \<mapsto> JNum v)\<rparr>
          else sample_non950, Inr ()))"
    by (rule P [where x = "JStr ''50''" and y = "JStr ''200''", THEN conjunct1, rule_format])
       (simp_all add: l parseInt_50 parseInt_200)
  have i2: "handle_life_span sample_env
     (JObj [(''type'', JStr ''Brush''), (''val'', JStr ''50'')]) sample_non950 =
     (let v = num_div (Fin 50) (Fin 100)
      in (if truthy (JNum v)
          then sample_non950\<lparr>components_non950 := (components_non950 sample_non950)(''main_brush'' \<mapsto> JNum v)\<rparr>
          else sample_non950, Inr ()))"
    by (rule P [where x = "JStr ''50''", THEN conjunct2, THEN conjunct1, rule_format])
       (simp_all add: l parseInt_50)
  have i3: "handle_life_span sample_env
     (JObj [(''type'', JStr ''Brush''), (''left'', JStr ''50''), (''total'', JStr ''200'')]) sample_non950 =
     (let v = num_mul (num_div (Fin 50) (Fin 200)) (Fin 100)
      in (if truthy (JNum v)
          then sample_non950\<lparr>components_non950 := (components_non950 sample_non950)(''main_brush'' \<mapsto> JNum v)\<rparr>
          else sample_non950, Inr ()))"
    by (rule P [where x = "JStr ''50''" and y = "JStr ''200''",
          THEN conjunct2, THEN conjunct2, THEN conjunct1, rule_format])
       (simp_all add: l parseInt_50 parseInt_200)
  have i4: "handle_life_span sample_env
     (JObj [(''type'', JStr ''Brush''), (''left'', JStr ''50'')]) sample_non950 =
     (let v = num_div (Fin 50) (Fin 60)
      in (if truthy (JNum v)
          then sample_non950\<lparr>components_non950 := (components_non950 sample_non950)(''main_brush'' \<mapsto> JNum v)\<rparr>
          else sample_non950, Inr ()))"
    by (rule P [where x = "JStr ''50''",
          THEN conjunct2, THEN conjunct2, THEN conjunct2, THEN conjunct1, rule_format])
       (simp_all add: l parseInt_50)
  have t: "truthy (JNum (double_of (5 / 6)))"
    unfolding truthy_def by code_simp
  have i5: "num_ge (num_mul (num_div (Fin 50) (Fin 200)) (Fin 100)) (Fin 0) \<and>
      num_ge (Fin 100) (num_mul (num_div (Fin 50) (Fin 200)) (Fin 100))"
    by (rule P [THEN conjunct2, THEN conjunct2, THEN conjunct2, THEN conjunct2, THEN conjunct1,
          rule_format]) simp_all
  define brush where "brush = JObj [(''type'', JStr ''brush''), (''left'', JNum (Fin 1)), (''total'', JNum (Fin 3))]"
  define heap where "heap = JObj [(''type'', JStr ''heap''), (''left'', JNum (Fin 23)), (''total'', JNum (Fin 160))]"
  have c: "component_of sample_env brush = ''main_brush''" "component_of sample_env heap = ''filter''"
    by (simp_all add: brush_def heap_def component_of_examples)
  have tr: "truthy brush" "truthy heap" by (simp_all add: brush_def heap_def truthy_def)
  note H = life_span_percentage [where e = sample_env and payload = "JArr [brush, heap]"
      and s = sample_session,
      THEN conjunct2, THEN conjunct2, THEN conjunct2, THEN conjunct2, THEN conjunct2, THEN conjunct2,
      THEN conjunct2, THEN conjunct1, rule_format]
  have i6: "components (fst (handleLifespan sample_env (JArr [brush, heap]) sample_session))
      (component_of sample_env brush) =
        Some (JNum (toFixed2 (num_mul (num_div (parseInt sample_env (field_of brush ''left''))
                                                (parseInt sample_env (field_of brush ''total''))) (Fin 100))))"
    by (rule H [where xs = "[]" and ys = "[heap]"]) (simp_all add: for_in_values_def tr c)
  have i7: "components (fst (handleLifespan sample_env (JArr [brush, heap]) sample_session))
      (component_of sample_env heap) =
        Some (JNum (toFixed2 (num_mul (num_div (parseInt sample_env (field_of heap ''left''))
                                                (parseInt sample_env (field_of heap ''total''))) (Fin 100))))"
    by (rule H [where xs = "[brush]" and ys = "[]"]) (simp_all add: for_in_values_def tr c)
  have v: "toFixed2 (num_mul (num_div (parseInt sample_env (field_of brush ''left''))
                                       (parseInt sample_env (field_of brush ''total''))) (Fin 100)) =
      double_of (3333 / 100)"
    "toFixed2 (num_mul (num_div (parseInt sample_env (field_of heap ''left''))
                                 (parseInt sample_env (field_of heap ''total''))) (Fin 100)) =
      double_of (1437 / 100)"
    using lifespan_of_examples(2,3) [of sample_env]
    by (simp_all add: lifespan_of_def brush_def heap_def)
  from i6 have j6: "components (fst (handleLifespan sample_env (JArr [brush, heap]) sample_session))
      ''main_brush'' = Some (JNum (double_of (3333 / 100)))"
    by (simp only: v c)
  from i7 have j7: "components (fst (handleLifespan sample_env (JArr [brush, heap]) sample_session))
      ''filter'' = Some (JNum (double_of (1437 / 100)))"
    by (simp only: v c)
  show ?thesis
    using i1 i2 i3 i4 i5 j6 [unfolded brush_def heap_def] j7 [unfolded brush_def heap_def] t
    by (simp add: quotient_examples truthy_def Let_def)
qed

text \<open>
  Claim C9. In the non-950 life span handler a computed value of exactly 0 does not update
  the components: the guard \<open>if (lifespan)\<close> drops every falsy value, so \<open>val\<close> 0 with any
  \<open>total\<close> (or none) and \<open>left\<close> 0 leave the session as it was.
\<close>

theorem handle_life_span_zero_dropped:
  "(life_span_value e event = Inr v \<longrightarrow> \<not> truthy v \<longrightarrow> handle_life_span e event s = (s, Inr ())) \<and>
   \<not> truthy (JNum (Fin 0)) \<and>
   (map_of kvs ''val'' = Some x \<longrightarrow> parseInt e x = Fin 0 \<longrightarrow>
      handle_life_span e (JObj kvs) s = (s, Inr ())) \<and>
   (map_of kvs ''val'' = None \<longrightarrow> map_of kvs ''left'' = Some x \<longrightarrow> parseInt e x = Fin 0 \<longrightarrow>
      handle_life_span e (JObj kvs) s = (s, Inr ()))"
proof (intro conjI impI)
  show "\<not> truthy (JNum (Fin 0))" by (simp add: truthy_def)
next
  assume "life_span_value e event = Inr v" "\<not> truthy v"
  then show "handle_life_span e event s = (s, Inr ())" by (rule handle_life_span_falsy)
next
  assume a: "map_of kvs ''val'' = Some x" "parseInt e x = Fin 0"
  show "handle_life_span e (JObj kvs) s = (s, Inr ())"
  proof (rule handle_life_span_falsy)
    show "life_span_value e (JObj kvs) =
      Inr (if map_of kvs ''total'' \<noteq> None
           then JNum (num_mul (num_div (Fin 0) (parseInt e (field_of (JObj kvs) ''total''))) (Fin 100))
           else JNum (num_div (Fin 0) (Fin 100)))"
      using a by (simp add: life_span_value_JObj field_of_JObj)
    show "\<not> truthy (if map_of kvs ''total'' \<noteq> None
           then JNum (num_mul (num_div (Fin 0) (parseInt e (field_of (JObj kvs) ''total''))) (Fin 100))
           else JNum (num_div (Fin 0) (Fin 100)))"
      using num_div_zero num_div_zero_100 by simp
  qed
next
  assume a: "map_of kvs ''val'' = None" "map_of kvs ''left'' = Some x" "parseInt e x = Fin 0"
  show "handle_life_span e (JObj kvs) s = (s, Inr ())"
  proof (rule handle_life_span_falsy)
    show "life_span_value e (JObj kvs) =
      Inr (if map_of kvs ''total'' \<noteq> None
           then JNum (num_mul (num_div (Fin 0) (parseInt e (field_of (JObj kvs) ''total''))) (Fin 100))
           else JNum (num_div (Fin 0) (Fin 60)))"
      using a by (simp add: life_span_value_JObj field_of_JObj)
    show "\<not> truthy (if map_of kvs ''total'' \<noteq> None
           then JNum (num_mul (num_div (Fin 0) (parseInt e (field_of (JObj kvs) ''total''))) (Fin 100))
           else JNum (num_div (Fin 0) (Fin 60)))"
      using num_div_zero num_div_zero_60 by simp
  qed
qed

text \<open>A main brush recorded at 40 stays at 40 when the event reports 0.\<close>

theorem handle_life_span_zero_dropped_witness:
  "life_span_value sample_env
     (JObj [(''type'', JStr ''Brush''), (''val'', JStr ''0''), (''total'', JStr ''100'')]) =
     Inr (JNum (Fin 0)) \<and>
   \<not> truthy (JNum (Fin 0)) \<and>
   parseInt sample_env (JStr ''0'') = Fin 0 \<and>
   lookup sample_env (COMPONENT_FROM_ECOVACS sample_env) (JStr ''Brush'') = JStr ''main_brush'' \<and>
   handle_life_span sample_env
     (JObj [(''type'', JStr ''Brush''), (''val'', JStr ''0''), (''total'', JStr ''100'')])
     (sample_non950\<lparr>components_non950 := [''main_brush'' \<mapsto> JNum (Fin 40)]\<rparr>) =
     (sample_non950\<lparr>components_non950 := [''main_brush'' \<mapsto> JNum (Fin 40)]\<rparr>, Inr ()) \<and>
   handle_life_span sample_env
     (JObj [(''type'', JStr ''Brush''), (''left'', JStr ''0'')])
     (sample_non950\<lparr>components_non950 := [''main_brush'' \<mapsto> JNum (Fin 40)]\<rparr>) =
     (sample_non950\<lparr>components_non950 := [''main_brush'' \<mapsto> JNum (Fin 40)]\<rparr>, Inr ())"
proof -
  have z: "parseInt sample_env (JStr ''0'') = Fin 0" by (rule parseInt_0)
  have v: "life_span_value sample_env
     (JObj [(''type'', JStr ''Brush''), (''val'', JStr ''0''), (''total'', JStr ''100'')]) =
     Inr (JNum (Fin 0))"
    by (simp add: life_span_value_JObj field_of_JObj parseInt_0 parseInt_100 num_div_def num_mul_def
        double_of_0)
  have l: "lookup sample_env (COMPONENT_FROM_ECOVACS sample_env) (JStr ''Brush'') = JStr ''main_brush''"
    by (simp add: lookup_def sample_components)
  have i1: "handle_life_span sample_env
     (JObj [(''type'', JStr ''Brush''), (''val'', JStr ''0''), (''total'', JStr ''100'')])
     (sample_non950\<lparr>components_non950 := [''main_brush'' \<mapsto> JNum (Fin 40)]\<rparr>) =
     (sample_non950\<lparr>components_non950 := [''main_brush'' \<mapsto> JNum (Fin 40)]\<rparr>, Inr ())"
    using handle_life_span_zero_dropped [where e = sample_env and x = "JStr ''0''"
      and event = JNull and v = JNull
      and kvs = "[(''type'', JStr ''Brush''), (''val'', JStr ''0''), (''total'', JStr ''100'')]"
      and s = "sample_non950\<lparr>components_non950 := [''main_brush'' \<mapsto> JNum (Fin 40)]\<rparr>"] z
    by simp
  have i2: "handle_life_span sample_env
     (JObj [(''type'', JStr ''Brush''), (''left'', JStr ''0'')])
     (sample_non950\<lparr>components_non950 := [''main_brush'' \<mapsto> JNum (Fin 40)]\<rparr>) =
     (sample_non950\<lparr>components_non950 := [''main_brush'' \<mapsto> JNum (Fin 40)]\<rparr>, Inr ())"
    using handle_life_span_zero_dropped [where e = sample_env and x = "JStr ''0''"
      and event = JNull and v = JNull
      and kvs = "[(''type'', JStr ''Brush''), (''left'', JStr ''0'')]"
      and s = "sample_non950\<lparr>components_non950 := [''main_brush'' \<mapsto> JNum (Fin 40)]\<rparr>"] z
    by simp
  show ?thesis
    using z v l i1 i2 by (simp add: truthy_def)
qed

section \<open>The error handlers\<close>

lemma StringToNumber_100: "StringToNumber e ''100'' = Fin 100"
  unfolding StringToNumber_def by code_simp

lemma loose_eq_100: "loose_eq_string e (JStr ''100'') ''100''"
  by (simp add: loose_eq_string_def)

lemma handle_error_known:
  assumes "map_of kvs ''errno'' = Some v" "lookup e (errorCodes e) v = JStr d" "d \<noteq> []"
  shows "handle_error e (JObj kvs) s =
    (if loose_eq_string e v ''100'' then s else s\<lparr>error_event := JStr d\<rparr>, Inr ())"
  using assms
  by (simp add: handle_error_def attempt_def hasOwnProperty_JObj get_JObj truthy_def Let_def)

lemma handle_error_fallback:
  assumes "map_of kvs ''errno'' = None \<or>
     \<not> truthy (lookup e (errorCodes e) (field_of (JObj kvs) ''errno''))"
  shows "handle_error e (JObj kvs) s =
    (if truthy (field_of (JObj kvs) ''error'') then s\<lparr>error_event := field_of (JObj kvs) ''error''\<rparr>
     else if truthy (field_of (JObj kvs) ''errs'') then s\<lparr>error_event := field_of (JObj kvs) ''errs''\<rparr>
     else s, Inr ())"
  using assms
  by (cases "map_of kvs ''error''"; cases "map_of kvs ''errs''"; cases "map_of kvs ''errno''")
     (auto simp: handle_error_def attempt_def hasOwnProperty_JObj get_JObj field_of_JObj
        truthy_def Let_def)

lemma handleResponseError_result:
  assumes "get payload ''code'' = Inr c" "method_toString e c = Inr cs"
  shows "handleResponseError e payload s =
    (let description =
       (case errorCodes e cs of
          None \<Rightarrow> ''unknown errorCode: '' @ cs
        | Some d \<Rightarrow>
            if d = [] then ''unknown errorCode: '' @ cs
            else if cs = ''1'' then d @ '': '' @ ToString e (field_of payload ''error'')
            else d)
     in (s\<lparr>errorCode := JStr cs, errorDescription := JStr description\<rparr>,
         Inr (if cs = ''0'' then []
              else [''errorCode: '' @ cs, ''errorDescription: '' @ description])))"
proof -
  from assms(1) have g: "get payload ''error'' = Inr (field_of payload ''error'')"
    by (cases payload) (simp_all add: get_def field_of_def)
  show ?thesis
  proof (cases "cs = ''0''")
    case True
    with assms g show ?thesis
      by (cases "errorCodes e cs")
         (simp_all add: handleResponseError_def attempt_def lookup_def truthy_def Let_def)
  next
    case False
    with assms g show ?thesis
      by (cases "errorCodes e cs")
         (auto simp: handleResponseError_def attempt_def lookup_def truthy_def Let_def)
  qed
qed

lemma sample_errorCodes: "errorCodes sample_env = map_of
       [(''0'', ''NoError: Robot is operational''), (''100'', ''NoError: Robot is operational''),
        (''101'', ''BatteryLow: Low battery'')]"
  by (simp add: sample_env_def)

lemma method_toString_7: "method_toString e (JNum (Fin 7)) = Inr ''7''"
  by code_simp

lemma method_toString_0: "method_toString e (JNum (Fin 0)) = Inr ''0''"
  by code_simp

lemma method_toString_100: "method_toString e (JNum (Fin 100)) = Inr ''100''"
  by code_simp

lemma method_toString_1: "method_toString e (JNum (Fin 1)) = Inr ''1''"
  by code_simp

text \<open>
  Claim C4, as it is written: in both handlers the codes \<open>'0'\<close> and \<open>'100'\<close> are no error
  and change no error state, and a code absent from the table surfaces with a placeholder
  description. Each handler knows one no-error code only, and only the 950-type handler
  has a placeholder. On the non-950 path the code 999, in no table entry and with no error
  text in the event, leaves the session as it was, and the code 0 sets the error event to
  its table entry. On the 950-type path the code 100 is recorded and warned about like
  the code of an error.
\<close>

theorem error_code_counterexample:
  "errorCodes sample_env ''999'' = None \<and>
   handle_error sample_env (JObj [(''errno'', JStr ''999'')]) sample_non950 = (sample_non950, Inr ()) \<and>
   error_event sample_non950 = JNull \<and>
   handle_error sample_env (JObj [(''errno'', JStr ''0'')]) sample_non950 =
     (sample_non950\<lparr>error_event := JStr ''NoError: Robot is operational''\<rparr>, Inr ()) \<and>
   handleResponseError sample_env (JObj [(''code'', JNum (Fin 100))]) sample_session =
     (sample_session\<lparr>errorCode := JStr ''100'',
                      errorDescription := JStr ''NoError: Robot is operational''\<rparr>,
      Inr [''errorCode: 100'', ''errorDescription: NoError: Robot is operational'']) \<and>
   handleResponseError sample_env (JObj [(''code'', JNum (Fin 101))]) sample_session =
     (sample_session\<lparr>errorCode := JStr ''101'', errorDescription := JStr ''BatteryLow: Low battery''\<rparr>,
      Inr [''errorCode: 101'', ''errorDescription: BatteryLow: Low battery''])"
proof -
  have m: "method_toString sample_env (JNum (Fin 101)) = Inr ''101''" by code_simp
  have a: "handle_error sample_env (JObj [(''errno'', JStr ''999'')]) sample_non950 = (sample_non950, Inr ())"
    by (subst handle_error_fallback)
       (simp_all add: field_of_JObj lookup_def sample_errorCodes truthy_def)
  have l: "\<not> loose_eq_string sample_env (JStr ''0'') ''100''" by (simp add: loose_eq_string_def)
  have b: "handle_error sample_env (JObj [(''errno'', JStr ''0'')]) sample_non950 =
     (sample_non950\<lparr>error_event := JStr ''NoError: Robot is operational''\<rparr>, Inr ())"
    by (subst handle_error_known [where v = "JStr ''0''" and d = "''NoError: Robot is operational''"])
       (simp_all add: lookup_def sample_errorCodes l)
  have c: "handleResponseError sample_env (JObj [(''code'', JNum (Fin 100))]) sample_session =
     (sample_session\<lparr>errorCode := JStr ''100'',
                      errorDescription := JStr ''NoError: Robot is operational''\<rparr>,
      Inr [''errorCode: 100'', ''errorDescription: NoError: Robot is operational''])"
    by (subst handleResponseError_result [where c = "JNum (Fin 100)" and cs = "''100''"])
       (simp_all add: get_JObj method_toString_100 sample_errorCodes Let_def)
  have d: "handleResponseError sample_env (JObj [(''code'', JNum (Fin 101))]) sample_session =
     (sample_session\<lparr>errorCode := JStr ''101'', errorDescription := JStr ''BatteryLow: Low battery''\<rparr>,
      Inr [''errorCode: 101'', ''errorDescription: BatteryLow: Low battery''])"
    by (subst handleResponseError_result [where c = "JNum (Fin 101)" and cs = "''101''"])
       (simp_all add: get_JObj m sample_errorCodes Let_def)
  show ?thesis
    unfolding a b c d by (simp add: sample_errorCodes sample_non950_def)
qed

text \<open>
  Claim C4, amended. Non-950 handler, for an event with its fields: an \<open>errno\<close> that the
  table knows (with a description that is not empty) and that equals \<open>'100'\<close> is no error
  and leaves the session unchanged; every other \<open>errno\<close> the table knows, \<open>'0'\<close> among
  them, sets the error event to the table's description; without an \<open>errno\<close> the table
  knows there is no placeholder: the error event becomes the event's \<open>error\<close> text, else
  its \<open>errs\<close> text, and the session is unchanged when the event has neither. 950-type
  handler, for a code with a printed form: the handler does not fail and writes the code
  to \<open>errorCode\<close>; a code absent from the table (or with an empty description) is
  described by the non-empty placeholder \<open>unknown errorCode: <code>\<close>, a code of the
  table by the table's description, followed by the payload's \<open>error\<close> text for the code
  \<open>'1'\<close>; the code \<open>'0'\<close> is no error in that it writes no warning, and every other
  code, \<open>'100'\<close> among them, writes the two warning lines.
\<close>

theorem error_codes:
  "(map_of kvs ''errno'' = Some v \<longrightarrow> lookup e (errorCodes e) v = JStr d \<longrightarrow> d \<noteq> [] \<longrightarrow>
      loose_eq_string e v ''100'' \<longrightarrow>
      handle_error e (JObj kvs) n = (n, Inr ())) \<and>
   (map_of kvs ''errno'' = Some v \<longrightarrow> lookup e (errorCodes e) v = JStr d \<longrightarrow> d \<noteq> [] \<longrightarrow>
      \<not> loose_eq_string e v ''100'' \<longrightarrow>
      handle_error e (JObj kvs) n = (n\<lparr>error_event := JStr d\<rparr>, Inr ())) \<and>
   (map_of kvs ''errno'' = None \<or>
    \<not> truthy (lookup e (errorCodes e) (field_of (JObj kvs) ''errno'')) \<longrightarrow>
      handle_error e (JObj kvs) n =
        (if truthy (field_of (JObj kvs) ''error'')
         then n\<lparr>error_event := field_of (JObj kvs) ''error''\<rparr>
         else if truthy (field_of (JObj kvs) ''errs'')
         then n\<lparr>error_event := field_of (JObj kvs) ''errs''\<rparr>
         else n, Inr ())) \<and>
   (get payload ''code'' = Inr c \<longrightarrow> method_toString e c = Inr cs \<longrightarrow>
      handleResponseError e payload s =
        (let description =
           (case errorCodes e cs of
              None \<Rightarrow> ''unknown errorCode: '' @ cs
            | Some d \<Rightarrow>
                if d = [] then ''unknown errorCode: '' @ cs
                else if cs = ''1'' then d @ '': '' @ ToString e (field_of payload ''error'')
                else d)
         in (s\<lparr>errorCode := JStr cs, errorDescription := JStr description\<rparr>,
             Inr (if cs = ''0'' then []
                  else [''errorCode: '' @ cs, ''errorDescription: '' @ description])))) \<and>
   ''unknown errorCode: '' @ cs \<noteq> []"
proof (intro conjI impI)
  show "''unknown errorCode: '' @ cs \<noteq> []" by simp
next
  assume "map_of kvs ''errno'' = Some v" "lookup e (errorCodes e) v = JStr d" "d \<noteq> []"
    "loose_eq_string e v ''100''"
  then show "handle_error e (JObj kvs) n = (n, Inr ())"
    by (simp add: handle_error_known)
next
  assume "map_of kvs ''errno'' = Some v" "lookup e (errorCodes e) v = JStr d" "d \<noteq> []"
    "\<not> loose_eq_string e v ''100''"
  then show "handle_error e (JObj kvs) n = (n\<lparr>error_event := JStr d\<rparr>, Inr ())"
    by (simp add: handle_error_known)
next
  assume "map_of kvs ''errno'' = None \<or>
    \<not> truthy (lookup e (errorCodes e) (field_of (JObj kvs) ''errno''))"
  then show "handle_error e (JObj kvs) n =
        (if truthy (field_of (JObj kvs) ''error'')
         then n\<lparr>error_event := field_of (JObj kvs) ''error''\<rparr>
         else if truthy (field_of (JObj kvs) ''errs'')
         then n\<lparr>error_event := field_of (JObj kvs) ''errs''\<rparr>
         else n, Inr ())"
    by (rule handle_error_fallback)
next
  assume "get payload ''code'' = Inr c" "method_toString e c = Inr cs"
  then show "handleResponseError e payload s =
        (let description =
           (case errorCodes e cs of
              None \<Rightarrow> ''unknown errorCode: '' @ cs
            | Some d \<Rightarrow>
                if d = [] then ''unknown errorCode: '' @ cs
                else if cs = ''1'' then d @ '': '' @ ToString e (field_of payload ''error'')
                else d)
         in (s\<lparr>errorCode := JStr cs, errorDescription := JStr description\<rparr>,
             Inr (if cs = ''0'' then []
                  else [''errorCode: '' @ cs, ''errorDescription: '' @ description])))"
    by (rule handleResponseError_result)
qed

text \<open>The codes 100, 101, 0 and 999 (alone, with an error text, with an \<open>errs\<close> text) on the
  non-950 path; 7 and 0 on the 950-type path.\<close>

theorem error_codes_witness:
  "handle_error sample_env (JObj [(''errno'', JStr ''100'')])
     (sample_non950\<lparr>error_event := JStr ''BatteryLow: Low battery''\<rparr>) =
     (sample_non950\<lparr>error_event := JStr ''BatteryLow: Low battery''\<rparr>, Inr ()) \<and>
   handle_error sample_env (JObj [(''errno'', JStr ''101'')]) sample_non950 =
     (sample_non950\<lparr>error_event := JStr ''BatteryLow: Low battery''\<rparr>, Inr ()) \<and>
   handle_error sample_env (JObj [(''errno'', JStr ''999'')]) sample_non950 = (sample_non950, Inr ()) \<and>
   handle_error sample_env (JObj [(''errno'', JStr ''999''), (''error'', JStr ''stuck'')]) sample_non950 =
     (sample_non950\<lparr>error_event := JStr ''stuck''\<rparr>, Inr ()) \<and>
   handle_error sample_env (JObj [(''errno'', JStr ''999''), (''errs'', JStr ''wheel'')]) sample_non950 =
     (sample_non950\<lparr>error_event := JStr ''wheel''\<rparr>, Inr ()) \<and>
   handleResponseError sample_env (JObj [(''code'', JNum (Fin 7))]) sample_session =
     (sample_session\<lparr>errorCode := JStr ''7'', errorDescription := JStr ''unknown errorCode: 7''\<rparr>,
      Inr [''errorCode: 7'', ''errorDescription: unknown errorCode: 7'']) \<and>
   handleResponseError sample_env (JObj [(''code'', JNum (Fin 0))]) sample_session =
     (sample_session\<lparr>errorCode := JStr ''0'',
                      errorDescription := JStr ''NoError: Robot is operational''\<rparr>, Inr [])"
proof -
  have i1: "handle_error sample_env (JObj [(''errno'', JStr ''100'')])
     (sample_non950\<lparr>error_event := JStr ''BatteryLow: Low battery''\<rparr>) =
     (sample_non950\<lparr>error_event := JStr ''BatteryLow: Low battery''\<rparr>, Inr ())"
    by (rule error_codes [where e = sample_env and v = "JStr ''100''"
          and d = "''NoError: Robot is operational''", THEN conjunct1, rule_format])
       (simp_all add: loose_eq_100 lookup_def sample_errorCodes)
  have l: "\<not> loose_eq_string sample_env (JStr ''101'') ''100''" by (simp add: loose_eq_string_def)
  have i2: "handle_error sample_env (JObj [(''errno'', JStr ''101'')]) sample_non950 =
     (sample_non950\<lparr>error_event := JStr ''BatteryLow: Low battery''\<rparr>, Inr ())"
    by (rule error_codes [where e = sample_env and v = "JStr ''101''"
          and d = "''BatteryLow: Low battery''", THEN conjunct2, THEN conjunct1, rule_format])
       (simp_all add: l lookup_def sample_errorCodes)
  note F = error_codes [where e = sample_env and n = sample_non950,
      THEN conjunct2, THEN conjunct2, THEN conjunct1, rule_format]
  have i3: "handle_error sample_env (JObj [(''errno'', JStr ''999'')]) sample_non950 =
     (sample_non950, Inr ())"
    by (subst F) (simp_all add: field_of_JObj lookup_def sample_errorCodes truthy_def)
  have i4: "handle_error sample_env (JObj [(''errno'', JStr ''999''), (''error'', JStr ''stuck'')])
     sample_non950 = (sample_non950\<lparr>error_event := JStr ''stuck''\<rparr>, Inr ())"
    by (subst F) (simp_all add: field_of_JObj lookup_def sample_errorCodes truthy_def)
  have i5: "handle_error sample_env (JObj [(''errno'', JStr ''999''), (''errs'', JStr ''wheel'')])
     sample_non950 = (sample_non950\<lparr>error_event := JStr ''wheel''\<rparr>, Inr ())"
    by (subst F) (simp_all add: field_of_JObj lookup_def sample_errorCodes truthy_def)
  note R = error_codes [where e = sample_env and s = sample_session,
      THEN conjunct2, THEN conjunct2, THEN conjunct2, THEN conjunct1, rule_format]
  have i6: "handleResponseError sample_env (JObj [(''code'', JNum (Fin 7))]) sample_session =
     (sample_session\<lparr>errorCode := JStr ''7'', errorDescription := JStr ''unknown errorCode: 7''\<rparr>,
      Inr [''errorCode: 7'', ''errorDescription: unknown errorCode: 7''])"
    by (subst R [where c = "JNum (Fin 7)" and cs = "''7''"])
       (simp_all add: get_JObj method_toString_7 sample_errorCodes Let_def)
  have i7: "handleResponseError sample_env (JObj [(''code'', JNum (Fin 0))]) sample_session =
     (sample_session\<lparr>errorCode := JStr ''0'',
                      errorDescription := JStr ''NoError: Robot is operational''\<rparr>, Inr [])"
    by (subst R [where c = "JNum (Fin 0)" and cs = "''0''"])
       (simp_all add: get_JObj method_toString_0 sample_errorCodes Let_def)
  show ?thesis
    unfolding i1 i2 i3 i4 i5 i6 i7 by simp
qed

section \<open>The position handler\<close>

lemma handlePos_chargePos_frame:
  "deebotPosition (fst (handlePos_chargePos e cp s)) = deebotPosition s \<and>
   mapSpotAreaInfos (fst (handlePos_chargePos e cp s)) = mapSpotAreaInfos s \<and>
   currentMapMID (fst (handlePos_chargePos e cp s)) = currentMapMID s"
proof -
  define Q :: "vacbot \<times> (error + unit) \<Rightarrow> bool"
    where "Q = (\<lambda>r. deebotPosition (fst r) = deebotPosition s \<and>
                     mapSpotAreaInfos (fst r) = mapSpotAreaInfos s \<and>
                     currentMapMID (fst r) = currentMapMID s)"
  have "Q (handlePos_chargePos e cp s)"
    unfolding handlePos_chargePos_def Let_def
    by (intro attempt_intro [where P = Q] if_intro [where P = Q]) (simp_all add: Q_def)
  then show ?thesis by (simp add: Q_def)
qed

lemma handlePos_deebotPos_same:
  assumes "deebotPosition s = JObj ckvs"
    "strict_eq (field_of (JObj dkvs) ''x'') (field_of (JObj ckvs) ''x'')"
    "strict_eq (field_of (JObj dkvs) ''y'') (field_of (JObj ckvs) ''y'')"
    "strict_eq (field_of (JObj dkvs) ''a'') (field_of (JObj ckvs) ''a'')"
    "strict_eq (field_of (JObj dkvs) ''invalid'') (field_of (JObj ckvs) ''isInvalid'')"
    "\<not> strict_eq (field_of (JObj ckvs) ''currentSpotAreaID'') (JStr ''unknown'')"
  shows "handlePos_deebotPos e (JObj dkvs) s = (s, Inr ())"
  using assms
  by (simp add: handlePos_deebotPos_def attempt_def get_JObj field_of_JObj is_object_def)

lemma handlePos_deebotPos_changed:
  assumes "deebotPosition s = JObj ckvs"
    "\<not> strict_eq (field_of (JObj dkvs) ''x'') (field_of (JObj ckvs) ''x'') \<or>
     \<not> strict_eq (field_of (JObj dkvs) ''y'') (field_of (JObj ckvs) ''y'') \<or>
     \<not> strict_eq (field_of (JObj dkvs) ''a'') (field_of (JObj ckvs) ''a'') \<or>
     \<not> strict_eq (field_of (JObj dkvs) ''invalid'') (field_of (JObj ckvs) ''isInvalid'') \<or>
     strict_eq (field_of (JObj ckvs) ''currentSpotAreaID'') (JStr ''unknown'')"
  shows "handlePos_deebotPos e (JObj dkvs) s =
    (let dx = field_of (JObj dkvs) ''x''; dy = field_of (JObj dkvs) ''y'';
         currentSpotAreaID = isPositionInSpotArea e (ToNumber e dx) (ToNumber e dy)
           (case mapSpotAreaInfos s (ToString e (currentMapMID s)) of
              None \<Rightarrow> JUndefined | Some infos \<Rightarrow> infos)
     in (s\<lparr>deebotPosition :=
          JObj [(''x'', dx), (''y'', dy), (''a'', field_of (JObj dkvs) ''a''),
                (''isInvalid'', JBool (ToNumber e (field_of (JObj dkvs) ''invalid'') = Fin 1)),
                (''currentSpotAreaID'', currentSpotAreaID),
                (''currentSpotAreaName'', getSpotAreaName e s currentSpotAreaID),
                (''changeFlag'', JBool True),
                (''distanceToChargingStation'',
                  if truthy (chargePosition s)
                  then getDistanceToChargingStation e (ToString e dx @ '','' @ ToString e dy)
                         (ToString e (field_of (chargePosition s) ''x'') @ '','' @
                          ToString e (field_of (chargePosition s) ''y''))
                  else JNull)]\<rparr>, Inr ()))"
proof (cases "truthy (chargePosition s)")
  case True
  then have g: "get (chargePosition s) ''x'' = Inr (field_of (chargePosition s) ''x'')"
    "get (chargePosition s) ''y'' = Inr (field_of (chargePosition s) ''y'')"
    using truthy_defined get_field_of by blast+
  have n: "strict_eq (JNum n) (JNum (Fin 1)) = (n = Fin 1)" for n
    by (auto simp: strict_eq_def)
  show ?thesis using assms True g
    by (simp add: handlePos_deebotPos_def attempt_def get_JObj field_of_JObj is_object_def Let_def n)
next
  case False
  have n: "strict_eq (JNum n) (JNum (Fin 1)) = (n = Fin 1)" for n
    by (auto simp: strict_eq_def)
  show ?thesis using assms False
    by (simp add: handlePos_deebotPos_def attempt_def get_JObj field_of_JObj is_object_def Let_def n)
qed

lemma handlePos_unfold:
  assumes "get payload ''chargePos'' = Inr cp" "get payload ''deebotPos'' = Inr dp"
  shows "handlePos e payload s =
    (case handlePos_chargePos e cp s of
       (s1, Inl err) \<Rightarrow> (s1, Inl err)
     | (s1, Inr u) \<Rightarrow> handlePos_deebotPos e dp s1)"
  using assms by (simp add: handlePos_def attempt_def split: prod.splits sum.splits)

text \<open>
  Claim C2: a payload whose \<open>x\<close>, \<open>y\<close>, \<open>a\<close> and \<open>invalid\<close> equal the cached device position
  leaves the position unchanged. The handler does compare the four fields, but it
  compares the payload's \<open>invalid\<close>, a number, with the cached \<open>isInvalid\<close>, which the
  constructor and the handler itself store as a boolean; \<open>!==\<close> never finds the two
  equal. So whenever the payload carries a numeric \<open>invalid\<close> and the session a boolean
  \<open>isInvalid\<close>, the position is rewritten with \<open>changeFlag\<close> set, whatever \<open>x\<close>, \<open>y\<close>, \<open>a\<close>
  and the cached spot area are, and the rewritten position holds a boolean again.
\<close>

theorem handlePos_numeric_invalid:
  assumes "get payload ''chargePos'' = Inr cp" "handlePos_chargePos e cp s = (s1, Inr u)"
    and "get payload ''deebotPos'' = Inr (JObj dkvs)" "deebotPosition s = JObj ckvs"
    and "field_of (JObj dkvs) ''invalid'' = JNum n"
    and "field_of (JObj ckvs) ''isInvalid'' = JBool b"
  shows "snd (handlePos e payload s) = Inr () \<and>
    get (deebotPosition (fst (handlePos e payload s))) ''changeFlag'' = Inr (JBool True) \<and>
    get (deebotPosition (fst (handlePos e payload s))) ''isInvalid'' = Inr (JBool (n = Fin 1)) \<and>
    get (deebotPosition (fst (handlePos e payload s))) ''x'' = Inr (field_of (JObj dkvs) ''x'') \<and>
    get (deebotPosition (fst (handlePos e payload s))) ''y'' = Inr (field_of (JObj dkvs) ''y'') \<and>
    get (deebotPosition (fst (handlePos e payload s))) ''a'' = Inr (field_of (JObj dkvs) ''a'') \<and>
    get (deebotPosition (fst (handlePos e payload s))) ''currentSpotAreaID'' =
      Inr (isPositionInSpotArea e (ToNumber e (field_of (JObj dkvs) ''x''))
             (ToNumber e (field_of (JObj dkvs) ''y''))
             (case mapSpotAreaInfos s (ToString e (currentMapMID s)) of
                None \<Rightarrow> JUndefined | Some infos \<Rightarrow> infos))"
proof -
  from assms(2) handlePos_chargePos_frame [of e cp s]
  have f: "deebotPosition s1 = JObj ckvs" "mapSpotAreaInfos s1 = mapSpotAreaInfos s"
    "currentMapMID s1 = currentMapMID s"
    using assms(4) by simp_all
  have "\<not> strict_eq (field_of (JObj dkvs) ''invalid'') (field_of (JObj ckvs) ''isInvalid'')"
    unfolding assms(5,6) by (simp add: strict_eq_def)
  then have ch: "\<not> strict_eq (field_of (JObj dkvs) ''x'') (field_of (JObj ckvs) ''x'') \<or>
     \<not> strict_eq (field_of (JObj dkvs) ''y'') (field_of (JObj ckvs) ''y'') \<or>
     \<not> strict_eq (field_of (JObj dkvs) ''a'') (field_of (JObj ckvs) ''a'') \<or>
     \<not> strict_eq (field_of (JObj dkvs) ''invalid'') (field_of (JObj ckvs) ''isInvalid'') \<or>
     strict_eq (field_of (JObj ckvs) ''currentSpotAreaID'') (JStr ''unknown'')"
    by blast
  have h: "handlePos e payload s = handlePos_deebotPos e (JObj dkvs) s1"
    using assms(1-3) by (simp add: handlePos_unfold)
  note r = handlePos_deebotPos_changed [OF f(1) ch, of e]
  have n: "ToNumber e (field_of (JObj dkvs) ''invalid'') = n"
    unfolding assms(5) by (rule ToNumber_JNum)
  show ?thesis
    unfolding h r n by (simp add: Let_def get_JObj f)
qed

lemma handlePos_chargePos_absent: "handlePos_chargePos e JUndefined s = (s, Inr ())"
  by (simp add: handlePos_chargePos_def truthy_def)

text \<open>
  A session in the spot area 4 at (1, 2, 3), valid, receives the same position again, as
  the device sends it: the position is rewritten with the change flag set.
\<close>

theorem handlePos_numeric_invalid_witness:
  "get (deebotPosition (fst (handlePos sample_env
      (JObj [(''deebotPos'', JObj [(''x'', JNum (Fin 1)), (''y'', JNum (Fin 2)), (''a'', JNum (Fin 3)),
                                   (''invalid'', JNum (Fin 0))])])
      (sample_session\<lparr>deebotPosition :=
         JObj [(''x'', JNum (Fin 1)), (''y'', JNum (Fin 2)), (''a'', JNum (Fin 3)),
               (''isInvalid'', JBool False), (''currentSpotAreaID'', JStr ''4''),
               (''currentSpotAreaName'', JStr ''Kitchen''), (''changeFlag'', JBool False)]\<rparr>))))
     ''changeFlag'' = Inr (JBool True) \<and>
   get (JObj [(''x'', JNum (Fin 1)), (''y'', JNum (Fin 2)), (''a'', JNum (Fin 3)),
               (''isInvalid'', JBool False), (''currentSpotAreaID'', JStr ''4''),
               (''currentSpotAreaName'', JStr ''Kitchen''), (''changeFlag'', JBool False)])
     ''changeFlag'' = Inr (JBool False) \<and>
   get (deebotPosition (fst (handlePos sample_env
      (JObj [(''deebotPos'', JObj [(''x'', JNum (Fin 1)), (''y'', JNum (Fin 2)), (''a'', JNum (Fin 3)),
                                   (''invalid'', JNum (Fin 0))])])
      (sample_session\<lparr>deebotPosition :=
         JObj [(''x'', JNum (Fin 1)), (''y'', JNum (Fin 2)), (''a'', JNum (Fin 3)),
               (''isInvalid'', JBool False), (''currentSpotAreaID'', JStr ''4''),
               (''currentSpotAreaName'', JStr ''Kitchen''), (''changeFlag'', JBool False)]\<rparr>))))
     ''isInvalid'' = Inr (JBool False)"
proof -
  define cached where "cached = [(''x'', JNum (Fin 1)), (''y'', JNum (Fin 2)), (''a'', JNum (Fin 3)),
               (''isInvalid'', JBool False), (''currentSpotAreaID'', JStr ''4''),
               (''currentSpotAreaName'', JStr ''Kitchen''), (''changeFlag'', JBool False)]"
  define s where "s = sample_session\<lparr>deebotPosition := JObj cached\<rparr>"
  define same where "same = [(''x'', JNum (Fin 1)), (''y'', JNum (Fin 2)), (''a'', JNum (Fin 3)),
                                   (''invalid'', JNum (Fin 0))]"
  have d: "deebotPosition s = JObj cached" by (simp add: s_def)
  have g: "get (JObj [(''deebotPos'', JObj same)]) ''chargePos'' = Inr JUndefined"
    "get (JObj [(''deebotPos'', JObj same)]) ''deebotPos'' = Inr (JObj same)"
    by (simp_all add: get_JObj)
  have i: "field_of (JObj same) ''invalid'' = JNum (Fin 0)"
    "field_of (JObj cached) ''isInvalid'' = JBool False"
    by (simp_all add: field_of_JObj same_def cached_def)
  note W = handlePos_numeric_invalid [OF g(1) handlePos_chargePos_absent g(2) d i]
  show ?thesis
    using W [THEN conjunct2, THEN conjunct1] W [THEN conjunct2, THEN conjunct2, THEN conjunct1]
    unfolding s_def cached_def same_def by (simp add: get_JObj)
qed

text \<open>
  The suppression the claim describes is what the comparison is written for: when the
  four compared values are strictly equal, which takes a payload whose \<open>invalid\<close> is the
  boolean the session holds, and the cached spot area is known, the handler returns the
  session as it was (\<open>handlePos_deebotPos_same\<close>). A cached spot area \<open>unknown\<close> makes the
  handler recompute by design, and a differing \<open>x\<close>, \<open>y\<close> or \<open>a\<close> rewrites the position
  as the claim says (\<open>handlePos_deebotPos_changed\<close>).
\<close>

lemma strict_eq_num_bool: "strict_eq (JNum n) (JBool b) = False"
  by (simp add: strict_eq_def)

section \<open>The clean log handler\<close>

text \<open>One turn of the loop, for an entry that is not \<open>undefined\<close> or \<open>null\<close>: nothing
  happens when the store holds the ID, else the entry is stored and the summary moves when
  the entry is newer.\<close>

lemma handleCleanLogs_step_eq:
  assumes "logEntry \<noteq> JUndefined" "logEntry \<noteq> JNull"
  shows "handleCleanLogs_step e logEntry s =
    (let key = ToString e (field_of logEntry ''id'');
         squareMeters = parseInt e (field_of logEntry ''area'');
         timestamp = ToNumber e (field_of logEntry ''ts'');
         len = parseInt e (field_of logEntry ''last'');
         totalTimeString = getTimeStringFormatted e len;
         imageUrl = field_of logEntry ''imageUrl'';
         s1 = (if num_less (ToNumber e (cleanLog_lastTimestamp s)) timestamp \<or>
                  \<not> truthy (cleanLog_lastTimestamp s)
               then s\<lparr>cleanLog_lastImageUrl := imageUrl,
                      cleanLog_lastTimestamp := JNum timestamp,
                      cleanLog_lastSquareMeters := JNum squareMeters,
                      cleanLog_lastTotalTime := JNum len,
                      cleanLog_lastTotalTimeString := totalTimeString\<rparr>
               else s)
     in if (case cleanLog s key of None \<Rightarrow> False | Some x \<Rightarrow> truthy x) then (s, Inr ())
        else (s1\<lparr>cleanLog := (cleanLog s1)(key \<mapsto>
           JObj [(''squareMeters'', JNum squareMeters),
                 (''timestamp'', JNum timestamp),
                 (''date'', JNum (Date_of (num_mul timestamp (Fin 1000)))),
                 (''lastTime'', JNum len),
                 (''totalTime'', JNum len),
                 (''totalTimeFormatted'', totalTimeString),
                 (''imageUrl'', imageUrl),
                 (''type'', field_of logEntry ''type''),
                 (''stopReason'', field_of logEntry ''stopReason'')])\<rparr>, Inr ()))"
proof -
  have g: "get logEntry k = Inr (field_of logEntry k)" for k
    using assms by (rule get_field_of)
  show ?thesis
    by (cases "cleanLog s (ToString e (field_of logEntry ''id''))")
       (simp_all add: handleCleanLogs_step_def attempt_def g Let_def)
qed

lemma handleCleanLogs_step_ok:
  "logEntry \<noteq> JUndefined \<Longrightarrow> logEntry \<noteq> JNull \<Longrightarrow> snd (handleCleanLogs_step e logEntry s) = Inr ()"
  by (simp add: handleCleanLogs_step_eq Let_def)

text \<open>The store during the loop: it holds exactly the IDs read so far, each with an
  entry (an object, so never falsy).\<close>

lemma handleCleanLogs_step_store:
  assumes "logEntry \<noteq> JUndefined" "logEntry \<noteq> JNull"
    and "\<forall>k. (cleanLog s k \<noteq> None) = (k \<in> K)" "\<forall>k v. cleanLog s k = Some v \<longrightarrow> truthy v"
  shows "(\<forall>k. (cleanLog (fst (handleCleanLogs_step e logEntry s)) k \<noteq> None) =
            (k \<in> insert (ToString e (field_of logEntry ''id'')) K)) \<and>
         (\<forall>k v. cleanLog (fst (handleCleanLogs_step e logEntry s)) k = Some v \<longrightarrow> truthy v)"
proof (cases "cleanLog s (ToString e (field_of logEntry ''id''))")
  case None
  then show ?thesis
    using assms(3,4) by (auto simp: handleCleanLogs_step_eq [OF assms(1,2)] Let_def truthy_def)
next
  case (Some x)
  with assms(4) have "truthy x" by blast
  with Some show ?thesis
    using assms(3,4) by (auto simp: handleCleanLogs_step_eq [OF assms(1,2)] Let_def)
qed

lemma handleCleanLogs_loop_store:
  "list_all (\<lambda>x. x \<noteq> JUndefined \<and> x \<noteq> JNull) logs \<Longrightarrow>
   \<forall>k. (cleanLog s k \<noteq> None) = (k \<in> K) \<Longrightarrow> \<forall>k v. cleanLog s k = Some v \<longrightarrow> truthy v \<Longrightarrow>
   snd (handleCleanLogs_loop e logs s) = Inr () \<and>
   (\<forall>k. (cleanLog (fst (handleCleanLogs_loop e logs s)) k \<noteq> None) = (k \<in> K \<union> log_ids e logs)) \<and>
   (\<forall>k v. cleanLog (fst (handleCleanLogs_loop e logs s)) k = Some v \<longrightarrow> truthy v)"
proof (induction logs arbitrary: s K)
  case Nil
  then show ?case by (simp add: log_ids_def)
next
  case (Cons logEntry logs)
  from Cons.prems(1) have n: "logEntry \<noteq> JUndefined" "logEntry \<noteq> JNull"
    and r: "list_all (\<lambda>x. x \<noteq> JUndefined \<and> x \<noteq> JNull) logs" by simp_all
  obtain s1 where st: "handleCleanLogs_step e logEntry s = (s1, Inr ())"
    using handleCleanLogs_step_ok [OF n, of e s] by (cases "handleCleanLogs_step e logEntry s") simp
  from handleCleanLogs_step_store [OF n Cons.prems(2,3), of e] st
  have i: "\<forall>k. (cleanLog s1 k \<noteq> None) = (k \<in> insert (ToString e (field_of logEntry ''id'')) K)"
    "\<forall>k v. cleanLog s1 k = Some v \<longrightarrow> truthy v"
    by simp_all
  from Cons.IH [OF r i] st show ?case by (simp add: log_ids_def)
qed

lemma handleCleanLogs_loop_append:
  "handleCleanLogs_loop e (logs @ [logEntry]) s =
     (case handleCleanLogs_loop e logs s of
        (s1, Inl err) \<Rightarrow> (s1, Inl err)
      | (s1, Inr u) \<Rightarrow> handleCleanLogs_step e logEntry s1)"
proof (induction logs arbitrary: s)
  case Nil
  show ?case by (cases "handleCleanLogs_step e logEntry s") (simp split: sum.splits)
next
  case (Cons x logs)
  show ?case
    by (cases "handleCleanLogs_step e x s") (simp add: Cons.IH split: sum.splits)
qed

text \<open>The entries the handler reads: those of \<open>logs\<close>, else of \<open>log\<close>, else of \<open>data\<close>.\<close>

lemma cleanLogs_of_JObj:
  "cleanLogs_of (JObj kvs) =
     Inr (case map_of kvs ''logs'' of
            Some l \<Rightarrow> l
          | None \<Rightarrow>
              (case map_of kvs ''log'' of
                 Some l \<Rightarrow> l
               | None \<Rightarrow> (case map_of kvs ''data'' of Some l \<Rightarrow> l | None \<Rightarrow> JArr [])))"
  by (cases "map_of kvs ''logs''"; cases "map_of kvs ''log''"; cases "map_of kvs ''data''")
     (simp_all add: cleanLogs_of_def hasOwnProperty_JObj get_JObj)

lemma handleCleanLogs_entries:
  "cleanLogs_of payload = Inr l \<Longrightarrow>
   handleCleanLogs e payload s =
     handleCleanLogs_loop e (for_in_values l) (s\<lparr>cleanLog := Map.empty\<rparr>)"
  by (simp add: handleCleanLogs_def attempt_def)

lemma handleCleanLogs_rebuilds:
  "handleCleanLogs e payload (s\<lparr>cleanLog := m\<rparr>) = handleCleanLogs e payload s"
  by (simp add: handleCleanLogs_def)

text \<open>The handler on a payload with one more entry, from the handler on the payload without
  it.\<close>

lemma handleCleanLogs_append:
  assumes p: "cleanLogs_of payload = Inr l" "for_in_values l = logs @ [logEntry]"
    and p0: "cleanLogs_of payload0 = Inr l0" "for_in_values l0 = logs"
    and ok: "list_all (\<lambda>x. x \<noteq> JUndefined \<and> x \<noteq> JNull) (logs @ [logEntry])"
  shows "handleCleanLogs e payload s =
      handleCleanLogs_step e logEntry (fst (handleCleanLogs e payload0 s))"
    and "cleanLog (fst (handleCleanLogs e payload0 s)) k \<noteq> None \<longleftrightarrow> k \<in> log_ids e logs"
    and "cleanLog (fst (handleCleanLogs e payload0 s)) k = Some v \<Longrightarrow> truthy v"
proof -
  from ok have r: "list_all (\<lambda>x. x \<noteq> JUndefined \<and> x \<noteq> JNull) logs" by simp
  have e0: "\<forall>k. (cleanLog (s\<lparr>cleanLog := Map.empty\<rparr>) k \<noteq> None) = (k \<in> {})"
    "\<forall>k v. cleanLog (s\<lparr>cleanLog := Map.empty\<rparr>) k = Some v \<longrightarrow> truthy v"
    by simp_all
  note L = handleCleanLogs_loop_store [OF r e0, of e]
  obtain s1 where s1: "handleCleanLogs_loop e logs (s\<lparr>cleanLog := Map.empty\<rparr>) = (s1, Inr ())"
    using L by (cases "handleCleanLogs_loop e logs (s\<lparr>cleanLog := Map.empty\<rparr>)") simp
  show "handleCleanLogs e payload s =
      handleCleanLogs_step e logEntry (fst (handleCleanLogs e payload0 s))"
    by (simp add: handleCleanLogs_entries [OF p(1)] handleCleanLogs_entries [OF p0(1)] p(2) p0(2)
        handleCleanLogs_loop_append s1)
  show "cleanLog (fst (handleCleanLogs e payload0 s)) k \<noteq> None \<longleftrightarrow> k \<in> log_ids e logs"
    using L by (simp add: handleCleanLogs_entries [OF p0(1)] p0(2))
  show "cleanLog (fst (handleCleanLogs e payload0 s)) k = Some v \<Longrightarrow> truthy v"
    using L by (simp add: handleCleanLogs_entries [OF p0(1)] p0(2))
qed

text \<open>Evaluations for the closed examples.\<close>

lemma parseInt_4: "parseInt e (JStr ''4'') = Fin 4"
  unfolding parseInt_def ToString.simps by code_simp

lemma parseInt_6: "parseInt e (JStr ''6'') = Fin 6"
  unfolding parseInt_def ToString.simps by code_simp

lemma parseInt_7: "parseInt e (JStr ''7'') = Fin 7"
  unfolding parseInt_def ToString.simps by code_simp

lemma Date_of_1000: "Date_of (num_mul (Fin 1) (Fin 1000)) = Fin 1000"
  by code_simp

lemma Date_of_2000: "Date_of (num_mul (Fin 2) (Fin 1000)) = Fin 2000"
  by code_simp

lemma sample_time_6: "getTimeStringFormatted sample_env (Fin 6) = JStr ''6s''"
  unfolding sample_env_def by code_simp

lemma sample_log_defined: "sample_log i a t \<noteq> JUndefined" "sample_log i a t \<noteq> JNull"
  by (simp_all add: sample_log_def)

lemma sample_log_fields:
  "field_of (sample_log i a t) ''id'' = JStr i"
  "field_of (sample_log i a t) ''area'' = JStr a"
  "field_of (sample_log i a t) ''ts'' = JNum (Fin t)"
  "field_of (sample_log i a t) ''last'' = JStr ''6''"
  "field_of (sample_log i a t) ''imageUrl'' = JStr ''u''"
  "field_of (sample_log i a t) ''type'' = JStr ''auto''"
  "field_of (sample_log i a t) ''stopReason'' = JNum (Fin 1)"
  by (simp_all add: sample_log_def field_of_JObj)

lemma sample_first:
  "handleCleanLogs sample_env (JObj [(''logs'', JArr [sample_log ''a'' ''4'' 1])]) s =
    (s\<lparr>cleanLog_lastImageUrl :=
          (if num_less (ToNumber sample_env (cleanLog_lastTimestamp s)) (Fin 1) \<or>
              \<not> truthy (cleanLog_lastTimestamp s) then JStr ''u'' else cleanLog_lastImageUrl s),
        cleanLog_lastTimestamp :=
          (if num_less (ToNumber sample_env (cleanLog_lastTimestamp s)) (Fin 1) \<or>
              \<not> truthy (cleanLog_lastTimestamp s) then JNum (Fin 1) else cleanLog_lastTimestamp s),
        cleanLog_lastSquareMeters :=
          (if num_less (ToNumber sample_env (cleanLog_lastTimestamp s)) (Fin 1) \<or>
              \<not> truthy (cleanLog_lastTimestamp s) then JNum (Fin 4) else cleanLog_lastSquareMeters s),
        cleanLog_lastTotalTime :=
          (if num_less (ToNumber sample_env (cleanLog_lastTimestamp s)) (Fin 1) \<or>
              \<not> truthy (cleanLog_lastTimestamp s) then JNum (Fin 6) else cleanLog_lastTotalTime s),
        cleanLog_lastTotalTimeString :=
          (if num_less (ToNumber sample_env (cleanLog_lastTimestamp s)) (Fin 1) \<or>
              \<not> truthy (cleanLog_lastTimestamp s) then JStr ''6s'' else cleanLog_lastTotalTimeString s),
        cleanLog := [''a'' \<mapsto>
           JObj [(''squareMeters'', JNum (Fin 4)), (''timestamp'', JNum (Fin 1)),
                 (''date'', JNum (Fin 1000)), (''lastTime'', JNum (Fin 6)),
                 (''totalTime'', JNum (Fin 6)), (''totalTimeFormatted'', JStr ''6s''),
                 (''imageUrl'', JStr ''u''), (''type'', JStr ''auto''),
                 (''stopReason'', JNum (Fin 1))]]\<rparr>, Inr ())"
  by (simp add: handleCleanLogs_entries [OF cleanLogs_of_JObj] for_in_values_def
      handleCleanLogs_step_eq sample_log_defined sample_log_fields
      Let_def parseInt_4 parseInt_6 ToNumber_JNum sample_time_6 Date_of_1000)

text \<open>
  Claim C5, as it is written. A store that holds the ID \<open>a\<close> receives a payload with the ID
  \<open>a\<close>: the stored entry is replaced by the payload's, because the handler empties the
  store first. And in one payload, a second entry with the ID \<open>a\<close> and a newer timestamp
  updates no summary field: the summary stays at the first entry's timestamp 1 and area 4.
\<close>

theorem clean_log_counterexample:
  "cleanLog (fst (handleCleanLogs sample_env (JObj [(''logs'', JArr [sample_log ''a'' ''4'' 1])])
      (sample_session\<lparr>cleanLog := [''a'' \<mapsto> JObj [(''squareMeters'', JNum (Fin 9))]]\<rparr>))) ''a'' =
     Some (JObj [(''squareMeters'', JNum (Fin 4)), (''timestamp'', JNum (Fin 1)),
                 (''date'', JNum (Fin 1000)), (''lastTime'', JNum (Fin 6)),
                 (''totalTime'', JNum (Fin 6)), (''totalTimeFormatted'', JStr ''6s''),
                 (''imageUrl'', JStr ''u''), (''type'', JStr ''auto''),
                 (''stopReason'', JNum (Fin 1))]) \<and>
   cleanLog_lastTimestamp (fst (handleCleanLogs sample_env
      (JObj [(''logs'', JArr [sample_log ''a'' ''4'' 1, sample_log ''a'' ''7'' 2])]) sample_session)) =
     JNum (Fin 1) \<and>
   cleanLog_lastSquareMeters (fst (handleCleanLogs sample_env
      (JObj [(''logs'', JArr [sample_log ''a'' ''4'' 1, sample_log ''a'' ''7'' 2])]) sample_session)) =
     JNum (Fin 4)"
proof -
  have t: "cleanLog_lastTimestamp sample_session = JNull" by (simp add: sample_session_def)
  have b: "handleCleanLogs sample_env
      (JObj [(''logs'', JArr ([sample_log ''a'' ''4'' 1] @ [sample_log ''a'' ''7'' 2]))]) sample_session =
    handleCleanLogs_step sample_env (sample_log ''a'' ''7'' 2)
      (fst (handleCleanLogs sample_env (JObj [(''logs'', JArr [sample_log ''a'' ''4'' 1])]) sample_session))"
  proof (rule handleCleanLogs_append)
    show "cleanLogs_of (JObj [(''logs'', JArr ([sample_log ''a'' ''4'' 1] @ [sample_log ''a'' ''7'' 2]))]) =
        Inr (JArr ([sample_log ''a'' ''4'' 1] @ [sample_log ''a'' ''7'' 2]))"
      by (simp add: cleanLogs_of_JObj)
    show "for_in_values (JArr ([sample_log ''a'' ''4'' 1] @ [sample_log ''a'' ''7'' 2])) =
        [sample_log ''a'' ''4'' 1] @ [sample_log ''a'' ''7'' 2]"
      by (simp add: for_in_values_def)
    show "cleanLogs_of (JObj [(''logs'', JArr [sample_log ''a'' ''4'' 1])]) =
        Inr (JArr [sample_log ''a'' ''4'' 1])"
      by (simp add: cleanLogs_of_JObj)
    show "for_in_values (JArr [sample_log ''a'' ''4'' 1]) = [sample_log ''a'' ''4'' 1]"
      by (simp add: for_in_values_def)
    show "list_all (\<lambda>x. x \<noteq> JUndefined \<and> x \<noteq> JNull)
        ([sample_log ''a'' ''4'' 1] @ [sample_log ''a'' ''7'' 2])"
      by (simp add: sample_log_defined)
  qed
  show ?thesis
    using b
    by (simp add: sample_first handleCleanLogs_step_eq sample_log_defined sample_log_fields
        Let_def truthy_def t)
qed

text \<open>
  Claim C5, amended. \<open>handleCleanLogs\<close> empties the log store and rebuilds it from the
  entries of the payload (those of its \<open>logs\<close>, else of its \<open>log\<close>, else of its \<open>data\<close>),
  so what the store held before has no influence, and a payload without entries leaves the
  store empty. Within one payload the first entry with an ID wins: an entry whose ID an
  earlier entry of the payload has changes nothing, neither the store nor the summary. An
  entry with a new ID is stored under its ID, the other entries stay as they are, and when
  its timestamp is newer than the last timestamp (or none is recorded) all the summary
  fields (image URL, timestamp, square meters, total time, formatted time) become those of
  the entry; otherwise the summary stays. The handler does not fail on entries that are
  not \<open>undefined\<close> or \<open>null\<close>. The statement compares the handler on a payload with the
  entries \<open>logs\<close> and one more, \<open>logEntry\<close>, with the handler on a payload with the entries
  \<open>logs\<close>.
\<close>

theorem clean_log_ingestion:
  assumes "cleanLogs_of payload = Inr l" "for_in_values l = logs @ [logEntry]"
    and "cleanLogs_of payload0 = Inr l0" "for_in_values l0 = logs"
    and "list_all (\<lambda>x. x \<noteq> JUndefined \<and> x \<noteq> JNull) (logs @ [logEntry])"
  shows
   "handleCleanLogs e payload (s\<lparr>cleanLog := m\<rparr>) = handleCleanLogs e payload s \<and>
    cleanLogs_of (JObj kvs) =
      Inr (case map_of kvs ''logs'' of
             Some x \<Rightarrow> x
           | None \<Rightarrow>
               (case map_of kvs ''log'' of
                  Some x \<Rightarrow> x
                | None \<Rightarrow> (case map_of kvs ''data'' of Some x \<Rightarrow> x | None \<Rightarrow> JArr []))) \<and>
    (logs = [] \<longrightarrow> handleCleanLogs e payload0 s = (s\<lparr>cleanLog := Map.empty\<rparr>, Inr ())) \<and>
    snd (handleCleanLogs e payload s) = Inr () \<and>
    (ToString e (field_of logEntry ''id'') \<in> log_ids e logs \<longrightarrow>
       fst (handleCleanLogs e payload s) = fst (handleCleanLogs e payload0 s)) \<and>
    (ToString e (field_of logEntry ''id'') \<notin> log_ids e logs \<longrightarrow>
       (let before = fst (handleCleanLogs e payload0 s);
            after = fst (handleCleanLogs e payload s);
            newer = (num_less (ToNumber e (cleanLog_lastTimestamp before))
                       (ToNumber e (field_of logEntry ''ts'')) \<or>
                     \<not> truthy (cleanLog_lastTimestamp before))
        in cleanLog after = (cleanLog before)(ToString e (field_of logEntry ''id'') \<mapsto>
             JObj [(''squareMeters'', JNum (parseInt e (field_of logEntry ''area''))),
                   (''timestamp'', JNum (ToNumber e (field_of logEntry ''ts''))),
                   (''date'', JNum (Date_of (num_mul (ToNumber e (field_of logEntry ''ts'')) (Fin 1000)))),
                   (''lastTime'', JNum (parseInt e (field_of logEntry ''last''))),
                   (''totalTime'', JNum (parseInt e (field_of logEntry ''last''))),
                   (''totalTimeFormatted'',
                      getTimeStringFormatted e (parseInt e (field_of logEntry ''last''))),
                   (''imageUrl'', field_of logEntry ''imageUrl''),
                   (''type'', field_of logEntry ''type''),
                   (''stopReason'', field_of logEntry ''stopReason'')]) \<and>
           (newer \<longrightarrow>
              cleanLog_lastImageUrl after = field_of logEntry ''imageUrl'' \<and>
              cleanLog_lastTimestamp after = JNum (ToNumber e (field_of logEntry ''ts'')) \<and>
              cleanLog_lastSquareMeters after = JNum (parseInt e (field_of logEntry ''area'')) \<and>
              cleanLog_lastTotalTime after = JNum (parseInt e (field_of logEntry ''last'')) \<and>
              cleanLog_lastTotalTimeString after =
                getTimeStringFormatted e (parseInt e (field_of logEntry ''last''))) \<and>
           (\<not> newer \<longrightarrow>
              cleanLog_lastImageUrl after = cleanLog_lastImageUrl before \<and>
              cleanLog_lastTimestamp after = cleanLog_lastTimestamp before \<and>
              cleanLog_lastSquareMeters after = cleanLog_lastSquareMeters before \<and>
              cleanLog_lastTotalTime after = cleanLog_lastTotalTime before \<and>
              cleanLog_lastTotalTimeString after = cleanLog_lastTotalTimeString before)))"
proof -
  define before where "before = fst (handleCleanLogs e payload0 s)"
  from assms(5) have n: "logEntry \<noteq> JUndefined" "logEntry \<noteq> JNull" by simp_all
  note A = handleCleanLogs_append [OF assms, of e s]
  have a: "handleCleanLogs e payload s = handleCleanLogs_step e logEntry before"
    unfolding before_def by (rule A(1))
  have 1: "handleCleanLogs e payload (s\<lparr>cleanLog := m\<rparr>) = handleCleanLogs e payload s"
    by (rule handleCleanLogs_rebuilds)
  have 2: "handleCleanLogs e payload0 s = (s\<lparr>cleanLog := Map.empty\<rparr>, Inr ())" if "logs = []"
    using that by (simp add: handleCleanLogs_entries [OF assms(3)] assms(4))
  have 3: "snd (handleCleanLogs e payload s) = Inr ()"
    unfolding a by (rule handleCleanLogs_step_ok [OF n])
  have 4: "fst (handleCleanLogs e payload s) = before"
    if "ToString e (field_of logEntry ''id'') \<in> log_ids e logs"
  proof -
    from that A(2) [of "ToString e (field_of logEntry ''id'')"]
    obtain v where v: "cleanLog before (ToString e (field_of logEntry ''id'')) = Some v"
      unfolding before_def by blast
    from A(3) [OF v [unfolded before_def]] have "truthy v" .
    with v show ?thesis unfolding a by (simp add: handleCleanLogs_step_eq [OF n] Let_def)
  qed
  have 5: "cleanLog before (ToString e (field_of logEntry ''id'')) = None"
    if "ToString e (field_of logEntry ''id'') \<notin> log_ids e logs"
    using that A(2) [of "ToString e (field_of logEntry ''id'')"] unfolding before_def by blast
  show ?thesis
    unfolding before_def [symmetric]
    using 1 2 3 4 5 unfolding a
    by (simp add: handleCleanLogs_step_eq [OF n] Let_def cleanLogs_of_JObj)
qed

text \<open>After the entry \<open>a\<close> at time 1: a second \<open>a\<close> at time 2 changes nothing, and an entry
  \<open>b\<close> at time 2 is stored beside \<open>a\<close> and moves the summary.\<close>

theorem clean_log_ingestion_witness:
  "fst (handleCleanLogs sample_env
      (JObj [(''logs'', JArr [sample_log ''a'' ''4'' 1, sample_log ''a'' ''7'' 2])]) sample_session) =
   fst (handleCleanLogs sample_env (JObj [(''logs'', JArr [sample_log ''a'' ''4'' 1])]) sample_session) \<and>
   cleanLog_lastTimestamp (fst (handleCleanLogs sample_env
      (JObj [(''logs'', JArr [sample_log ''a'' ''4'' 1])]) sample_session)) = JNum (Fin 1) \<and>
   cleanLog (fst (handleCleanLogs sample_env
      (JObj [(''logs'', JArr [sample_log ''a'' ''4'' 1, sample_log ''b'' ''7'' 2])]) sample_session)) =
     [''a'' \<mapsto>
        JObj [(''squareMeters'', JNum (Fin 4)), (''timestamp'', JNum (Fin 1)),
              (''date'', JNum (Fin 1000)), (''lastTime'', JNum (Fin 6)),
              (''totalTime'', JNum (Fin 6)), (''totalTimeFormatted'', JStr ''6s''),
              (''imageUrl'', JStr ''u''), (''type'', JStr ''auto''),
              (''stopReason'', JNum (Fin 1))],
      ''b'' \<mapsto>
        JObj [(''squareMeters'', JNum (Fin 7)), (''timestamp'', JNum (Fin 2)),
              (''date'', JNum (Fin 2000)), (''lastTime'', JNum (Fin 6)),
              (''totalTime'', JNum (Fin 6)), (''totalTimeFormatted'', JStr ''6s''),
              (''imageUrl'', JStr ''u''), (''type'', JStr ''auto''),
              (''stopReason'', JNum (Fin 1))]] \<and>
   cleanLog_lastTimestamp (fst (handleCleanLogs sample_env
      (JObj [(''logs'', JArr [sample_log ''a'' ''4'' 1, sample_log ''b'' ''7'' 2])]) sample_session)) =
     JNum (Fin 2) \<and>
   cleanLog_lastSquareMeters (fst (handleCleanLogs sample_env
      (JObj [(''logs'', JArr [sample_log ''a'' ''4'' 1, sample_log ''b'' ''7'' 2])]) sample_session)) =
     JNum (Fin 7)"
proof -
  have p: "cleanLogs_of (JObj [(''logs'', JArr xs)]) = Inr (JArr xs)" for xs
    by (simp add: cleanLogs_of_JObj)
  have v: "for_in_values (JArr xs) = xs" for xs by (simp add: for_in_values_def)
  have ok: "list_all (\<lambda>x. x \<noteq> JUndefined \<and> x \<noteq> JNull) ([sample_log ''a'' ''4'' 1] @ [sample_log i a t])"
    for i a t by (simp add: sample_log_defined)
  have ids: "log_ids sample_env [sample_log ''a'' ''4'' 1] = {''a''}"
    by (simp add: log_ids_def sample_log_fields)
  have t: "cleanLog_lastTimestamp sample_session = JNull" by (simp add: sample_session_def)
  note T = clean_log_ingestion [OF p _ p v, where e = sample_env and s = sample_session
      and m = Map.empty and kvs = "[]"]
  have i1: "fst (handleCleanLogs sample_env
      (JObj [(''logs'', JArr ([sample_log ''a'' ''4'' 1] @ [sample_log ''a'' ''7'' 2]))]) sample_session) =
    fst (handleCleanLogs sample_env (JObj [(''logs'', JArr [sample_log ''a'' ''4'' 1])]) sample_session)"
    by (rule T [OF v ok [of "''a''" "''7''" 2],
          THEN conjunct2, THEN conjunct2, THEN conjunct2, THEN conjunct2, THEN conjunct1, rule_format])
       (simp add: ids sample_log_fields)
  note N = T [OF v ok [of "''b''" "''7''" 2],
      THEN conjunct2, THEN conjunct2, THEN conjunct2, THEN conjunct2, THEN conjunct2, rule_format]
  have n: "ToString sample_env (field_of (sample_log ''b'' ''7'' 2) ''id'') \<notin>
      log_ids sample_env [sample_log ''a'' ''4'' 1]"
    by (simp add: ids sample_log_fields)
  have i2: "cleanLog (fst (handleCleanLogs sample_env
      (JObj [(''logs'', JArr ([sample_log ''a'' ''4'' 1] @ [sample_log ''b'' ''7'' 2]))]) sample_session)) =
     [''a'' \<mapsto>
        JObj [(''squareMeters'', JNum (Fin 4)), (''timestamp'', JNum (Fin 1)),
              (''date'', JNum (Fin 1000)), (''lastTime'', JNum (Fin 6)),
              (''totalTime'', JNum (Fin 6)), (''totalTimeFormatted'', JStr ''6s''),
              (''imageUrl'', JStr ''u''), (''type'', JStr ''auto''),
              (''stopReason'', JNum (Fin 1))],
      ''b'' \<mapsto>
        JObj [(''squareMeters'', JNum (Fin 7)), (''timestamp'', JNum (Fin 2)),
              (''date'', JNum (Fin 2000)), (''lastTime'', JNum (Fin 6)),
              (''totalTime'', JNum (Fin 6)), (''totalTimeFormatted'', JStr ''6s''),
              (''imageUrl'', JStr ''u''), (''type'', JStr ''auto''),
              (''stopReason'', JNum (Fin 1))]]"
    using N [OF n]
    by (simp add: Let_def sample_first sample_log_fields parseInt_7 parseInt_6 ToNumber_JNum
        sample_time_6 Date_of_2000)
  have i3: "cleanLog_lastTimestamp (fst (handleCleanLogs sample_env
      (JObj [(''logs'', JArr ([sample_log ''a'' ''4'' 1] @ [sample_log ''b'' ''7'' 2]))]) sample_session)) =
     JNum (Fin 2) \<and>
    cleanLog_lastSquareMeters (fst (handleCleanLogs sample_env
      (JObj [(''logs'', JArr ([sample_log ''a'' ''4'' 1] @ [sample_log ''b'' ''7'' 2]))]) sample_session)) =
     JNum (Fin 7)"
    using N [OF n]
    by (simp add: Let_def sample_first sample_log_fields parseInt_7 ToNumber_JNum num_less_Fin
        truthy_def t)
  have i0: "cleanLog_lastTimestamp (fst (handleCleanLogs sample_env
      (JObj [(''logs'', JArr [sample_log ''a'' ''4'' 1])]) sample_session)) = JNum (Fin 1)"
    by (simp add: sample_first truthy_def t)
  show ?thesis
    using i0 i1 i2 i3 by simp
qed

section \<open>The map set handler\<close>























section \<open>Commands with missing arguments\<close>

lemma lower_SpotArea_V2: "toLowerCase (JStr ''SpotArea_V2'') = Inr ''spotarea_v2''"
  by (simp add: toLowerCase_def lower_char_def)

lemma run_switch_spotarea_v2: "run_switch e ''spotarea_v2'' [] s = (s, Inl TypeError)"
  by (simp add: run_switch_def attempt_def arg_def method_toString_def)

text \<open>
  Claim C7: a command whose required arguments are missing sends no request, raises no
  error and leaves the session unchanged. On the 950-type path \<open>run('SpotArea_V2')\<close>
  with no argument raises a \<open>TypeError\<close>: the case reads \<open>args[0].toString()\<close> before it
  tests the area, whatever the base class did with the command. The cases
  \<open>CustomArea_V2\<close>, \<open>MapPoint_V2\<close> and \<open>GetMapImage\<close> start the same way.
\<close>

theorem run_SpotArea_V2_throws: "snd (run e (JStr ''SpotArea_V2'') [] s) = Inl TypeError"
proof (cases "super_run e (JStr ''SpotArea_V2'') [] s")
  case (Pair s1 r)
  show ?thesis
  proof (cases r)
    case (Inl err)
    with Pair show ?thesis by (cases err) (simp add: run_def)
  next
    case (Inr sent)
    with Pair show ?thesis
      by (simp add: run_def attempt_def lower_SpotArea_V2 run_switch_spotarea_v2)
  qed
qed

text \<open>
  What does hold: on the non-950 path \<open>run\<close> never changes the session, and \<open>SpotArea\<close>
  with fewer than two arguments, \<open>CustomArea\<close> with fewer than three, \<open>GetLifeSpan\<close> and
  \<open>SetWaterLevel\<close> with none send nothing; on the 950-type path every case of the form
  \<open>if (args.length >= k)\<close>, \<open>SetVolume\<close> among them, adds nothing to what the base class
  did when fewer than \<open>k\<close> arguments are given.
\<close>

lemma run_non950_frame: "fst (run_non950 action args s) = s"
proof -
  define Q :: "vacbot_non950 \<times> (error + command list) \<Rightarrow> bool" where "Q = (\<lambda>r. fst r = s)"
  have "Q (run_non950 action args s)"
    unfolding run_non950_def
    by (intro attempt_intro [where P = Q] if_intro [where P = Q]) (simp_all add: Q_def)
  then show ?thesis by (simp add: Q_def)
qed

lemma lower_names:
  "toLowerCase (JStr ''SpotArea'') = Inr ''spotarea''"
  "toLowerCase (JStr ''CustomArea'') = Inr ''customarea''"
  "toLowerCase (JStr ''GetLifeSpan'') = Inr ''getlifespan''"
  "toLowerCase (JStr ''SetWaterLevel'') = Inr ''setwaterlevel''"
  "toLowerCase (JStr ''SetVolume'') = Inr ''setvolume''"
  by (simp_all add: toLowerCase_def lower_char_def)

lemma run_non950_spotarea: "length args < 2 \<Longrightarrow> run_non950 (JStr ''SpotArea'') args s = (s, Inr [])"
  by (simp add: run_non950_def attempt_def lower_names)

lemma run_non950_customarea: "length args < 3 \<Longrightarrow> run_non950 (JStr ''CustomArea'') args s = (s, Inr [])"
  by (simp add: run_non950_def attempt_def lower_names)

lemma run_non950_getlifespan: "run_non950 (JStr ''GetLifeSpan'') [] s = (s, Inr [])"
  by (simp add: run_non950_def attempt_def lower_names)

lemma run_non950_setwaterlevel: "run_non950 (JStr ''SetWaterLevel'') [] s = (s, Inr [])"
  by (simp add: run_non950_def attempt_def lower_names)

lemma run_switch_setvolume: "run_switch e ''setvolume'' [] s = (s, Inr [])"
  by (simp add: run_switch_def run_always_def run_guarded_def)

lemma run_setvolume:
  "super_run e (JStr ''SetVolume'') [] s = (s1, Inr sent) \<Longrightarrow>
   run e (JStr ''SetVolume'') [] s = (s1, Inr sent)"
  by (simp add: run_def attempt_def lower_names run_switch_setvolume)

lemma run_switch_guarded:
  "(c, k, name, n) \<in> set run_guarded \<Longrightarrow> length args < k \<Longrightarrow>
   run_switch e c args s = (s, Inr [])"
  unfolding run_guarded_def
  by (elim disjE conjE | simp only: set_simps insert_iff empty_iff prod.inject)+
     (simp_all add: run_switch_def run_always_def run_guarded_def)

end
